theory Spec2Isabelle
  imports Main "HOL-Library.AList"
begin

section \<open>Data model\<close>

text \<open>
  The deps.dev response types of the client file (\<^verbatim>\<open>DepsDevDependencyGraph\<close>,
  \<^verbatim>\<open>DepsDevNode\<close>, \<^verbatim>\<open>DepsDevVersionKey\<close>, \<^verbatim>\<open>DepsDevEdge\<close>). The fields \<^verbatim>\<open>Name\<close> and
  \<^verbatim>\<open>Version\<close> of the version key are called \<open>KeyName\<close> and \<open>KeyVersion\<close> here, because
  the package record below has fields of the same names.
\<close>

record DepsDevVersionKey =
  System :: string
  KeyName :: string
  KeyVersion :: string

record DepsDevNode =
  VersionKey :: DepsDevVersionKey
  Bundled :: bool
  Relation :: string
  Errors :: "string list"

record DepsDevEdge =
  FromNode :: int
  ToNode :: int
  Requirement :: string

record DepsDevDependencyGraph =
  Nodes :: "DepsDevNode list"
  Edges :: "DepsDevEdge list"

text \<open>
  The fields of \<^verbatim>\<open>javalockfile.Metadata\<close> and of \<^verbatim>\<open>extractor.Package\<close> that the enrichers
  read or write. A package of the inventory is a value here: the inventory is taken to
  hold distinct package objects.
\<close>

record javalockfile_Metadata =
  ArtifactID :: string
  GroupID :: string
  IsTransitive :: bool

record Package =
  Name :: string
  Version :: string
  PURLType :: string
  Locations :: "string list"
  Plugins :: "string list"
  Metadata :: "javalockfile_Metadata option"

record packageWithIndex =
  pkg :: Package
  index :: nat

text \<open>
  Every error value the four files build with \<^verbatim>\<open>fmt.Errorf\<close>, with the arguments of its
  format string; the wrapped library error is left out.
\<close>

datatype error =
    CreateRequestFailed
  | RequestFailed string string
  | BadStatus int string string string
  | DecodeFailed string string
  | NoDependenciesResolved
  | NoMavenDependenciesResolved

text \<open>A call of \<^verbatim>\<open>log.Warnf\<close>: the format string, its string arguments, the error.\<close>

datatype warning = Warnf string "string list" error

text \<open>A run-time panic of Go: an index outside a slice.\<close>

datatype panic = IndexOutOfRange

text \<open>What \<^verbatim>\<open>http.DefaultClient.Do\<close> gives back: an error, or a response.\<close>

datatype http_result = DoError | Response int string

text \<open>
  A Go map whose iteration matters is an association list with distinct keys: \<open>map_of\<close>
  reads it, \<open>AList.update\<close> writes it, \<open>length\<close> is \<^verbatim>\<open>len\<close>.
\<close>

type_synonym pkgMap = "(string \<times> packageWithIndex) list"

type_synonym pkgGroups = "(string \<times> pkgMap) list"

text \<open>
  What the code takes from outside this repository: the Go standard library
  (\<^verbatim>\<open>url.PathEscape\<close>, \<^verbatim>\<open>http.NewRequestWithContext\<close>, \<^verbatim>\<open>http.DefaultClient.Do\<close> acting on
  a network of type \<open>'w\<close>, \<^verbatim>\<open>json.Decoder.Decode\<close>, the part of \<^verbatim>\<open>strings.ToLower\<close> that
  uses the Unicode tables), the order in which \<^verbatim>\<open>range\<close> visits the two kinds of map,
  and the constants \<^verbatim>\<open>requirements.Name\<close>, \<^verbatim>\<open>purl.TypePyPi\<close> and \<^verbatim>\<open>purl.TypeMaven\<close>.
  Go leaves the order of \<^verbatim>\<open>range\<close> over a map open: \<open>rangeGroups\<close> and \<open>rangeEntries\<close>
  give the entries of a map in the order of the walk, and the theorems hold for every
  such pair of functions.
\<close>

record 'w externals =
  PathEscape :: "string \<Rightarrow> string"
  NewRequest :: "string \<Rightarrow> bool"
  Do :: "'w \<Rightarrow> string \<Rightarrow> http_result \<times> 'w"
  Decode :: "string \<Rightarrow> DepsDevDependencyGraph option"
  UnicodeToLower :: "string \<Rightarrow> string"
  rangeGroups :: "pkgGroups \<Rightarrow> pkgGroups"
  rangeEntries :: "pkgMap \<Rightarrow> pkgMap"
  requirements_Name :: string
  purl_TypePyPi :: string
  purl_TypeMaven :: string

section \<open>Graph client\<close>

text \<open>The client of the unnamed client file; the mutex is not modelled.\<close>

record DepsDevRESTClient =
  baseURL :: string
  system :: string
  cache :: "string \<rightharpoonup> DepsDevDependencyGraph"

definition NewPyPIDepsDevClient :: "string \<Rightarrow> DepsDevRESTClient" where
  "NewPyPIDepsDevClient url = \<lparr>baseURL = url, system = ''pypi'', cache = Map.empty\<rparr>"

definition NewMavenDepsDevClient :: "string \<Rightarrow> DepsDevRESTClient" where
  "NewMavenDepsDevClient url = \<lparr>baseURL = url, system = ''maven'', cache = Map.empty\<rparr>"

text \<open>The local variables \<^verbatim>\<open>cacheKey\<close> and \<^verbatim>\<open>reqURL\<close> of \<^verbatim>\<open>GetDependencies\<close>.\<close>

definition cacheKey :: "DepsDevRESTClient \<Rightarrow> string \<Rightarrow> string \<Rightarrow> string" where
  "cacheKey c name version = system c @ ''/'' @ name @ ''@'' @ version"

definition reqURL :: "'w externals \<Rightarrow> DepsDevRESTClient \<Rightarrow> string \<Rightarrow> string \<Rightarrow> string" where
  "reqURL ext c name version =
     baseURL c @ ''/v3/systems/'' @ system c @ ''/packages/'' @ PathEscape ext name
       @ ''/versions/'' @ PathEscape ext version @ '':dependencies''"

definition GetDependencies ::
  "'w externals \<Rightarrow> DepsDevRESTClient \<Rightarrow> 'w \<Rightarrow> string \<Rightarrow> string
    \<Rightarrow> (error + DepsDevDependencyGraph) \<times> DepsDevRESTClient \<times> 'w" where
  "GetDependencies ext c w name version =
     (case cache c (cacheKey c name version) of
        Some cached \<Rightarrow> (Inr cached, c, w)
      | None \<Rightarrow>
          if \<not> NewRequest ext (reqURL ext c name version)
          then (Inl CreateRequestFailed, c, w)
          else (case Do ext w (reqURL ext c name version) of
                  (DoError, w') \<Rightarrow> (Inl (RequestFailed name version), c, w')
                | (Response status body, w') \<Rightarrow>
                    if status \<noteq> 200
                    then (Inl (BadStatus status name version body), c, w')
                    else (case Decode ext body of
                            None \<Rightarrow> (Inl (DecodeFailed name version), c, w')
                          | Some graph \<Rightarrow>
                              (Inr graph,
                               c\<lparr>cache := (cache c)(cacheKey c name version \<mapsto> graph)\<rparr>,
                               w'))))"

text \<open>
  The client of \<^verbatim>\<open>depsdev_pypi_client.go\<close>, which has no \<^verbatim>\<open>system\<close> field: the cache key
  is \<^verbatim>\<open>name@version\<close> and the URL names \<^verbatim>\<open>pypi\<close>.
\<close>

record PyPIDepsDevClient =
  pypi_baseURL :: string
  pypi_cache :: "string \<rightharpoonup> DepsDevDependencyGraph"

definition pypi_cacheKey :: "string \<Rightarrow> string \<Rightarrow> string" where
  "pypi_cacheKey name version = name @ ''@'' @ version"

definition pypi_reqURL :: "'w externals \<Rightarrow> PyPIDepsDevClient \<Rightarrow> string \<Rightarrow> string \<Rightarrow> string" where
  "pypi_reqURL ext c name version =
     pypi_baseURL c @ ''/v3/systems/pypi/packages/'' @ PathEscape ext name
       @ ''/versions/'' @ PathEscape ext version @ '':dependencies''"

definition PyPI_GetDependencies ::
  "'w externals \<Rightarrow> PyPIDepsDevClient \<Rightarrow> 'w \<Rightarrow> string \<Rightarrow> string
    \<Rightarrow> (error + DepsDevDependencyGraph) \<times> PyPIDepsDevClient \<times> 'w" where
  "PyPI_GetDependencies ext c w name version =
     (case pypi_cache c (pypi_cacheKey name version) of
        Some cached \<Rightarrow> (Inr cached, c, w)
      | None \<Rightarrow>
          if \<not> NewRequest ext (pypi_reqURL ext c name version)
          then (Inl CreateRequestFailed, c, w)
          else (case Do ext w (pypi_reqURL ext c name version) of
                  (DoError, w') \<Rightarrow> (Inl (RequestFailed name version), c, w')
                | (Response status body, w') \<Rightarrow>
                    if status \<noteq> 200
                    then (Inl (BadStatus status name version body), c, w')
                    else (case Decode ext body of
                            None \<Rightarrow> (Inl (DecodeFailed name version), c, w')
                          | Some graph \<Rightarrow>
                              (Inr graph,
                               c\<lparr>pypi_cache :=
                                   (pypi_cache c)(pypi_cacheKey name version \<mapsto> graph)\<rparr>,
                               w'))))"

section \<open>Library functions\<close>

text \<open>
  \<^verbatim>\<open>strings.ToLower\<close>: on a string of ASCII bytes it lowers the bytes \<^verbatim>\<open>A\<close> to \<^verbatim>\<open>Z\<close>; on
  any other string it maps \<^verbatim>\<open>unicode.ToLower\<close> over the runes, which is the field
  \<open>UnicodeToLower\<close> of the externals.
\<close>

definition lower_byte :: "char \<Rightarrow> char" where
  "lower_byte c =
     (let n = (of_char c :: nat) in if 65 \<le> n \<and> n \<le> 90 then char_of (n + 32) else c)"

definition isASCII :: "string \<Rightarrow> bool" where
  "isASCII s = list_all (\<lambda>c. (of_char c :: nat) < 128) s"

definition ToLower :: "'w externals \<Rightarrow> string \<Rightarrow> string" where
  "ToLower ext s = (if isASCII s then map lower_byte s else UnicodeToLower ext s)"

text \<open>\<^verbatim>\<open>strings.Cut\<close> with a separator of one byte: before, after, found.\<close>

definition Cut :: "string \<Rightarrow> char \<Rightarrow> string \<times> string \<times> bool" where
  "Cut s sep =
     (case dropWhile (\<lambda>c. c \<noteq> sep) s of
        [] \<Rightarrow> (s, [], False)
      | c # after \<Rightarrow> (takeWhile (\<lambda>c. c \<noteq> sep) s, after, True))"

section \<open>What both enrichers share\<close>

text \<open>
  The state an enricher runs in: its client, the network, and the warnings logged so far.
\<close>

record 'w session =
  client :: DepsDevRESTClient
  world :: 'w
  warnings :: "warning list"

text \<open>
  The three statements that put an inventory entry into its group:
  \<^verbatim>\<open>if _, ok := pkgGroups[path]; !ok { pkgGroups[path] = make(...) }\<close> and
  \<^verbatim>\<open>pkgGroups[path][pkg.Name] = packageWithIndex{pkg, i}\<close>.
\<close>

definition groupInsert :: "string \<Rightarrow> Package \<Rightarrow> nat \<Rightarrow> pkgGroups \<Rightarrow> pkgGroups" where
  "groupInsert path p i pkgGroups =
     AList.update path
       (AList.update (Name p) \<lparr>pkg = p, index = i\<rparr>
          (case map_of pkgGroups path of None \<Rightarrow> [] | Some pkgMap \<Rightarrow> pkgMap))
       pkgGroups"

section \<open>PyPI enricher\<close>

definition PyPIDepsDevEnricherName :: string where
  "PyPIDepsDevEnricherName = ''transitivedependency/requirements/depsdev''"

text \<open>
  The enricher holds a \<^verbatim>\<open>*PyPIDepsDevClient\<close>, which the client file with the \<^verbatim>\<open>system\<close>
  field declares as an alias of \<^verbatim>\<open>DepsDevRESTClient\<close>: its calls are calls of
  \<open>GetDependencies\<close> on a client made by \<open>NewPyPIDepsDevClient\<close>.
\<close>

text \<open>The body of the loop over \<^verbatim>\<open>graph.Nodes\<close>, and the loop.\<close>

definition PyPI_resolveGroup_node ::
  "'w externals \<Rightarrow> string \<Rightarrow> DepsDevNode \<Rightarrow> (string \<Rightarrow> bool) \<times> Package list
    \<Rightarrow> (string \<Rightarrow> bool) \<times> Package list" where
  "PyPI_resolveGroup_node ext path node sr =
     (case sr of (seen, result) \<Rightarrow>
        if Relation node = ''SELF'' then (seen, result)
        else (let name = ToLower ext (KeyName (VersionKey node));
                  key = name @ ''@'' @ KeyVersion (VersionKey node)
              in if seen key then (seen, result)
                 else (seen(key := True),
                       result @ [\<lparr>Name = name, Version = KeyVersion (VersionKey node),
                                  PURLType = purl_TypePyPi ext, Locations = [path],
                                  Plugins = [PyPIDepsDevEnricherName],
                                  Metadata = None\<rparr>])))"

primrec PyPI_resolveGroup_nodes ::
  "'w externals \<Rightarrow> string \<Rightarrow> DepsDevNode list \<Rightarrow> (string \<Rightarrow> bool) \<times> Package list
    \<Rightarrow> (string \<Rightarrow> bool) \<times> Package list" where
  "PyPI_resolveGroup_nodes ext path [] sr = sr"
| "PyPI_resolveGroup_nodes ext path (node # nodes) sr =
     PyPI_resolveGroup_nodes ext path nodes (PyPI_resolveGroup_node ext path node sr)"

text \<open>The body of the loop over \<^verbatim>\<open>pkgMap\<close>, and the loop.\<close>

definition PyPI_resolveGroup_entry ::
  "'w externals \<Rightarrow> string \<Rightarrow> packageWithIndex
    \<Rightarrow> 'w session \<times> (string \<Rightarrow> bool) \<times> Package list
    \<Rightarrow> 'w session \<times> (string \<Rightarrow> bool) \<times> Package list" where
  "PyPI_resolveGroup_entry ext path indexPkg st =
     (case st of (s, sr) \<Rightarrow>
        if Version (pkg indexPkg) = [] then (s, sr)
        else (case GetDependencies ext (client s) (world s)
                     (Name (pkg indexPkg)) (Version (pkg indexPkg)) of
                (Inl err, c', w') \<Rightarrow>
                  (\<lparr>client = c', world = w',
                    warnings = warnings s @
                      [Warnf ''deps.dev: failed to get dependencies for %s@%s: %v''
                         [Name (pkg indexPkg), Version (pkg indexPkg)] err]\<rparr>, sr)
              | (Inr graph, c', w') \<Rightarrow>
                  (\<lparr>client = c', world = w', warnings = warnings s\<rparr>,
                   PyPI_resolveGroup_nodes ext path (Nodes graph) sr)))"

primrec PyPI_resolveGroup_entries ::
  "'w externals \<Rightarrow> string \<Rightarrow> packageWithIndex list
    \<Rightarrow> 'w session \<times> (string \<Rightarrow> bool) \<times> Package list
    \<Rightarrow> 'w session \<times> (string \<Rightarrow> bool) \<times> Package list" where
  "PyPI_resolveGroup_entries ext path [] st = st"
| "PyPI_resolveGroup_entries ext path (indexPkg # rest) st =
     PyPI_resolveGroup_entries ext path rest (PyPI_resolveGroup_entry ext path indexPkg st)"

definition PyPI_resolveGroup ::
  "'w externals \<Rightarrow> 'w session \<Rightarrow> string \<Rightarrow> pkgMap
    \<Rightarrow> (error + Package list) \<times> 'w session" where
  "PyPI_resolveGroup ext s path pkgMap =
     (case PyPI_resolveGroup_entries ext path (map snd (rangeEntries ext pkgMap))
             (s, (\<lambda>key. False), []) of
        (s', seen, result) \<Rightarrow>
          if length result = 0 \<and> length pkgMap > 0
          then (Inl NoDependenciesResolved, s')
          else (Inr result, s'))"

text \<open>The grouping loop of \<^verbatim>\<open>Enrich\<close>; \<open>i\<close> is the index of the head of the list.\<close>

primrec PyPI_groupPackages ::
  "'w externals \<Rightarrow> nat \<Rightarrow> Package list \<Rightarrow> pkgGroups \<Rightarrow> pkgGroups" where
  "PyPI_groupPackages ext i [] pkgGroups = pkgGroups"
| "PyPI_groupPackages ext i (p # ps) pkgGroups =
     PyPI_groupPackages ext (Suc i) ps
       (if requirements_Name ext \<notin> set (Plugins p) then pkgGroups
        else if length (Locations p) = 0 then pkgGroups
        else groupInsert (hd (Locations p)) p i pkgGroups)"

text \<open>The body of the loop that adds the resolved packages, and the loop.\<close>

definition PyPI_add ::
  "pkgMap \<Rightarrow> Package \<Rightarrow> Package list \<Rightarrow> panic + Package list" where
  "PyPI_add pkgMap p invt =
     (case map_of pkgMap (Name p) of
        Some indexPkg \<Rightarrow>
          if index indexPkg < length invt
          then Inr (invt[index indexPkg :=
                      (invt ! index indexPkg)
                        \<lparr>Version := Version p,
                         Plugins := Plugins (invt ! index indexPkg)
                                      @ [PyPIDepsDevEnricherName]\<rparr>])
          else Inl IndexOutOfRange
      | None \<Rightarrow> Inr (invt @ [p]))"

primrec PyPI_addAll ::
  "pkgMap \<Rightarrow> Package list \<Rightarrow> Package list \<Rightarrow> panic + Package list" where
  "PyPI_addAll pkgMap [] invt = Inr invt"
| "PyPI_addAll pkgMap (p # pkgs) invt =
     (case PyPI_add pkgMap p invt of
        Inl e \<Rightarrow> Inl e
      | Inr invt' \<Rightarrow> PyPI_addAll pkgMap pkgs invt')"

text \<open>The loop over \<^verbatim>\<open>pkgGroups\<close>.\<close>

primrec PyPI_Enrich_groups ::
  "'w externals \<Rightarrow> pkgGroups \<Rightarrow> Package list \<Rightarrow> 'w session
    \<Rightarrow> panic + Package list \<times> 'w session" where
  "PyPI_Enrich_groups ext [] invt s = Inr (invt, s)"
| "PyPI_Enrich_groups ext (g # gs) invt s =
     (case PyPI_resolveGroup ext s (fst g) (snd g) of
        (Inl err, s') \<Rightarrow>
          PyPI_Enrich_groups ext gs invt
            (s'\<lparr>warnings := warnings s' @
                  [Warnf ''deps.dev resolution failed for %s: %v'' [fst g] err]\<rparr>)
      | (Inr pkgs, s') \<Rightarrow>
          (case PyPI_addAll (snd g) pkgs invt of
             Inl e \<Rightarrow> Inl e
           | Inr invt' \<Rightarrow> PyPI_Enrich_groups ext gs invt' s'))"

text \<open>
  \<^verbatim>\<open>Enrich\<close>: the inventory is its \<^verbatim>\<open>Packages\<close> slice; the result is a panic, or the error
  returned with the inventory and the session as the call leaves them.
\<close>

definition PyPI_Enrich ::
  "'w externals \<Rightarrow> 'w session \<Rightarrow> Package list
    \<Rightarrow> panic + error option \<times> Package list \<times> 'w session" where
  "PyPI_Enrich ext s invt =
     (case PyPI_Enrich_groups ext
             (rangeGroups ext (PyPI_groupPackages ext 0 invt [])) invt s of
        Inl e \<Rightarrow> Inl e
      | Inr (invt', s') \<Rightarrow> Inr (None, invt', s'))"

section \<open>Maven enricher\<close>

definition MavenDepsDevEnricherName :: string where
  "MavenDepsDevEnricherName = ''transitivedependency/maven/depsdev''"

definition pomxmlExtractorName :: string where
  "pomxmlExtractorName = ''java/pomxml''"

definition pomxmlEnhanceableName :: string where
  "pomxmlEnhanceableName = ''java/pomxmlenhanceable''"

definition pomxmlNetName :: string where
  "pomxmlNetName = ''java/pomxmlnet''"

definition isMavenPlugin :: "string \<Rightarrow> bool" where
  "isMavenPlugin name =
     (name = pomxmlExtractorName \<or> name = pomxmlEnhanceableName \<or> name = pomxmlNetName)"

text \<open>The loop that sets \<^verbatim>\<open>isMaven\<close>, with its \<^verbatim>\<open>break\<close>.\<close>

primrec isMaven :: "string list \<Rightarrow> bool" where
  "isMaven [] = False"
| "isMaven (p # ps) = (if isMavenPlugin p then True else isMaven ps)"

definition Maven_resolveGroup_node ::
  "'w externals \<Rightarrow> string \<Rightarrow> DepsDevNode \<Rightarrow> (string \<Rightarrow> bool) \<times> Package list
    \<Rightarrow> (string \<Rightarrow> bool) \<times> Package list" where
  "Maven_resolveGroup_node ext path node sr =
     (case sr of (seen, result) \<Rightarrow>
        if Relation node = ''SELF'' then (seen, result)
        else (let name = KeyName (VersionKey node);
                  key = name @ ''@'' @ KeyVersion (VersionKey node)
              in if seen key then (seen, result)
                 else (case Cut name CHR '':'' of
                         (groupID, artifactID, found) \<Rightarrow>
                           (seen(key := True),
                            result @ [\<lparr>Name = name, Version = KeyVersion (VersionKey node),
                                       PURLType = purl_TypeMaven ext, Locations = [path],
                                       Plugins = [MavenDepsDevEnricherName],
                                       Metadata =
                                         Some \<lparr>ArtifactID = artifactID, GroupID = groupID,
                                               IsTransitive =
                                                 (Relation node = ''INDIRECT'')\<rparr>\<rparr>]))))"

primrec Maven_resolveGroup_nodes ::
  "'w externals \<Rightarrow> string \<Rightarrow> DepsDevNode list \<Rightarrow> (string \<Rightarrow> bool) \<times> Package list
    \<Rightarrow> (string \<Rightarrow> bool) \<times> Package list" where
  "Maven_resolveGroup_nodes ext path [] sr = sr"
| "Maven_resolveGroup_nodes ext path (node # nodes) sr =
     Maven_resolveGroup_nodes ext path nodes (Maven_resolveGroup_node ext path node sr)"

definition Maven_resolveGroup_entry ::
  "'w externals \<Rightarrow> string \<Rightarrow> packageWithIndex
    \<Rightarrow> 'w session \<times> (string \<Rightarrow> bool) \<times> Package list
    \<Rightarrow> 'w session \<times> (string \<Rightarrow> bool) \<times> Package list" where
  "Maven_resolveGroup_entry ext path indexPkg st =
     (case st of (s, sr) \<Rightarrow>
        if Version (pkg indexPkg) = [] then (s, sr)
        else (case GetDependencies ext (client s) (world s)
                     (Name (pkg indexPkg)) (Version (pkg indexPkg)) of
                (Inl err, c', w') \<Rightarrow>
                  (\<lparr>client = c', world = w',
                    warnings = warnings s @
                      [Warnf ''deps.dev: failed to get Maven dependencies for %s@%s: %v''
                         [Name (pkg indexPkg), Version (pkg indexPkg)] err]\<rparr>, sr)
              | (Inr graph, c', w') \<Rightarrow>
                  (\<lparr>client = c', world = w', warnings = warnings s\<rparr>,
                   Maven_resolveGroup_nodes ext path (Nodes graph) sr)))"

primrec Maven_resolveGroup_entries ::
  "'w externals \<Rightarrow> string \<Rightarrow> packageWithIndex list
    \<Rightarrow> 'w session \<times> (string \<Rightarrow> bool) \<times> Package list
    \<Rightarrow> 'w session \<times> (string \<Rightarrow> bool) \<times> Package list" where
  "Maven_resolveGroup_entries ext path [] st = st"
| "Maven_resolveGroup_entries ext path (indexPkg # rest) st =
     Maven_resolveGroup_entries ext path rest (Maven_resolveGroup_entry ext path indexPkg st)"

definition Maven_resolveGroup ::
  "'w externals \<Rightarrow> 'w session \<Rightarrow> string \<Rightarrow> pkgMap
    \<Rightarrow> (error + Package list) \<times> 'w session" where
  "Maven_resolveGroup ext s path pkgMap =
     (case Maven_resolveGroup_entries ext path (map snd (rangeEntries ext pkgMap))
             (s, (\<lambda>key. False), []) of
        (s', seen, result) \<Rightarrow>
          if length result = 0 \<and> length pkgMap > 0
          then (Inl NoMavenDependenciesResolved, s')
          else (Inr result, s'))"

primrec Maven_groupPackages :: "nat \<Rightarrow> Package list \<Rightarrow> pkgGroups \<Rightarrow> pkgGroups" where
  "Maven_groupPackages i [] pkgGroups = pkgGroups"
| "Maven_groupPackages i (p # ps) pkgGroups =
     Maven_groupPackages (Suc i) ps
       (if \<not> isMaven (Plugins p) then pkgGroups
        else if length (Locations p) = 0 then pkgGroups
        else groupInsert (hd (Locations p)) p i pkgGroups)"

definition Maven_add ::
  "pkgMap \<Rightarrow> Package \<Rightarrow> Package list \<Rightarrow> panic + Package list" where
  "Maven_add pkgMap p invt =
     (case map_of pkgMap (Name p) of
        Some indexPkg \<Rightarrow>
          if index indexPkg < length invt
          then Inr (invt[index indexPkg :=
                      (if MavenDepsDevEnricherName \<in> set (Plugins (invt ! index indexPkg))
                       then (invt ! index indexPkg)\<lparr>Version := Version p\<rparr>
                       else (invt ! index indexPkg)
                              \<lparr>Version := Version p,
                               Plugins := Plugins (invt ! index indexPkg)
                                            @ [MavenDepsDevEnricherName]\<rparr>)])
          else Inl IndexOutOfRange
      | None \<Rightarrow> Inr (invt @ [p]))"

primrec Maven_addAll ::
  "pkgMap \<Rightarrow> Package list \<Rightarrow> Package list \<Rightarrow> panic + Package list" where
  "Maven_addAll pkgMap [] invt = Inr invt"
| "Maven_addAll pkgMap (p # pkgs) invt =
     (case Maven_add pkgMap p invt of
        Inl e \<Rightarrow> Inl e
      | Inr invt' \<Rightarrow> Maven_addAll pkgMap pkgs invt')"

primrec Maven_Enrich_groups ::
  "'w externals \<Rightarrow> pkgGroups \<Rightarrow> Package list \<Rightarrow> 'w session
    \<Rightarrow> panic + Package list \<times> 'w session" where
  "Maven_Enrich_groups ext [] invt s = Inr (invt, s)"
| "Maven_Enrich_groups ext (g # gs) invt s =
     (case Maven_resolveGroup ext s (fst g) (snd g) of
        (Inl err, s') \<Rightarrow>
          Maven_Enrich_groups ext gs invt
            (s'\<lparr>warnings := warnings s' @
                  [Warnf ''deps.dev Maven resolution failed for %s: %v'' [fst g] err]\<rparr>)
      | (Inr pkgs, s') \<Rightarrow>
          (case Maven_addAll (snd g) pkgs invt of
             Inl e \<Rightarrow> Inl e
           | Inr invt' \<Rightarrow> Maven_Enrich_groups ext gs invt' s'))"

definition Maven_Enrich ::
  "'w externals \<Rightarrow> 'w session \<Rightarrow> Package list
    \<Rightarrow> panic + error option \<times> Package list \<times> 'w session" where
  "Maven_Enrich ext s invt =
     (case Maven_Enrich_groups ext
             (rangeGroups ext (Maven_groupPackages 0 invt [])) invt s of
        Inl e \<Rightarrow> Inl e
      | Inr (invt', s') \<Rightarrow> Inr (None, invt', s'))"

section \<open>Notions used in the statements\<close>

text \<open>The deduplication key of a package: its name, \<^verbatim>\<open>@\<close>, its version.\<close>

definition dedupKey :: "Package \<Rightarrow> string" where
  "dedupKey p = Name p @ ''@'' @ Version p"

text \<open>The package that each \<^verbatim>\<open>resolveGroup\<close> builds for a node it emits.\<close>

definition PyPI_emitted :: "'w externals \<Rightarrow> string \<Rightarrow> DepsDevNode \<Rightarrow> Package" where
  "PyPI_emitted ext path node =
     \<lparr>Name = ToLower ext (KeyName (VersionKey node)), Version = KeyVersion (VersionKey node),
      PURLType = purl_TypePyPi ext, Locations = [path],
      Plugins = [PyPIDepsDevEnricherName], Metadata = None\<rparr>"

definition Maven_emitted :: "'w externals \<Rightarrow> string \<Rightarrow> DepsDevNode \<Rightarrow> Package" where
  "Maven_emitted ext path node =
     \<lparr>Name = KeyName (VersionKey node), Version = KeyVersion (VersionKey node),
      PURLType = purl_TypeMaven ext, Locations = [path],
      Plugins = [MavenDepsDevEnricherName],
      Metadata = Some \<lparr>ArtifactID = fst (snd (Cut (KeyName (VersionKey node)) CHR '':'')),
                        GroupID = fst (Cut (KeyName (VersionKey node)) CHR '':''),
                        IsTransitive = (Relation node = ''INDIRECT'')\<rparr>\<rparr>"

text \<open>
  The graphs that \<^verbatim>\<open>GetDependencies\<close> returns while \<^verbatim>\<open>resolveGroup\<close> walks the entries
  of a group, in the order of the calls, from the client and the network the walk starts
  with. Both enrichers make the same calls.
\<close>

primrec graphsReturned ::
  "'w externals \<Rightarrow> packageWithIndex list \<Rightarrow> DepsDevRESTClient \<Rightarrow> 'w
    \<Rightarrow> DepsDevDependencyGraph list" where
  "graphsReturned ext [] c w = []"
| "graphsReturned ext (indexPkg # rest) c w =
     (if Version (pkg indexPkg) = [] then graphsReturned ext rest c w
      else (case GetDependencies ext c w (Name (pkg indexPkg)) (Version (pkg indexPkg)) of
              (Inl err, c', w') \<Rightarrow> graphsReturned ext rest c' w'
            | (Inr graph, c', w') \<Rightarrow> graph # graphsReturned ext rest c' w'))"

definition nodesReturned ::
  "'w externals \<Rightarrow> 'w session \<Rightarrow> pkgMap \<Rightarrow> DepsDevNode list" where
  "nodesReturned ext s pkgMap =
     concat (map Nodes
       (graphsReturned ext (map snd (rangeEntries ext pkgMap)) (client s) (world s)))"

text \<open>A string with one of the bytes \<^verbatim>\<open>A\<close> to \<^verbatim>\<open>Z\<close>.\<close>

definition isUpperByte :: "char \<Rightarrow> bool" where
  "isUpperByte c = (65 \<le> (of_char c :: nat) \<and> (of_char c :: nat) \<le> 90)"

definition hasUpper :: "string \<Rightarrow> bool" where
  "hasUpper s = list_ex isUpperByte s"

text \<open>
  A group map that agrees with an inventory: every entry is stored under the name that
  the inventory has at the index of the entry, and the index is inside the inventory.
\<close>

definition keyed :: "Package list \<Rightarrow> pkgMap \<Rightarrow> bool" where
  "keyed invt pkgMap =
     list_all (\<lambda>e. index (snd e) < length invt \<and> Name (invt ! index (snd e)) = fst e) pkgMap"

definition wellGrouped :: "Package list \<Rightarrow> pkgGroups \<Rightarrow> bool" where
  "wellGrouped invt pkgGroups = list_all (\<lambda>g. keyed invt (snd g)) pkgGroups"

text \<open>The paths, names and indices of the groups, without the packages.\<close>

definition groupIndex :: "pkgGroups \<Rightarrow> (string \<times> (string \<times> nat) list) list" where
  "groupIndex pkgGroups =
     map (\<lambda>g. (fst g, map (\<lambda>e. (fst e, index (snd e))) (snd g))) pkgGroups"

text \<open>
  An entry after a run, compared with the entry before: the same but for its version,
  and for its plugin list, which has grown at its end by copies of the tag only.
\<close>

definition sameEntry :: "string \<Rightarrow> Package \<Rightarrow> Package \<Rightarrow> bool" where
  "sameEntry tag p q =
     (Name q = Name p \<and> Locations q = Locations p \<and> PURLType q = PURLType p
      \<and> Metadata q = Metadata p
      \<and> take (length (Plugins p)) (Plugins q) = Plugins p
      \<and> list_all (\<lambda>x. x = tag) (drop (length (Plugins p)) (Plugins q)))"

text \<open>
  An inventory after a run, compared with the inventory before: every old entry is still
  at its index, the same in the sense above, and every entry after them has the tag as
  its only plugin.
\<close>

definition enriched :: "string \<Rightarrow> Package list \<Rightarrow> Package list \<Rightarrow> bool" where
  "enriched tag invt invt' =
     (length invt \<le> length invt'
      \<and> list_all2 (sameEntry tag) invt (take (length invt) invt')
      \<and> list_all (\<lambda>p. Plugins p = [tag]) (drop (length invt) invt'))"

text \<open>
  Two runs of \<^verbatim>\<open>Enrich\<close> in succession, the second on the inventory and with the session
  (the client and its cache) that the first leaves; and the inventory of a result.
\<close>

definition PyPI_Enrich_twice ::
  "'w externals \<Rightarrow> 'w session \<Rightarrow> Package list
    \<Rightarrow> panic + error option \<times> Package list \<times> 'w session" where
  "PyPI_Enrich_twice ext s invt =
     (case PyPI_Enrich ext s invt of
        Inl e \<Rightarrow> Inl e
      | Inr (err, invt', s') \<Rightarrow> PyPI_Enrich ext s' invt')"

definition Maven_Enrich_twice ::
  "'w externals \<Rightarrow> 'w session \<Rightarrow> Package list
    \<Rightarrow> panic + error option \<times> Package list \<times> 'w session" where
  "Maven_Enrich_twice ext s invt =
     (case Maven_Enrich ext s invt of
        Inl e \<Rightarrow> Inl e
      | Inr (err, invt', s') \<Rightarrow> Maven_Enrich ext s' invt')"

definition packagesOf ::
  "panic + error option \<times> Package list \<times> 'w session \<Rightarrow> Package list" where
  "packagesOf r = (case r of Inl e \<Rightarrow> [] | Inr (err, invt, s) \<Rightarrow> invt)"

definition warningsOf ::
  "panic + error option \<times> Package list \<times> 'w session \<Rightarrow> warning list" where
  "warningsOf r = (case r of Inl e \<Rightarrow> [] | Inr (err, invt, s) \<Rightarrow> warnings s)"

section \<open>Data of the examples\<close>

text \<open>
  The graph of the PyPI scenario: \<^verbatim>\<open>requests@2.31.0\<close> with a direct and an indirect
  dependency; and a Maven graph with the node of the Maven scenario.
\<close>

definition mkNode :: "string \<Rightarrow> string \<Rightarrow> string \<Rightarrow> string \<Rightarrow> DepsDevNode" where
  "mkNode sys name version rel =
     \<lparr>VersionKey = \<lparr>System = sys, KeyName = name, KeyVersion = version\<rparr>,
      Bundled = False, Relation = rel, Errors = []\<rparr>"

definition ex_graph :: DepsDevDependencyGraph where
  "ex_graph =
     \<lparr>Nodes = [mkNode ''PYPI'' ''requests'' ''2.31.0'' ''SELF'',
               mkNode ''PYPI'' ''urllib3'' ''2.0.0'' ''DIRECT'',
               mkNode ''PYPI'' ''certifi'' ''2023.7.22'' ''INDIRECT''],
      Edges = []\<rparr>"

definition ex_flask_graph :: DepsDevDependencyGraph where
  "ex_flask_graph =
     \<lparr>Nodes = [mkNode ''PYPI'' ''flask-login'' ''0.6.3'' ''SELF'',
               mkNode ''PYPI'' ''Flask'' ''3.0.0'' ''DIRECT''],
      Edges = []\<rparr>"

definition ex_httpx_graph :: DepsDevDependencyGraph where
  "ex_httpx_graph =
     \<lparr>Nodes = [mkNode ''PYPI'' ''httpx'' ''0.25.0'' ''SELF'',
               mkNode ''PYPI'' ''Certifi'' ''2023.7.22'' ''DIRECT'',
               mkNode ''PYPI'' ''idna'' ''3.4'' ''DIRECT''],
      Edges = []\<rparr>"

definition ex_maven_graph :: DepsDevDependencyGraph where
  "ex_maven_graph =
     \<lparr>Nodes = [mkNode ''MAVEN'' ''org.apache:commons'' ''1.0'' ''SELF'',
               mkNode ''MAVEN'' ''org.apache:commons-io'' ''2.5'' ''INDIRECT''],
      Edges = []\<rparr>"

definition ex_maven_text_graph :: DepsDevDependencyGraph where
  "ex_maven_text_graph =
     \<lparr>Nodes = [mkNode ''MAVEN'' ''org.apache:commons-text'' ''1.1'' ''SELF'',
               mkNode ''MAVEN'' ''org.apache:commons-io'' ''2.5'' ''DIRECT'',
               mkNode ''MAVEN'' ''org.apache:Commons-IO'' ''2.5'' ''DIRECT''],
      Edges = []\<rparr>"

text \<open>
  Externals for the examples: a network without state that answers five requests with
  status 200 and every other request with 404, a decoder that knows the five bodies,
  and \<^verbatim>\<open>range\<close> visiting a map in the order of insertion.
\<close>

definition ex_Do :: "unit \<Rightarrow> string \<Rightarrow> http_result \<times> unit" where
  "ex_Do w url =
     (if url = ''u/v3/systems/pypi/packages/requests/versions/2.31.0:dependencies''
      then (Response 200 ''G1'', w)
      else if url = ''u/v3/systems/pypi/packages/flask-login/versions/0.6.3:dependencies''
      then (Response 200 ''G2'', w)
      else if url = ''u/v3/systems/maven/packages/org.apache:commons/versions/1.0:dependencies''
      then (Response 200 ''G3'', w)
      else if url = ''u/v3/systems/pypi/packages/httpx/versions/0.25.0:dependencies''
      then (Response 200 ''G4'', w)
      else if url =
          ''u/v3/systems/maven/packages/org.apache:commons-text/versions/1.1:dependencies''
      then (Response 200 ''G5'', w)
      else (Response 404 ''not found'', w))"

definition ex_Decode :: "string \<Rightarrow> DepsDevDependencyGraph option" where
  "ex_Decode body =
     (if body = ''G1'' then Some ex_graph
      else if body = ''G2'' then Some ex_flask_graph
      else if body = ''G3'' then Some ex_maven_graph
      else if body = ''G4'' then Some ex_httpx_graph
      else if body = ''G5'' then Some ex_maven_text_graph
      else None)"

definition ex_ext :: "unit externals" where
  "ex_ext =
     \<lparr>PathEscape = (\<lambda>s. s), NewRequest = (\<lambda>url. True), Do = ex_Do, Decode = ex_Decode,
      UnicodeToLower = map lower_byte, rangeGroups = (\<lambda>g. g), rangeEntries = (\<lambda>m. m),
      requirements_Name = ''python/requirements'', purl_TypePyPi = ''pypi'',
      purl_TypeMaven = ''maven''\<rparr>"

definition ex_pypi :: "unit session" where
  "ex_pypi = \<lparr>client = NewPyPIDepsDevClient ''u'', world = (), warnings = []\<rparr>"

definition ex_maven :: "unit session" where
  "ex_maven = \<lparr>client = NewMavenDepsDevClient ''u'', world = (), warnings = []\<rparr>"

text \<open>A group as the grouping loop builds it, from names, versions and indices.\<close>

definition mkGroup :: "string \<Rightarrow> string \<Rightarrow> (string \<times> string \<times> nat) list \<Rightarrow> pkgMap" where
  "mkGroup path plugin entries =
     map (\<lambda>(name, version, i).
            (name, \<lparr>pkg = \<lparr>Name = name, Version = version, PURLType = [],
                             Locations = [path], Plugins = [plugin], Metadata = None\<rparr>,
                     index = i\<rparr>)) entries"

definition mkPackage :: "string \<Rightarrow> string \<Rightarrow> string \<Rightarrow> string \<Rightarrow> Package" where
  "mkPackage name version path plugin =
     \<lparr>Name = name, Version = version, PURLType = [], Locations = [path],
      Plugins = [plugin], Metadata = None\<rparr>"

text \<open>
  Inventories of the examples: two manifests of which the first has no pinned package; one
  pinned package; a manifest that also declares a dependency of its first package; and a
  requirements file that names \<^verbatim>\<open>Flask\<close> in both spellings.
\<close>

definition ex_two_manifests :: "Package list" where
  "ex_two_manifests =
     [mkPackage ''requests'' [] ''a.txt'' ''python/requirements'',
      mkPackage ''requests'' ''2.31.0'' ''b.txt'' ''python/requirements'']"

definition ex_two_poms :: "Package list" where
  "ex_two_poms =
     [mkPackage ''org.apache:commons'' [] ''a/pom.xml'' ''java/pomxml'',
      mkPackage ''org.apache:commons'' ''1.0'' ''b/pom.xml'' ''java/pomxmlnet'']"

definition ex_requests :: "Package list" where
  "ex_requests = [mkPackage ''requests'' ''2.31.0'' ''r.txt'' ''python/requirements'']"

definition ex_commons :: "Package list" where
  "ex_commons = [mkPackage ''org.apache:commons'' ''1.0'' ''pom.xml'' ''java/pomxml'']"

definition ex_with_urllib3 :: "Package list" where
  "ex_with_urllib3 =
     [mkPackage ''requests'' ''2.31.0'' ''r.txt'' ''python/requirements'',
      mkPackage ''urllib3'' ''1.26.0'' ''r.txt'' ''python/requirements'']"

definition ex_with_commons_io :: "Package list" where
  "ex_with_commons_io =
     [mkPackage ''org.apache:commons'' ''1.0'' ''pom.xml'' ''java/pomxml'',
      mkPackage ''org.apache:commons-io'' ''2.0'' ''pom.xml'' ''java/pomxml'']"

definition ex_flask :: "Package list" where
  "ex_flask =
     [mkPackage ''Flask'' ''2.0'' ''r.txt'' ''python/requirements'',
      mkPackage ''flask'' ''2.0'' ''r.txt'' ''python/requirements'',
      mkPackage ''flask-login'' ''0.6.3'' ''r.txt'' ''python/requirements'']"

section \<open>The graph client\<close>

lemma GetDependencies_Inl:
  "GetDependencies ext c w name version = (Inl e, c', w') \<Longrightarrow> c' = c"
  unfolding GetDependencies_def
  by (simp split: option.splits if_splits prod.splits http_result.splits)

lemma GetDependencies_cases:
  "GetDependencies ext c w name version = (r, c', w') \<Longrightarrow>
     c' = c \<or> (\<exists>g. r = Inr g \<and> cache c (cacheKey c name version) = None
         \<and> Decode ext (case fst (Do ext w (reqURL ext c name version)) of
                   Response st body \<Rightarrow> body | DoError \<Rightarrow> []) = Some g
         \<and> c' = c\<lparr>cache := (cache c)(cacheKey c name version \<mapsto> g)\<rparr>)"
  unfolding GetDependencies_def
  by (auto split: option.splits if_splits prod.splits http_result.splits)

lemma PyPI_GetDependencies_Inl:
  "PyPI_GetDependencies ext c w name version = (Inl e, c', w') \<Longrightarrow> c' = c"
  unfolding PyPI_GetDependencies_def
  by (simp split: option.splits if_splits prod.splits http_result.splits)

lemma PyPI_GetDependencies_cases:
  "PyPI_GetDependencies ext c w name version = (r, c', w') \<Longrightarrow>
     c' = c \<or> (\<exists>g. r = Inr g \<and> pypi_cache c (pypi_cacheKey name version) = None
         \<and> Decode ext (case fst (Do ext w (pypi_reqURL ext c name version)) of
                   Response st body \<Rightarrow> body | DoError \<Rightarrow> []) = Some g
         \<and> c' = c\<lparr>pypi_cache := (pypi_cache c)(pypi_cacheKey name version \<mapsto> g)\<rparr>)"
  unfolding PyPI_GetDependencies_def
  by (auto split: option.splits if_splits prod.splits http_result.splits)

text \<open>
  C9. A call of \<^verbatim>\<open>GetDependencies\<close> that returns an error (the request could not be built,
  the transport failed, the status was not 200, the body did not decode) gives back the
  client it was given, cache included; and whenever the cache differs after a call, the
  call returned a graph, that graph is what the decoder made of the body of the response,
  and the cache has that graph as its one new binding, under the key of the call. The
  first two conjuncts are about the client with a \<^verbatim>\<open>system\<close> field, the last two say the
  same of the client of \<^verbatim>\<open>depsdev_pypi_client.go\<close>.
\<close>

theorem C9_failure_leaves_cache:
  "(GetDependencies ext c w name version = (Inl e, c', w') \<longrightarrow> c' = c)
   \<and> (GetDependencies ext c w name version = (r, c', w') \<and> cache c' \<noteq> cache c \<longrightarrow>
        (\<exists>g. r = Inr g
           \<and> Decode ext (case fst (Do ext w (reqURL ext c name version)) of
                           Response st body \<Rightarrow> body | DoError \<Rightarrow> []) = Some g
           \<and> cache c' = (cache c)(cacheKey c name version \<mapsto> g)))
   \<and> (PyPI_GetDependencies ext pc w name version = (Inl e, pc', w') \<longrightarrow> pc' = pc)
   \<and> (PyPI_GetDependencies ext pc w name version = (pr, pc', w') \<and>
        pypi_cache pc' \<noteq> pypi_cache pc \<longrightarrow>
        (\<exists>g. pr = Inr g
           \<and> Decode ext (case fst (Do ext w (pypi_reqURL ext pc name version)) of
                           Response st body \<Rightarrow> body | DoError \<Rightarrow> []) = Some g
           \<and> pypi_cache pc' = (pypi_cache pc)(pypi_cacheKey name version \<mapsto> g)))"
proof (intro conjI impI)
  assume "GetDependencies ext c w name version = (Inl e, c', w')"
  then show "c' = c" by (rule GetDependencies_Inl)
next
  assume a: "GetDependencies ext c w name version = (r, c', w') \<and> cache c' \<noteq> cache c"
  from GetDependencies_cases [of ext c w name version r c' w'] a
  show "\<exists>g. r = Inr g
           \<and> Decode ext (case fst (Do ext w (reqURL ext c name version)) of
                           Response st body \<Rightarrow> body | DoError \<Rightarrow> []) = Some g
           \<and> cache c' = (cache c)(cacheKey c name version \<mapsto> g)" by auto
next
  assume "PyPI_GetDependencies ext pc w name version = (Inl e, pc', w')"
  then show "pc' = pc" by (rule PyPI_GetDependencies_Inl)
next
  assume a: "PyPI_GetDependencies ext pc w name version = (pr, pc', w') \<and>
        pypi_cache pc' \<noteq> pypi_cache pc"
  from PyPI_GetDependencies_cases [of ext pc w name version pr pc' w'] a
  show "\<exists>g. pr = Inr g
           \<and> Decode ext (case fst (Do ext w (pypi_reqURL ext pc name version)) of
                           Response st body \<Rightarrow> body | DoError \<Rightarrow> []) = Some g
           \<and> pypi_cache pc' = (pypi_cache pc)(pypi_cacheKey name version \<mapsto> g)"
    by auto
qed

lemma ex_get_404:
  "GetDependencies ex_ext (NewPyPIDepsDevClient ''u'') () ''nosuch'' ''1.0''
     = (Inl (BadStatus 404 ''nosuch'' ''1.0'' ''not found''), NewPyPIDepsDevClient ''u'', ())"
  by (simp add: GetDependencies_def NewPyPIDepsDevClient_def cacheKey_def reqURL_def
        ex_ext_def ex_Do_def)

lemma ex_get_200:
  "GetDependencies ex_ext (NewPyPIDepsDevClient ''u'') () ''requests'' ''2.31.0''
     = (Inr ex_graph,
        (NewPyPIDepsDevClient ''u'')
          \<lparr>cache := (cache (NewPyPIDepsDevClient ''u''))
                      (''pypi/requests@2.31.0'' \<mapsto> ex_graph)\<rparr>, ())"
  by (simp add: GetDependencies_def NewPyPIDepsDevClient_def cacheKey_def reqURL_def
        ex_ext_def ex_Do_def ex_Decode_def)

lemma ex_pypi_get_404:
  "PyPI_GetDependencies ex_ext \<lparr>pypi_baseURL = ''u'', pypi_cache = Map.empty\<rparr> ()
       ''nosuch'' ''1.0''
     = (Inl (BadStatus 404 ''nosuch'' ''1.0'' ''not found''),
        \<lparr>pypi_baseURL = ''u'', pypi_cache = Map.empty\<rparr>, ())"
  by (simp add: PyPI_GetDependencies_def pypi_cacheKey_def pypi_reqURL_def
        ex_ext_def ex_Do_def)

lemma ex_pypi_get_200:
  "PyPI_GetDependencies ex_ext \<lparr>pypi_baseURL = ''u'', pypi_cache = Map.empty\<rparr> ()
       ''requests'' ''2.31.0''
     = (Inr ex_graph,
        \<lparr>pypi_baseURL = ''u'', pypi_cache = [''requests@2.31.0'' \<mapsto> ex_graph]\<rparr>, ())"
  by (simp add: PyPI_GetDependencies_def pypi_cacheKey_def pypi_reqURL_def
        ex_ext_def ex_Do_def ex_Decode_def)

text \<open>
  The witness: a request that is answered with status 404 leaves the empty cache empty,
  and the request for \<^verbatim>\<open>requests@2.31.0\<close> is answered and stored.
\<close>

theorem C9_failure_leaves_cache_witness:
  "GetDependencies ex_ext (NewPyPIDepsDevClient ''u'') () ''nosuch'' ''1.0''
     = (Inl (BadStatus 404 ''nosuch'' ''1.0'' ''not found''), NewPyPIDepsDevClient ''u'', ())
   \<and> GetDependencies ex_ext (NewPyPIDepsDevClient ''u'') () ''requests'' ''2.31.0''
     = (Inr ex_graph,
        (NewPyPIDepsDevClient ''u'')
          \<lparr>cache := (cache (NewPyPIDepsDevClient ''u''))
                      (''pypi/requests@2.31.0'' \<mapsto> ex_graph)\<rparr>, ())
   \<and> cache ((NewPyPIDepsDevClient ''u'')
          \<lparr>cache := (cache (NewPyPIDepsDevClient ''u''))
                      (''pypi/requests@2.31.0'' \<mapsto> ex_graph)\<rparr>)
       \<noteq> cache (NewPyPIDepsDevClient ''u'')
   \<and> PyPI_GetDependencies ex_ext \<lparr>pypi_baseURL = ''u'', pypi_cache = Map.empty\<rparr> ()
       ''nosuch'' ''1.0''
     = (Inl (BadStatus 404 ''nosuch'' ''1.0'' ''not found''),
        \<lparr>pypi_baseURL = ''u'', pypi_cache = Map.empty\<rparr>, ())
   \<and> PyPI_GetDependencies ex_ext \<lparr>pypi_baseURL = ''u'', pypi_cache = Map.empty\<rparr> ()
       ''requests'' ''2.31.0''
     = (Inr ex_graph,
        \<lparr>pypi_baseURL = ''u'', pypi_cache = [''requests@2.31.0'' \<mapsto> ex_graph]\<rparr>, ())
   \<and> pypi_cache \<lparr>pypi_baseURL = ''u'', pypi_cache = [''requests@2.31.0'' \<mapsto> ex_graph]\<rparr>
       \<noteq> pypi_cache \<lparr>pypi_baseURL = ''u'', pypi_cache = Map.empty\<rparr>
   \<and> (\<exists>g. (Inr ex_graph :: error + DepsDevDependencyGraph) = Inr g
        \<and> cache ((NewPyPIDepsDevClient ''u'')
            \<lparr>cache := (cache (NewPyPIDepsDevClient ''u''))
                        (''pypi/requests@2.31.0'' \<mapsto> ex_graph)\<rparr>)
          = (cache (NewPyPIDepsDevClient ''u''))
              (cacheKey (NewPyPIDepsDevClient ''u'') ''requests'' ''2.31.0'' \<mapsto> g))"
proof -
  have ne1: "cache ((NewPyPIDepsDevClient ''u'')
          \<lparr>cache := (cache (NewPyPIDepsDevClient ''u''))
                      (''pypi/requests@2.31.0'' \<mapsto> ex_graph)\<rparr>)
       \<noteq> cache (NewPyPIDepsDevClient ''u'')"
    by (simp add: NewPyPIDepsDevClient_def fun_eq_iff)
  have ne2: "pypi_cache \<lparr>pypi_baseURL = ''u'', pypi_cache = [''requests@2.31.0'' \<mapsto> ex_graph]\<rparr>
       \<noteq> pypi_cache \<lparr>pypi_baseURL = ''u'', pypi_cache = Map.empty\<rparr>"
    by (simp add: fun_eq_iff)
  from C9_failure_leaves_cache
    [of ex_ext "NewPyPIDepsDevClient ''u''" "()" "''requests''" "''2.31.0''" _ 
        "(NewPyPIDepsDevClient ''u'')
          \<lparr>cache := (cache (NewPyPIDepsDevClient ''u''))
                      (''pypi/requests@2.31.0'' \<mapsto> ex_graph)\<rparr>" "()" "Inr ex_graph"]
    ex_get_200 ne1
  have "\<exists>g. (Inr ex_graph :: error + DepsDevDependencyGraph) = Inr g
        \<and> cache ((NewPyPIDepsDevClient ''u'')
            \<lparr>cache := (cache (NewPyPIDepsDevClient ''u''))
                        (''pypi/requests@2.31.0'' \<mapsto> ex_graph)\<rparr>)
          = (cache (NewPyPIDepsDevClient ''u''))
              (cacheKey (NewPyPIDepsDevClient ''u'') ''requests'' ''2.31.0'' \<mapsto> g)"
    by blast
  with ex_get_404 ex_get_200 ex_pypi_get_404 ex_pypi_get_200 ne1 ne2
  show ?thesis by blast
qed

text \<open>
  The two clients answer alike: when a client with system \<^verbatim>\<open>pypi\<close> and a client of
  \<^verbatim>\<open>depsdev_pypi_client.go\<close> have the same base URL and caches that agree up to the
  prefix \<^verbatim>\<open>pypi/\<close> of the key, a call gives the same result and the same network on both,
  and the caches agree again after it.
\<close>

lemma clients_agree:
  assumes "system c = ''pypi''" "baseURL c = pypi_baseURL pc"
    and "\<forall>k. cache c (''pypi/'' @ k) = pypi_cache pc k"
    and "GetDependencies ext c w name version = (r, c', w')"
    and "PyPI_GetDependencies ext pc w name version = (pr, pc', pw')"
  shows "pr = r \<and> pw' = w' \<and> system c' = ''pypi'' \<and> baseURL c' = pypi_baseURL pc'
         \<and> (\<forall>k. cache c' (''pypi/'' @ k) = pypi_cache pc' k)"
proof -
  have k: "cacheKey c name version = ''pypi/'' @ pypi_cacheKey name version"
    using assms(1) by (simp add: cacheKey_def pypi_cacheKey_def)
  have u: "reqURL ext c name version = pypi_reqURL ext pc name version"
    using assms(1,2) by (simp add: reqURL_def pypi_reqURL_def)
  from assms(3) k have h: "cache c (cacheKey c name version)
      = pypi_cache pc (pypi_cacheKey name version)" by simp
  show ?thesis
  proof (cases "pypi_cache pc (pypi_cacheKey name version)")
    case (Some g)
    with h assms show ?thesis
      by (simp add: GetDependencies_def PyPI_GetDependencies_def)
  next
    case None
    with h have n: "cache c (cacheKey c name version) = None" by simp
    obtain hr hw where d: "Do ext w (pypi_reqURL ext pc name version) = (hr, hw)"
      by (cases "Do ext w (pypi_reqURL ext pc name version)")
    from assms(4,5) assms(1-3) None n d show ?thesis
      unfolding GetDependencies_def PyPI_GetDependencies_def u k
      by (auto split: if_splits http_result.splits option.splits)
  qed
qed

section \<open>The loop over the nodes of a graph\<close>

lemma PyPI_node_step:
  "PyPI_resolveGroup_node ext path node (seen, result) =
     (if Relation node = ''SELF'' \<or> seen (dedupKey (PyPI_emitted ext path node))
      then (seen, result)
      else (seen(dedupKey (PyPI_emitted ext path node) := True),
            result @ [PyPI_emitted ext path node]))"
  by (simp add: PyPI_resolveGroup_node_def PyPI_emitted_def dedupKey_def Let_def)

lemma Maven_node_step:
  "Maven_resolveGroup_node ext path node (seen, result) =
     (if Relation node = ''SELF'' \<or> seen (dedupKey (Maven_emitted ext path node))
      then (seen, result)
      else (seen(dedupKey (Maven_emitted ext path node) := True),
            result @ [Maven_emitted ext path node]))"
  by (simp add: Maven_resolveGroup_node_def Maven_emitted_def dedupKey_def Let_def
        split: prod.splits)

lemma PyPI_nodes_append:
  "PyPI_resolveGroup_nodes ext path (xs @ ys) sr =
     PyPI_resolveGroup_nodes ext path ys (PyPI_resolveGroup_nodes ext path xs sr)"
  by (induction xs arbitrary: sr) simp_all

lemma Maven_nodes_append:
  "Maven_resolveGroup_nodes ext path (xs @ ys) sr =
     Maven_resolveGroup_nodes ext path ys (Maven_resolveGroup_nodes ext path xs sr)"
  by (induction xs arbitrary: sr) simp_all

text \<open>
  The invariant of the loop: the keys marked in \<open>seen\<close> are the keys of the packages in
  \<open>result\<close>, and no two packages of \<open>result\<close> have the same key.
\<close>

lemma PyPI_nodes_invariant:
  assumes "PyPI_resolveGroup_nodes ext path nodes (seen, result) = (seen', result')"
    and "\<forall>k. seen k = (k \<in> dedupKey ` set result)"
    and "distinct (map dedupKey result)"
  shows "(\<forall>k. seen' k = (k \<in> dedupKey ` set result')) \<and> distinct (map dedupKey result')"
  using assms
proof (induction nodes arbitrary: seen result)
  case Nil
  then show ?case by auto
next
  case (Cons node nodes)
  show ?case
  proof (cases "Relation node = ''SELF'' \<or> seen (dedupKey (PyPI_emitted ext path node))")
    case True
    with Cons.prems(1) have "PyPI_resolveGroup_nodes ext path nodes (seen, result) = (seen', result')"
      by (simp add: PyPI_node_step)
    from Cons.IH [OF this Cons.prems(2,3)] show ?thesis .
  next
    case False
    let ?p = "PyPI_emitted ext path node"
    from False Cons.prems(1) have run:
      "PyPI_resolveGroup_nodes ext path nodes (seen(dedupKey ?p := True), result @ [?p])
         = (seen', result')"
      by (simp add: PyPI_node_step)
    from False Cons.prems(2) have fresh: "dedupKey ?p \<notin> dedupKey ` set result" by simp
    have a: "\<forall>k. (seen(dedupKey ?p := True)) k = (k \<in> dedupKey ` set (result @ [?p]))"
      using Cons.prems(2) by auto
    have b: "distinct (map dedupKey (result @ [?p]))"
      using Cons.prems(3) fresh by simp
    from Cons.IH [OF run a b] show ?thesis .
  qed
qed

lemma Maven_nodes_invariant:
  assumes "Maven_resolveGroup_nodes ext path nodes (seen, result) = (seen', result')"
    and "\<forall>k. seen k = (k \<in> dedupKey ` set result)"
    and "distinct (map dedupKey result)"
  shows "(\<forall>k. seen' k = (k \<in> dedupKey ` set result')) \<and> distinct (map dedupKey result')"
  using assms
proof (induction nodes arbitrary: seen result)
  case Nil
  then show ?case by auto
next
  case (Cons node nodes)
  show ?case
  proof (cases "Relation node = ''SELF'' \<or> seen (dedupKey (Maven_emitted ext path node))")
    case True
    with Cons.prems(1) have "Maven_resolveGroup_nodes ext path nodes (seen, result) = (seen', result')"
      by (simp add: Maven_node_step)
    from Cons.IH [OF this Cons.prems(2,3)] show ?thesis .
  next
    case False
    let ?p = "Maven_emitted ext path node"
    from False Cons.prems(1) have run:
      "Maven_resolveGroup_nodes ext path nodes (seen(dedupKey ?p := True), result @ [?p])
         = (seen', result')"
      by (simp add: Maven_node_step)
    from False Cons.prems(2) have fresh: "dedupKey ?p \<notin> dedupKey ` set result" by simp
    have a: "\<forall>k. (seen(dedupKey ?p := True)) k = (k \<in> dedupKey ` set (result @ [?p]))"
      using Cons.prems(2) by auto
    have b: "distinct (map dedupKey (result @ [?p]))"
      using Cons.prems(3) fresh by simp
    from Cons.IH [OF run a b] show ?thesis .
  qed
qed

text \<open>What the loop adds comes from nodes that are not SELF, one package a node at most.\<close>

lemma PyPI_nodes_origin:
  assumes "PyPI_resolveGroup_nodes ext path nodes (seen, result) = (seen', result')"
  shows "\<exists>new. result' = result @ new
           \<and> (\<forall>p\<in>set new. \<exists>n\<in>set nodes. Relation n \<noteq> ''SELF'' \<and> p = PyPI_emitted ext path n)
           \<and> length new \<le> length (filter (\<lambda>n. Relation n \<noteq> ''SELF'') nodes)"
  using assms
proof (induction nodes arbitrary: seen result)
  case Nil
  then show ?case by simp
next
  case (Cons node nodes)
  show ?case
  proof (cases "Relation node = ''SELF'' \<or> seen (dedupKey (PyPI_emitted ext path node))")
    case True
    with Cons.prems(1) have "PyPI_resolveGroup_nodes ext path nodes (seen, result) = (seen', result')"
      by (simp add: PyPI_node_step)
    from Cons.IH [OF this] obtain new where "result' = result @ new"
      "\<forall>p\<in>set new. \<exists>n\<in>set nodes. Relation n \<noteq> ''SELF'' \<and> p = PyPI_emitted ext path n"
      "length new \<le> length (filter (\<lambda>n. Relation n \<noteq> ''SELF'') nodes)" by blast
    then show ?thesis by (intro exI [of _ new]) auto
  next
    case False
    let ?p = "PyPI_emitted ext path node"
    from False Cons.prems(1) have
      "PyPI_resolveGroup_nodes ext path nodes (seen(dedupKey ?p := True), result @ [?p])
         = (seen', result')"
      by (simp add: PyPI_node_step)
    from Cons.IH [OF this] obtain new where "result' = (result @ [?p]) @ new"
      "\<forall>p\<in>set new. \<exists>n\<in>set nodes. Relation n \<noteq> ''SELF'' \<and> p = PyPI_emitted ext path n"
      "length new \<le> length (filter (\<lambda>n. Relation n \<noteq> ''SELF'') nodes)" by blast
    with False show ?thesis by (intro exI [of _ "?p # new"]) auto
  qed
qed

lemma Maven_nodes_origin:
  assumes "Maven_resolveGroup_nodes ext path nodes (seen, result) = (seen', result')"
  shows "\<exists>new. result' = result @ new
           \<and> (\<forall>p\<in>set new. \<exists>n\<in>set nodes. Relation n \<noteq> ''SELF'' \<and> p = Maven_emitted ext path n)
           \<and> length new \<le> length (filter (\<lambda>n. Relation n \<noteq> ''SELF'') nodes)"
  using assms
proof (induction nodes arbitrary: seen result)
  case Nil
  then show ?case by simp
next
  case (Cons node nodes)
  show ?case
  proof (cases "Relation node = ''SELF'' \<or> seen (dedupKey (Maven_emitted ext path node))")
    case True
    with Cons.prems(1) have "Maven_resolveGroup_nodes ext path nodes (seen, result) = (seen', result')"
      by (simp add: Maven_node_step)
    from Cons.IH [OF this] obtain new where "result' = result @ new"
      "\<forall>p\<in>set new. \<exists>n\<in>set nodes. Relation n \<noteq> ''SELF'' \<and> p = Maven_emitted ext path n"
      "length new \<le> length (filter (\<lambda>n. Relation n \<noteq> ''SELF'') nodes)" by blast
    then show ?thesis by (intro exI [of _ new]) auto
  next
    case False
    let ?p = "Maven_emitted ext path node"
    from False Cons.prems(1) have
      "Maven_resolveGroup_nodes ext path nodes (seen(dedupKey ?p := True), result @ [?p])
         = (seen', result')"
      by (simp add: Maven_node_step)
    from Cons.IH [OF this] obtain new where "result' = (result @ [?p]) @ new"
      "\<forall>p\<in>set new. \<exists>n\<in>set nodes. Relation n \<noteq> ''SELF'' \<and> p = Maven_emitted ext path n"
      "length new \<le> length (filter (\<lambda>n. Relation n \<noteq> ''SELF'') nodes)" by blast
    with False show ?thesis by (intro exI [of _ "?p # new"]) auto
  qed
qed

text \<open>Every node that is not SELF has its key marked when the loop ends.\<close>

lemma PyPI_nodes_seen_mono:
  "PyPI_resolveGroup_nodes ext path nodes (seen, result) = (seen', result') \<Longrightarrow> seen k
     \<Longrightarrow> seen' k"
  by (induction nodes arbitrary: seen result) (auto simp: PyPI_node_step split: if_splits)

lemma Maven_nodes_seen_mono:
  "Maven_resolveGroup_nodes ext path nodes (seen, result) = (seen', result') \<Longrightarrow> seen k
     \<Longrightarrow> seen' k"
  by (induction nodes arbitrary: seen result) (auto simp: Maven_node_step split: if_splits)

lemma PyPI_nodes_covered:
  "PyPI_resolveGroup_nodes ext path nodes (seen, result) = (seen', result') \<Longrightarrow>
     n \<in> set nodes \<Longrightarrow> Relation n \<noteq> ''SELF'' \<Longrightarrow> seen' (dedupKey (PyPI_emitted ext path n))"
proof (induction nodes arbitrary: seen result)
  case Nil
  then show ?case by simp
next
  case (Cons node nodes)
  obtain seen1 result1 where step: "PyPI_resolveGroup_node ext path node (seen, result) = (seen1, result1)"
    by (cases "PyPI_resolveGroup_node ext path node (seen, result)")
  with Cons.prems(1) have run: "PyPI_resolveGroup_nodes ext path nodes (seen1, result1) = (seen', result')"
    by simp
  show ?case
  proof (cases "n = node")
    case True
    with step Cons.prems(3) have "seen1 (dedupKey (PyPI_emitted ext path n))"
      by (auto simp: PyPI_node_step split: if_splits)
    with run show ?thesis by (rule PyPI_nodes_seen_mono)
  next
    case False
    with Cons.prems(2) have "n \<in> set nodes" by simp
    from Cons.IH [OF run this Cons.prems(3)] show ?thesis .
  qed
qed

lemma Maven_nodes_covered:
  "Maven_resolveGroup_nodes ext path nodes (seen, result) = (seen', result') \<Longrightarrow>
     n \<in> set nodes \<Longrightarrow> Relation n \<noteq> ''SELF'' \<Longrightarrow> seen' (dedupKey (Maven_emitted ext path n))"
proof (induction nodes arbitrary: seen result)
  case Nil
  then show ?case by simp
next
  case (Cons node nodes)
  obtain seen1 result1 where step: "Maven_resolveGroup_node ext path node (seen, result) = (seen1, result1)"
    by (cases "Maven_resolveGroup_node ext path node (seen, result)")
  with Cons.prems(1) have run: "Maven_resolveGroup_nodes ext path nodes (seen1, result1) = (seen', result')"
    by simp
  show ?case
  proof (cases "n = node")
    case True
    with step Cons.prems(3) have "seen1 (dedupKey (Maven_emitted ext path n))"
      by (auto simp: Maven_node_step split: if_splits)
    with run show ?thesis by (rule Maven_nodes_seen_mono)
  next
    case False
    with Cons.prems(2) have "n \<in> set nodes" by simp
    from Cons.IH [OF run this Cons.prems(3)] show ?thesis .
  qed
qed

section \<open>The loop over the entries of a group\<close>

lemma PyPI_entries_nodes:
  "\<exists>s'. PyPI_resolveGroup_entries ext path entries (s, sr) =
     (s', PyPI_resolveGroup_nodes ext path
            (concat (map Nodes (graphsReturned ext entries (client s) (world s)))) sr)"
proof (induction entries arbitrary: s sr)
  case Nil
  then show ?case by simp
next
  case (Cons e entries)
  show ?case
  proof (cases "Version (pkg e) = []")
    case True
    with Cons.IH [of s sr] show ?thesis by (simp add: PyPI_resolveGroup_entry_def)
  next
    case False
    obtain r c' w' where g: "GetDependencies ext (client s) (world s) (Name (pkg e)) (Version (pkg e)) = (r, c', w')"
      by (cases "GetDependencies ext (client s) (world s) (Name (pkg e)) (Version (pkg e))")
    show ?thesis
    proof (cases r)
      case (Inl err)
      with False g Cons.IH [of "\<lparr>client = c', world = w',
                    warnings = warnings s @
                      [Warnf ''deps.dev: failed to get dependencies for %s@%s: %v''
                         [Name (pkg e), Version (pkg e)] err]\<rparr>" sr]
      show ?thesis by (simp add: PyPI_resolveGroup_entry_def)
    next
      case (Inr graph)
      with False g Cons.IH [of "\<lparr>client = c', world = w', warnings = warnings s\<rparr>"
          "PyPI_resolveGroup_nodes ext path (Nodes graph) sr"]
      show ?thesis by (simp add: PyPI_resolveGroup_entry_def PyPI_nodes_append)
    qed
  qed
qed

lemma Maven_entries_nodes:
  "\<exists>s'. Maven_resolveGroup_entries ext path entries (s, sr) =
     (s', Maven_resolveGroup_nodes ext path
            (concat (map Nodes (graphsReturned ext entries (client s) (world s)))) sr)"
proof (induction entries arbitrary: s sr)
  case Nil
  then show ?case by simp
next
  case (Cons e entries)
  show ?case
  proof (cases "Version (pkg e) = []")
    case True
    with Cons.IH [of s sr] show ?thesis by (simp add: Maven_resolveGroup_entry_def)
  next
    case False
    obtain r c' w' where g: "GetDependencies ext (client s) (world s) (Name (pkg e)) (Version (pkg e)) = (r, c', w')"
      by (cases "GetDependencies ext (client s) (world s) (Name (pkg e)) (Version (pkg e))")
    show ?thesis
    proof (cases r)
      case (Inl err)
      with False g Cons.IH [of "\<lparr>client = c', world = w',
                    warnings = warnings s @
                      [Warnf ''deps.dev: failed to get Maven dependencies for %s@%s: %v''
                         [Name (pkg e), Version (pkg e)] err]\<rparr>" sr]
      show ?thesis by (simp add: Maven_resolveGroup_entry_def)
    next
      case (Inr graph)
      with False g Cons.IH [of "\<lparr>client = c', world = w', warnings = warnings s\<rparr>"
          "Maven_resolveGroup_nodes ext path (Nodes graph) sr"]
      show ?thesis by (simp add: Maven_resolveGroup_entry_def Maven_nodes_append)
    qed
  qed
qed

text \<open>
  So \<^verbatim>\<open>resolveGroup\<close> returns what the loop over the nodes makes of all the nodes
  returned, from nothing seen and nothing collected.
\<close>

lemma PyPI_resolveGroup_Inr:
  assumes "PyPI_resolveGroup ext s path pkgMap = (Inr pkgs, s')"
  shows "\<exists>seen'. PyPI_resolveGroup_nodes ext path (nodesReturned ext s pkgMap)
                   ((\<lambda>key. False), []) = (seen', pkgs)"
proof -
  from PyPI_entries_nodes [of ext path "map snd (rangeEntries ext pkgMap)" s "((\<lambda>key. False), [])"]
  obtain s1 where e: "PyPI_resolveGroup_entries ext path (map snd (rangeEntries ext pkgMap))
       (s, (\<lambda>key. False), []) =
     (s1, PyPI_resolveGroup_nodes ext path (nodesReturned ext s pkgMap) ((\<lambda>key. False), []))"
    by (auto simp: nodesReturned_def)
  obtain seen1 result1 where n: "PyPI_resolveGroup_nodes ext path (nodesReturned ext s pkgMap)
       ((\<lambda>key. False), []) = (seen1, result1)"
    by (cases "PyPI_resolveGroup_nodes ext path (nodesReturned ext s pkgMap) ((\<lambda>key. False), [])")
  from assms e n have "pkgs = result1"
    by (simp add: PyPI_resolveGroup_def split: if_splits)
  with n show ?thesis by simp
qed

lemma Maven_resolveGroup_Inr:
  assumes "Maven_resolveGroup ext s path pkgMap = (Inr pkgs, s')"
  shows "\<exists>seen'. Maven_resolveGroup_nodes ext path (nodesReturned ext s pkgMap)
                   ((\<lambda>key. False), []) = (seen', pkgs)"
proof -
  from Maven_entries_nodes [of ext path "map snd (rangeEntries ext pkgMap)" s "((\<lambda>key. False), [])"]
  obtain s1 where e: "Maven_resolveGroup_entries ext path (map snd (rangeEntries ext pkgMap))
       (s, (\<lambda>key. False), []) =
     (s1, Maven_resolveGroup_nodes ext path (nodesReturned ext s pkgMap) ((\<lambda>key. False), []))"
    by (auto simp: nodesReturned_def)
  obtain seen1 result1 where n: "Maven_resolveGroup_nodes ext path (nodesReturned ext s pkgMap)
       ((\<lambda>key. False), []) = (seen1, result1)"
    by (cases "Maven_resolveGroup_nodes ext path (nodesReturned ext s pkgMap) ((\<lambda>key. False), [])")
  from assms e n have "pkgs = result1"
    by (simp add: Maven_resolveGroup_def split: if_splits)
  with n show ?thesis by simp
qed

section \<open>Groups without a pinned version\<close>

lemma PyPI_entries_unpinned:
  "\<forall>e\<in>set entries. Version (pkg e) = [] \<Longrightarrow>
     PyPI_resolveGroup_entries ext path entries st = st"
  by (induction entries arbitrary: st)
     (simp_all add: PyPI_resolveGroup_entry_def split: prod.splits)

lemma Maven_entries_unpinned:
  "\<forall>e\<in>set entries. Version (pkg e) = [] \<Longrightarrow>
     Maven_resolveGroup_entries ext path entries st = st"
  by (induction entries arbitrary: st)
     (simp_all add: Maven_resolveGroup_entry_def split: prod.splits)

text \<open>
  C2, as amended. When every entry that \<^verbatim>\<open>range\<close> visits in a group has an empty
  version, \<^verbatim>\<open>resolveGroup\<close> makes no lookup and logs nothing (the session comes back as
  it was); it returns the empty result when the group is empty, and fails with the
  no-dependencies error when the group has an entry.
\<close>

theorem C2_unpinned_group:
  assumes "\<forall>e\<in>set (rangeEntries ext pkgMap). Version (pkg (snd e)) = []"
  shows "PyPI_resolveGroup ext s path pkgMap =
           (if pkgMap = [] then Inr [] else Inl NoDependenciesResolved, s)
         \<and> Maven_resolveGroup ext s path pkgMap =
           (if pkgMap = [] then Inr [] else Inl NoMavenDependenciesResolved, s)"
proof -
  from assms have a: "\<forall>e\<in>set (map snd (rangeEntries ext pkgMap)). Version (pkg e) = []"
    by simp
  have "PyPI_resolveGroup_entries ext path (map snd (rangeEntries ext pkgMap))
          (s, (\<lambda>key. False), []) = (s, (\<lambda>key. False), [])"
    using a by (rule PyPI_entries_unpinned)
  moreover have "Maven_resolveGroup_entries ext path (map snd (rangeEntries ext pkgMap))
          (s, (\<lambda>key. False), []) = (s, (\<lambda>key. False), [])"
    using a by (rule Maven_entries_unpinned)
  ultimately show ?thesis
    by (simp add: PyPI_resolveGroup_def Maven_resolveGroup_def)
qed

theorem C2_unpinned_group_witness:
  "map (\<lambda>e. Version (pkg (snd e)))
      (rangeEntries ex_ext (mkGroup ''r.txt'' ''python/requirements''
        [(''requests'', [], 0), (''urllib3'', [], 1)])) = [[], []]
   \<and> PyPI_resolveGroup ex_ext ex_pypi ''r.txt''
        (mkGroup ''r.txt'' ''python/requirements'' [(''requests'', [], 0), (''urllib3'', [], 1)])
      = (Inl NoDependenciesResolved, ex_pypi)
   \<and> Maven_resolveGroup ex_ext ex_maven ''pom.xml'' [] = (Inr [], ex_maven)"
proof -
  have h: "\<forall>e\<in>set (rangeEntries ex_ext (mkGroup ''r.txt'' ''python/requirements''
        [(''requests'', [], 0), (''urllib3'', [], 1)])). Version (pkg (snd e)) = []"
    by (simp add: ex_ext_def mkGroup_def)
  have h0: "\<forall>e\<in>set (rangeEntries ex_ext []). Version (pkg (snd e)) = []"
    by (simp add: ex_ext_def)
  have ne: "mkGroup ''r.txt'' ''python/requirements'' [(''requests'', [], 0), (''urllib3'', [], 1)]
      \<noteq> []"
    by (simp add: mkGroup_def)
  have vs: "map (\<lambda>e. Version (pkg (snd e)))
      (rangeEntries ex_ext (mkGroup ''r.txt'' ''python/requirements''
        [(''requests'', [], 0), (''urllib3'', [], 1)])) = [[], []]"
    by (simp add: ex_ext_def mkGroup_def)
  from C2_unpinned_group [OF h, of ex_pypi "''r.txt''"] C2_unpinned_group [OF h0, of ex_maven "''pom.xml''"]
    vs ne
  show ?thesis by simp
qed

text \<open>
  The claim as the specification states it fails on a group of one package without a
  version: both resolvers return their no-dependencies error, not the empty result.
\<close>

theorem C2_unpinned_group_counterexample:
  "fst (PyPI_resolveGroup ex_ext ex_pypi ''r.txt''
          (mkGroup ''r.txt'' ''python/requirements'' [(''requests'', [], 0)]))
     = Inl NoDependenciesResolved
   \<and> fst (PyPI_resolveGroup ex_ext ex_pypi ''r.txt''
          (mkGroup ''r.txt'' ''python/requirements'' [(''requests'', [], 0)])) \<noteq> Inr []
   \<and> fst (Maven_resolveGroup ex_ext ex_maven ''pom.xml''
          (mkGroup ''pom.xml'' ''java/pomxml'' [(''org.apache:commons'', [], 0)]))
     = Inl NoMavenDependenciesResolved
   \<and> fst (Maven_resolveGroup ex_ext ex_maven ''pom.xml''
          (mkGroup ''pom.xml'' ''java/pomxml'' [(''org.apache:commons'', [], 0)])) \<noteq> Inr []"
  by (simp add: PyPI_resolveGroup_def Maven_resolveGroup_def PyPI_resolveGroup_entry_def
        Maven_resolveGroup_entry_def mkGroup_def ex_ext_def)

section \<open>What a resolved group holds\<close>

lemma count_list_distinct:
  "distinct xs \<Longrightarrow> x \<in> set xs \<Longrightarrow> count_list xs x = 1"
  by (induction xs) auto

lemma dedupKey_PyPI_emitted:
  "dedupKey (PyPI_emitted ext path n) =
     ToLower ext (KeyName (VersionKey n)) @ ''@'' @ KeyVersion (VersionKey n)"
  by (simp add: dedupKey_def PyPI_emitted_def)

lemma dedupKey_Maven_emitted:
  "dedupKey (Maven_emitted ext path n) =
     KeyName (VersionKey n) @ ''@'' @ KeyVersion (VersionKey n)"
  by (simp add: dedupKey_def Maven_emitted_def)

lemma PyPI_resolveGroup_distinct:
  assumes "PyPI_resolveGroup ext s path pkgMap = (Inr pkgs, s')"
  shows "distinct (map dedupKey pkgs)"
    and "n \<in> set (nodesReturned ext s pkgMap) \<Longrightarrow> Relation n \<noteq> ''SELF'' \<Longrightarrow>
           dedupKey (PyPI_emitted ext path n) \<in> set (map dedupKey pkgs)"
proof -
  from PyPI_resolveGroup_Inr [OF assms] obtain seen' where
    run: "PyPI_resolveGroup_nodes ext path (nodesReturned ext s pkgMap)
            ((\<lambda>key. False), []) = (seen', pkgs)" by blast
  from PyPI_nodes_invariant [OF run] have
    inv: "\<forall>k. seen' k = (k \<in> dedupKey ` set pkgs)" and d: "distinct (map dedupKey pkgs)"
    by simp_all
  from d show "distinct (map dedupKey pkgs)" .
  assume "n \<in> set (nodesReturned ext s pkgMap)" "Relation n \<noteq> ''SELF''"
  from PyPI_nodes_covered [OF run this] inv
  show "dedupKey (PyPI_emitted ext path n) \<in> set (map dedupKey pkgs)" by simp
qed

lemma Maven_resolveGroup_distinct:
  assumes "Maven_resolveGroup ext s path pkgMap = (Inr pkgs, s')"
  shows "distinct (map dedupKey pkgs)"
    and "n \<in> set (nodesReturned ext s pkgMap) \<Longrightarrow> Relation n \<noteq> ''SELF'' \<Longrightarrow>
           dedupKey (Maven_emitted ext path n) \<in> set (map dedupKey pkgs)"
proof -
  from Maven_resolveGroup_Inr [OF assms] obtain seen' where
    run: "Maven_resolveGroup_nodes ext path (nodesReturned ext s pkgMap)
            ((\<lambda>key. False), []) = (seen', pkgs)" by blast
  from Maven_nodes_invariant [OF run] have
    inv: "\<forall>k. seen' k = (k \<in> dedupKey ` set pkgs)" and d: "distinct (map dedupKey pkgs)"
    by simp_all
  from d show "distinct (map dedupKey pkgs)" .
  assume "n \<in> set (nodesReturned ext s pkgMap)" "Relation n \<noteq> ''SELF''"
  from Maven_nodes_covered [OF run this] inv
  show "dedupKey (Maven_emitted ext path n) \<in> set (map dedupKey pkgs)" by simp
qed

lemma PyPI_resolveGroup_origin:
  assumes "PyPI_resolveGroup ext s path pkgMap = (Inr pkgs, s')"
  shows "\<forall>p\<in>set pkgs. \<exists>n\<in>set (nodesReturned ext s pkgMap).
            Relation n \<noteq> ''SELF'' \<and> p = PyPI_emitted ext path n"
    and "length pkgs \<le> length (filter (\<lambda>n. Relation n \<noteq> ''SELF'') (nodesReturned ext s pkgMap))"
proof -
  from PyPI_resolveGroup_Inr [OF assms] obtain seen' where
    run: "PyPI_resolveGroup_nodes ext path (nodesReturned ext s pkgMap)
            ((\<lambda>key. False), []) = (seen', pkgs)" by blast
  from PyPI_nodes_origin [OF run]
  show "\<forall>p\<in>set pkgs. \<exists>n\<in>set (nodesReturned ext s pkgMap).
            Relation n \<noteq> ''SELF'' \<and> p = PyPI_emitted ext path n"
    and "length pkgs \<le> length (filter (\<lambda>n. Relation n \<noteq> ''SELF'') (nodesReturned ext s pkgMap))"
    by auto
qed

lemma Maven_resolveGroup_origin:
  assumes "Maven_resolveGroup ext s path pkgMap = (Inr pkgs, s')"
  shows "\<forall>p\<in>set pkgs. \<exists>n\<in>set (nodesReturned ext s pkgMap).
            Relation n \<noteq> ''SELF'' \<and> p = Maven_emitted ext path n"
    and "length pkgs \<le> length (filter (\<lambda>n. Relation n \<noteq> ''SELF'') (nodesReturned ext s pkgMap))"
proof -
  from Maven_resolveGroup_Inr [OF assms] obtain seen' where
    run: "Maven_resolveGroup_nodes ext path (nodesReturned ext s pkgMap)
            ((\<lambda>key. False), []) = (seen', pkgs)" by blast
  from Maven_nodes_origin [OF run]
  show "\<forall>p\<in>set pkgs. \<exists>n\<in>set (nodesReturned ext s pkgMap).
            Relation n \<noteq> ''SELF'' \<and> p = Maven_emitted ext path n"
    and "length pkgs \<le> length (filter (\<lambda>n. Relation n \<noteq> ''SELF'') (nodesReturned ext s pkgMap))"
    by auto
qed

text \<open>
  A node returned that is not SELF makes the result non-empty, so that \<^verbatim>\<open>resolveGroup\<close>
  returns its packages and not its error.
\<close>

lemma PyPI_resolveGroup_returns:
  assumes "n \<in> set (nodesReturned ext s pkgMap)" "Relation n \<noteq> ''SELF''"
  shows "\<exists>pkgs s'. PyPI_resolveGroup ext s path pkgMap = (Inr pkgs, s')"
proof -
  from PyPI_entries_nodes [of ext path "map snd (rangeEntries ext pkgMap)" s "((\<lambda>key. False), [])"]
  obtain s1 where e: "PyPI_resolveGroup_entries ext path (map snd (rangeEntries ext pkgMap))
       (s, (\<lambda>key. False), []) =
     (s1, PyPI_resolveGroup_nodes ext path (nodesReturned ext s pkgMap) ((\<lambda>key. False), []))"
    by (auto simp: nodesReturned_def)
  obtain seen1 result1 where run: "PyPI_resolveGroup_nodes ext path (nodesReturned ext s pkgMap)
       ((\<lambda>key. False), []) = (seen1, result1)"
    by (cases "PyPI_resolveGroup_nodes ext path (nodesReturned ext s pkgMap) ((\<lambda>key. False), [])")
  from PyPI_nodes_invariant [OF run] have
    inv: "\<forall>k. seen1 k = (k \<in> dedupKey ` set result1)" by simp
  from PyPI_nodes_covered [OF run assms] inv have "result1 \<noteq> []" by auto
  with e run have "PyPI_resolveGroup ext s path pkgMap = (Inr result1, s1)"
    by (simp add: PyPI_resolveGroup_def)
  then show ?thesis by blast
qed

lemma Maven_resolveGroup_returns:
  assumes "n \<in> set (nodesReturned ext s pkgMap)" "Relation n \<noteq> ''SELF''"
  shows "\<exists>pkgs s'. Maven_resolveGroup ext s path pkgMap = (Inr pkgs, s')"
proof -
  from Maven_entries_nodes [of ext path "map snd (rangeEntries ext pkgMap)" s "((\<lambda>key. False), [])"]
  obtain s1 where e: "Maven_resolveGroup_entries ext path (map snd (rangeEntries ext pkgMap))
       (s, (\<lambda>key. False), []) =
     (s1, Maven_resolveGroup_nodes ext path (nodesReturned ext s pkgMap) ((\<lambda>key. False), []))"
    by (auto simp: nodesReturned_def)
  obtain seen1 result1 where run: "Maven_resolveGroup_nodes ext path (nodesReturned ext s pkgMap)
       ((\<lambda>key. False), []) = (seen1, result1)"
    by (cases "Maven_resolveGroup_nodes ext path (nodesReturned ext s pkgMap) ((\<lambda>key. False), [])")
  from Maven_nodes_invariant [OF run] have
    inv: "\<forall>k. seen1 k = (k \<in> dedupKey ` set result1)" by simp
  from Maven_nodes_covered [OF run assms] inv have "result1 \<noteq> []" by auto
  with e run have "Maven_resolveGroup ext s path pkgMap = (Inr result1, s1)"
    by (simp add: Maven_resolveGroup_def)
  then show ?thesis by blast
qed

section \<open>Examples of resolved groups\<close>

lemma ex_pypi_resolve:
  "fst (PyPI_resolveGroup ex_ext ex_pypi ''r.txt''
          (mkGroup ''r.txt'' ''python/requirements''
             [(''requests'', ''2.31.0'', 0), (''httpx'', ''0.25.0'', 1)]))
   = Inr [PyPI_emitted ex_ext ''r.txt'' (mkNode ''PYPI'' ''urllib3'' ''2.0.0'' ''DIRECT''),
          PyPI_emitted ex_ext ''r.txt'' (mkNode ''PYPI'' ''certifi'' ''2023.7.22'' ''INDIRECT''),
          PyPI_emitted ex_ext ''r.txt'' (mkNode ''PYPI'' ''idna'' ''3.4'' ''DIRECT'')]"
  by code_simp

lemma ex_pypi_nodes:
  "nodesReturned ex_ext ex_pypi
     (mkGroup ''r.txt'' ''python/requirements''
        [(''requests'', ''2.31.0'', 0), (''httpx'', ''0.25.0'', 1)])
   = Nodes ex_graph @ Nodes ex_httpx_graph"
  by code_simp

lemma ex_maven_resolve:
  "fst (Maven_resolveGroup ex_ext ex_maven ''pom.xml''
          (mkGroup ''pom.xml'' ''java/pomxml''
             [(''org.apache:commons'', ''1.0'', 0), (''org.apache:commons-text'', ''1.1'', 1)]))
   = Inr [Maven_emitted ex_ext ''pom.xml''
            (mkNode ''MAVEN'' ''org.apache:commons-io'' ''2.5'' ''INDIRECT''),
          Maven_emitted ex_ext ''pom.xml''
            (mkNode ''MAVEN'' ''org.apache:Commons-IO'' ''2.5'' ''DIRECT'')]"
  by code_simp

lemma ex_maven_nodes:
  "nodesReturned ex_ext ex_maven
     (mkGroup ''pom.xml'' ''java/pomxml''
        [(''org.apache:commons'', ''1.0'', 0), (''org.apache:commons-text'', ''1.1'', 1)])
   = Nodes ex_maven_graph @ Nodes ex_maven_text_graph"
  by code_simp

lemma ex_maven_scenario:
  "Maven_emitted ex_ext ''pom.xml''
     (mkNode ''MAVEN'' ''org.apache:commons-io'' ''2.5'' ''INDIRECT'')
   = \<lparr>Name = ''org.apache:commons-io'', Version = ''2.5'', PURLType = ''maven'',
      Locations = [''pom.xml''], Plugins = [''transitivedependency/maven/depsdev''],
      Metadata = Some \<lparr>ArtifactID = ''commons-io'', GroupID = ''org.apache'',
                        IsTransitive = True\<rparr>\<rparr>"
  by code_simp


lemma pair_of_fst: "fst x = a \<Longrightarrow> x = (a, snd x)"
  by (cases x) simp

section \<open>C4: one package for a key\<close>

text \<open>
  C4. Whenever a graph returned for a group has a node that is not SELF, \<^verbatim>\<open>resolveGroup\<close>
  returns packages, not its error, and among the packages it returns the key
  \<^verbatim>\<open>name@version\<close> of that node occurs exactly once, however many graphs of the group
  have the node: the keys seen are kept for the whole group, across the graphs of all its
  direct packages. And whatever \<^verbatim>\<open>resolveGroup\<close> returns, no two of the packages have the
  same key. PyPI keys use the lowered name, Maven keys the name as it is.
\<close>

theorem C4_dedup_within_group:
  "(n \<in> set (nodesReturned ext s pkgMap) \<and> Relation n \<noteq> ''SELF'' \<longrightarrow>
      (\<exists>pkgs s'. PyPI_resolveGroup ext s path pkgMap = (Inr pkgs, s')
         \<and> distinct (map dedupKey pkgs)
         \<and> count_list (map dedupKey pkgs)
             (ToLower ext (KeyName (VersionKey n)) @ ''@'' @ KeyVersion (VersionKey n)) = 1))
   \<and> (n \<in> set (nodesReturned ext ms pkgMap) \<and> Relation n \<noteq> ''SELF'' \<longrightarrow>
      (\<exists>pkgs s'. Maven_resolveGroup ext ms path pkgMap = (Inr pkgs, s')
         \<and> distinct (map dedupKey pkgs)
         \<and> count_list (map dedupKey pkgs)
             (KeyName (VersionKey n) @ ''@'' @ KeyVersion (VersionKey n)) = 1))
   \<and> distinct (map dedupKey
        (case fst (PyPI_resolveGroup ext s path pkgMap) of Inl e \<Rightarrow> [] | Inr pkgs \<Rightarrow> pkgs))
   \<and> distinct (map dedupKey
        (case fst (Maven_resolveGroup ext ms path pkgMap) of Inl e \<Rightarrow> [] | Inr pkgs \<Rightarrow> pkgs))"
proof (intro conjI impI)
  assume a: "n \<in> set (nodesReturned ext s pkgMap) \<and> Relation n \<noteq> ''SELF''"
  then have m: "n \<in> set (nodesReturned ext s pkgMap)" and r: "Relation n \<noteq> ''SELF''"
    by simp_all
  from PyPI_resolveGroup_returns [OF m r] obtain pkgs s' where
    res: "PyPI_resolveGroup ext s path pkgMap = (Inr pkgs, s')" by blast
  from res have d: "distinct (map dedupKey pkgs)" by (rule PyPI_resolveGroup_distinct(1))
  from PyPI_resolveGroup_distinct(2) [OF res m r]
  have "ToLower ext (KeyName (VersionKey n)) @ ''@'' @ KeyVersion (VersionKey n)
          \<in> set (map dedupKey pkgs)"
    by (simp only: dedupKey_PyPI_emitted)
  with d have "count_list (map dedupKey pkgs)
           (ToLower ext (KeyName (VersionKey n)) @ ''@'' @ KeyVersion (VersionKey n)) = 1"
    by (rule count_list_distinct)
  with res d show "\<exists>pkgs s'. PyPI_resolveGroup ext s path pkgMap = (Inr pkgs, s')
         \<and> distinct (map dedupKey pkgs)
         \<and> count_list (map dedupKey pkgs)
             (ToLower ext (KeyName (VersionKey n)) @ ''@'' @ KeyVersion (VersionKey n)) = 1"
    by blast
next
  assume a: "n \<in> set (nodesReturned ext ms pkgMap) \<and> Relation n \<noteq> ''SELF''"
  then have m: "n \<in> set (nodesReturned ext ms pkgMap)" and r: "Relation n \<noteq> ''SELF''"
    by simp_all
  from Maven_resolveGroup_returns [OF m r] obtain pkgs s' where
    res: "Maven_resolveGroup ext ms path pkgMap = (Inr pkgs, s')" by blast
  from res have d: "distinct (map dedupKey pkgs)" by (rule Maven_resolveGroup_distinct(1))
  from Maven_resolveGroup_distinct(2) [OF res m r]
  have "KeyName (VersionKey n) @ ''@'' @ KeyVersion (VersionKey n)
          \<in> set (map dedupKey pkgs)"
    by (simp only: dedupKey_Maven_emitted)
  with d have "count_list (map dedupKey pkgs)
           (KeyName (VersionKey n) @ ''@'' @ KeyVersion (VersionKey n)) = 1"
    by (rule count_list_distinct)
  with res d show "\<exists>pkgs s'. Maven_resolveGroup ext ms path pkgMap = (Inr pkgs, s')
         \<and> distinct (map dedupKey pkgs)
         \<and> count_list (map dedupKey pkgs)
             (KeyName (VersionKey n) @ ''@'' @ KeyVersion (VersionKey n)) = 1"
    by blast
next
  show "distinct (map dedupKey
        (case fst (PyPI_resolveGroup ext s path pkgMap) of Inl e \<Rightarrow> [] | Inr pkgs \<Rightarrow> pkgs))"
  proof (cases "fst (PyPI_resolveGroup ext s path pkgMap)")
    case (Inl e)
    then show ?thesis by simp
  next
    case (Inr pkgs)
    from PyPI_resolveGroup_distinct(1) [OF pair_of_fst [OF Inr]] Inr show ?thesis by simp
  qed
next
  show "distinct (map dedupKey
        (case fst (Maven_resolveGroup ext ms path pkgMap) of Inl e \<Rightarrow> [] | Inr pkgs \<Rightarrow> pkgs))"
  proof (cases "fst (Maven_resolveGroup ext ms path pkgMap)")
    case (Inl e)
    then show ?thesis by simp
  next
    case (Inr pkgs)
    from Maven_resolveGroup_distinct(1) [OF pair_of_fst [OF Inr]] Inr show ?thesis by simp
  qed
qed

text \<open>
  The witness: \<^verbatim>\<open>requests\<close> and \<^verbatim>\<open>httpx\<close> in one requirements file both depend on
  \<^verbatim>\<open>certifi@2023.7.22\<close> (the second graph spells it \<^verbatim>\<open>Certifi\<close>); two Maven packages in one
  \<^verbatim>\<open>pom.xml\<close> both depend on \<^verbatim>\<open>org.apache:commons-io@2.5\<close>. The counts are taken in what
  \<^verbatim>\<open>resolveGroup\<close> returns.
\<close>

theorem C4_dedup_within_group_witness:
  "nodesReturned ex_ext ex_pypi
     (mkGroup ''r.txt'' ''python/requirements''
        [(''requests'', ''2.31.0'', 0), (''httpx'', ''0.25.0'', 1)])
     = [mkNode ''PYPI'' ''requests'' ''2.31.0'' ''SELF'',
        mkNode ''PYPI'' ''urllib3'' ''2.0.0'' ''DIRECT'',
        mkNode ''PYPI'' ''certifi'' ''2023.7.22'' ''INDIRECT'',
        mkNode ''PYPI'' ''httpx'' ''0.25.0'' ''SELF'',
        mkNode ''PYPI'' ''Certifi'' ''2023.7.22'' ''DIRECT'',
        mkNode ''PYPI'' ''idna'' ''3.4'' ''DIRECT'']
   \<and> fst (PyPI_resolveGroup ex_ext ex_pypi ''r.txt''
          (mkGroup ''r.txt'' ''python/requirements''
             [(''requests'', ''2.31.0'', 0), (''httpx'', ''0.25.0'', 1)]))
     = Inr [PyPI_emitted ex_ext ''r.txt'' (mkNode ''PYPI'' ''urllib3'' ''2.0.0'' ''DIRECT''),
            PyPI_emitted ex_ext ''r.txt'' (mkNode ''PYPI'' ''certifi'' ''2023.7.22'' ''INDIRECT''),
            PyPI_emitted ex_ext ''r.txt'' (mkNode ''PYPI'' ''idna'' ''3.4'' ''DIRECT'')]
   \<and> count_list (map dedupKey
        (projr (fst (PyPI_resolveGroup ex_ext ex_pypi ''r.txt''
          (mkGroup ''r.txt'' ''python/requirements''
             [(''requests'', ''2.31.0'', 0), (''httpx'', ''0.25.0'', 1)])))))
        ''certifi@2023.7.22'' = 1
   \<and> nodesReturned ex_ext ex_maven
     (mkGroup ''pom.xml'' ''java/pomxml''
        [(''org.apache:commons'', ''1.0'', 0), (''org.apache:commons-text'', ''1.1'', 1)])
     = [mkNode ''MAVEN'' ''org.apache:commons'' ''1.0'' ''SELF'',
        mkNode ''MAVEN'' ''org.apache:commons-io'' ''2.5'' ''INDIRECT'',
        mkNode ''MAVEN'' ''org.apache:commons-text'' ''1.1'' ''SELF'',
        mkNode ''MAVEN'' ''org.apache:commons-io'' ''2.5'' ''DIRECT'',
        mkNode ''MAVEN'' ''org.apache:Commons-IO'' ''2.5'' ''DIRECT'']
   \<and> fst (Maven_resolveGroup ex_ext ex_maven ''pom.xml''
          (mkGroup ''pom.xml'' ''java/pomxml''
             [(''org.apache:commons'', ''1.0'', 0), (''org.apache:commons-text'', ''1.1'', 1)]))
     = Inr [Maven_emitted ex_ext ''pom.xml''
              (mkNode ''MAVEN'' ''org.apache:commons-io'' ''2.5'' ''INDIRECT''),
            Maven_emitted ex_ext ''pom.xml''
              (mkNode ''MAVEN'' ''org.apache:Commons-IO'' ''2.5'' ''DIRECT'')]
   \<and> count_list (map dedupKey
        (projr (fst (Maven_resolveGroup ex_ext ex_maven ''pom.xml''
          (mkGroup ''pom.xml'' ''java/pomxml''
             [(''org.apache:commons'', ''1.0'', 0), (''org.apache:commons-text'', ''1.1'', 1)])))))
        ''org.apache:commons-io@2.5'' = 1"
proof -
  let ?G = "mkGroup ''r.txt'' ''python/requirements''
            [(''requests'', ''2.31.0'', 0), (''httpx'', ''0.25.0'', 1)]"
  let ?M = "mkGroup ''pom.xml'' ''java/pomxml''
            [(''org.apache:commons'', ''1.0'', 0), (''org.apache:commons-text'', ''1.1'', 1)]"
  let ?n = "mkNode ''PYPI'' ''Certifi'' ''2023.7.22'' ''DIRECT''"
  let ?m = "mkNode ''MAVEN'' ''org.apache:commons-io'' ''2.5'' ''DIRECT''"
  have nodes1: "nodesReturned ex_ext ex_pypi ?G
     = [mkNode ''PYPI'' ''requests'' ''2.31.0'' ''SELF'',
        mkNode ''PYPI'' ''urllib3'' ''2.0.0'' ''DIRECT'',
        mkNode ''PYPI'' ''certifi'' ''2023.7.22'' ''INDIRECT'',
        mkNode ''PYPI'' ''httpx'' ''0.25.0'' ''SELF'',
        mkNode ''PYPI'' ''Certifi'' ''2023.7.22'' ''DIRECT'',
        mkNode ''PYPI'' ''idna'' ''3.4'' ''DIRECT'']"
    by code_simp
  have nodes2: "nodesReturned ex_ext ex_maven ?M
     = [mkNode ''MAVEN'' ''org.apache:commons'' ''1.0'' ''SELF'',
        mkNode ''MAVEN'' ''org.apache:commons-io'' ''2.5'' ''INDIRECT'',
        mkNode ''MAVEN'' ''org.apache:commons-text'' ''1.1'' ''SELF'',
        mkNode ''MAVEN'' ''org.apache:commons-io'' ''2.5'' ''DIRECT'',
        mkNode ''MAVEN'' ''org.apache:Commons-IO'' ''2.5'' ''DIRECT'']"
    by code_simp
  have m2: "?n \<in> set (nodesReturned ex_ext ex_pypi ?G)"
    by (subst nodes1) simp
  have m3: "?m \<in> set (nodesReturned ex_ext ex_maven ?M)"
    by (subst nodes2) simp
  have r2: "Relation ?n \<noteq> ''SELF''" and r3: "Relation ?m \<noteq> ''SELF''"
    by (simp_all add: mkNode_def)
  have k2: "ToLower ex_ext (KeyName (VersionKey ?n)) @ ''@'' @ KeyVersion (VersionKey ?n)
              = ''certifi@2023.7.22''"
    by code_simp
  have k3: "KeyName (VersionKey ?m) @ ''@'' @ KeyVersion (VersionKey ?m)
              = ''org.apache:commons-io@2.5''"
    by (simp add: mkNode_def)
  from C4_dedup_within_group [where n = ?n and ext = ex_ext and s = ex_pypi and pkgMap = ?G
      and path = "''r.txt''"] m2 r2
  obtain pkgs s' where
    p: "PyPI_resolveGroup ex_ext ex_pypi ''r.txt'' ?G = (Inr pkgs, s')"
       "count_list (map dedupKey pkgs)
          (ToLower ex_ext (KeyName (VersionKey ?n)) @ ''@'' @ KeyVersion (VersionKey ?n)) = 1"
    by blast
  from p(1) have "projr (fst (PyPI_resolveGroup ex_ext ex_pypi ''r.txt'' ?G)) = pkgs" by simp
  with p(2) k2 have c2: "count_list (map dedupKey
        (projr (fst (PyPI_resolveGroup ex_ext ex_pypi ''r.txt'' ?G)))) ''certifi@2023.7.22'' = 1"
    by simp
  from C4_dedup_within_group [where n = ?m and ext = ex_ext and ms = ex_maven and pkgMap = ?M
      and path = "''pom.xml''"] m3 r3
  obtain mpkgs ms' where
    q: "Maven_resolveGroup ex_ext ex_maven ''pom.xml'' ?M = (Inr mpkgs, ms')"
       "count_list (map dedupKey mpkgs)
          (KeyName (VersionKey ?m) @ ''@'' @ KeyVersion (VersionKey ?m)) = 1"
    by blast
  from q(1) have "projr (fst (Maven_resolveGroup ex_ext ex_maven ''pom.xml'' ?M)) = mpkgs"
    by simp
  with q(2) k3 have c3: "count_list (map dedupKey
        (projr (fst (Maven_resolveGroup ex_ext ex_maven ''pom.xml'' ?M))))
        ''org.apache:commons-io@2.5'' = 1"
    by simp
  from nodes1 nodes2 c2 c3 ex_pypi_resolve ex_maven_resolve show ?thesis by blast
qed

section \<open>C5: names in the key\<close>





section \<open>C6: the SELF node\<close>

text \<open>
  C6. The body of the loop over the nodes leaves \<open>seen\<close> and \<open>result\<close> as they are at a
  node whose relation is SELF. Every package that \<^verbatim>\<open>resolveGroup\<close> returns for a group is
  the package built for a node, of a graph returned for the group, whose relation is not
  SELF; and there are at most as many packages as such nodes.
\<close>

theorem C6_self_not_emitted:
  "(Relation node = ''SELF'' \<longrightarrow>
      PyPI_resolveGroup_node ext path node sr = sr
      \<and> Maven_resolveGroup_node ext path node sr = sr)
   \<and> (PyPI_resolveGroup ext s path pkgMap = (Inr pkgs, s') \<longrightarrow>
        (\<forall>p\<in>set pkgs. \<exists>n\<in>set (nodesReturned ext s pkgMap).
           Relation n \<noteq> ''SELF'' \<and> p = PyPI_emitted ext path n)
        \<and> length pkgs
            \<le> length (filter (\<lambda>n. Relation n \<noteq> ''SELF'') (nodesReturned ext s pkgMap)))
   \<and> (Maven_resolveGroup ext ms path pkgMap = (Inr mpkgs, ms') \<longrightarrow>
        (\<forall>p\<in>set mpkgs. \<exists>n\<in>set (nodesReturned ext ms pkgMap).
           Relation n \<noteq> ''SELF'' \<and> p = Maven_emitted ext path n)
        \<and> length mpkgs
            \<le> length (filter (\<lambda>n. Relation n \<noteq> ''SELF'') (nodesReturned ext ms pkgMap)))"
proof (intro conjI impI)
  assume "Relation node = ''SELF''"
  then show "PyPI_resolveGroup_node ext path node sr = sr"
    and "Maven_resolveGroup_node ext path node sr = sr"
    by (cases sr, simp add: PyPI_node_step, cases sr, simp add: Maven_node_step)
next
  assume r: "PyPI_resolveGroup ext s path pkgMap = (Inr pkgs, s')"
  from PyPI_resolveGroup_origin [OF r]
  show "\<forall>p\<in>set pkgs. \<exists>n\<in>set (nodesReturned ext s pkgMap).
           Relation n \<noteq> ''SELF'' \<and> p = PyPI_emitted ext path n"
    and "length pkgs
            \<le> length (filter (\<lambda>n. Relation n \<noteq> ''SELF'') (nodesReturned ext s pkgMap))"
    by blast+
next
  assume r: "Maven_resolveGroup ext ms path pkgMap = (Inr mpkgs, ms')"
  from Maven_resolveGroup_origin [OF r]
  show "\<forall>p\<in>set mpkgs. \<exists>n\<in>set (nodesReturned ext ms pkgMap).
           Relation n \<noteq> ''SELF'' \<and> p = Maven_emitted ext path n"
    and "length mpkgs
            \<le> length (filter (\<lambda>n. Relation n \<noteq> ''SELF'') (nodesReturned ext ms pkgMap))"
    by blast+
qed

lemma ex_pypi_scenario:
  "fst (PyPI_resolveGroup ex_ext ex_pypi ''r.txt''
          (mkGroup ''r.txt'' ''python/requirements'' [(''requests'', ''2.31.0'', 0)]))
   = Inr [\<lparr>Name = ''urllib3'', Version = ''2.0.0'', PURLType = ''pypi'',
           Locations = [''r.txt''],
           Plugins = [''transitivedependency/requirements/depsdev''], Metadata = None\<rparr>,
          \<lparr>Name = ''certifi'', Version = ''2023.7.22'', PURLType = ''pypi'',
           Locations = [''r.txt''],
           Plugins = [''transitivedependency/requirements/depsdev''], Metadata = None\<rparr>]"
  by code_simp

lemma ex_pypi_scenario_nodes:
  "nodesReturned ex_ext ex_pypi
     (mkGroup ''r.txt'' ''python/requirements'' [(''requests'', ''2.31.0'', 0)])
   = [mkNode ''PYPI'' ''requests'' ''2.31.0'' ''SELF'',
      mkNode ''PYPI'' ''urllib3'' ''2.0.0'' ''DIRECT'',
      mkNode ''PYPI'' ''certifi'' ''2023.7.22'' ''INDIRECT'']"
  by code_simp

lemma ex_maven_scenario_resolve:
  "fst (Maven_resolveGroup ex_ext ex_maven ''pom.xml''
          (mkGroup ''pom.xml'' ''java/pomxml'' [(''org.apache:commons'', ''1.0'', 0)]))
   = Inr [\<lparr>Name = ''org.apache:commons-io'', Version = ''2.5'', PURLType = ''maven'',
           Locations = [''pom.xml''], Plugins = [''transitivedependency/maven/depsdev''],
           Metadata = Some \<lparr>ArtifactID = ''commons-io'', GroupID = ''org.apache'',
                             IsTransitive = True\<rparr>\<rparr>]"
  by code_simp

lemma ex_maven_scenario_nodes:
  "nodesReturned ex_ext ex_maven
     (mkGroup ''pom.xml'' ''java/pomxml'' [(''org.apache:commons'', ''1.0'', 0)])
   = [mkNode ''MAVEN'' ''org.apache:commons'' ''1.0'' ''SELF'',
      mkNode ''MAVEN'' ''org.apache:commons-io'' ''2.5'' ''INDIRECT'']"
  by code_simp

text \<open>
  The witness is the PyPI scenario of the specification: the graph of \<^verbatim>\<open>requests@2.31.0\<close>
  has three nodes, the first is SELF, and two packages come out.
\<close>

theorem C6_self_not_emitted_witness:
  "Relation (mkNode ''PYPI'' ''requests'' ''2.31.0'' ''SELF'') = ''SELF''
   \<and> PyPI_resolveGroup_node ex_ext ''r.txt'' (mkNode ''PYPI'' ''requests'' ''2.31.0'' ''SELF'')
        ((\<lambda>key. False), []) = ((\<lambda>key. False), [])
   \<and> nodesReturned ex_ext ex_pypi
        (mkGroup ''r.txt'' ''python/requirements'' [(''requests'', ''2.31.0'', 0)])
      = [mkNode ''PYPI'' ''requests'' ''2.31.0'' ''SELF'',
         mkNode ''PYPI'' ''urllib3'' ''2.0.0'' ''DIRECT'',
         mkNode ''PYPI'' ''certifi'' ''2023.7.22'' ''INDIRECT'']
   \<and> fst (PyPI_resolveGroup ex_ext ex_pypi ''r.txt''
          (mkGroup ''r.txt'' ''python/requirements'' [(''requests'', ''2.31.0'', 0)]))
      = Inr [\<lparr>Name = ''urllib3'', Version = ''2.0.0'', PURLType = ''pypi'',
           Locations = [''r.txt''],
           Plugins = [''transitivedependency/requirements/depsdev''], Metadata = None\<rparr>,
          \<lparr>Name = ''certifi'', Version = ''2023.7.22'', PURLType = ''pypi'',
           Locations = [''r.txt''],
           Plugins = [''transitivedependency/requirements/depsdev''], Metadata = None\<rparr>]
   \<and> (\<exists>n. n \<in> set (nodesReturned ex_ext ex_pypi
           (mkGroup ''r.txt'' ''python/requirements'' [(''requests'', ''2.31.0'', 0)]))
         \<and> Relation n \<noteq> ''SELF''
         \<and> \<lparr>Name = ''urllib3'', Version = ''2.0.0'', PURLType = ''pypi'',
             Locations = [''r.txt''],
             Plugins = [''transitivedependency/requirements/depsdev''], Metadata = None\<rparr>
           = PyPI_emitted ex_ext ''r.txt'' n)
   \<and> (\<exists>n. n \<in> set (nodesReturned ex_ext ex_maven
           (mkGroup ''pom.xml'' ''java/pomxml'' [(''org.apache:commons'', ''1.0'', 0)]))
         \<and> Relation n \<noteq> ''SELF''
         \<and> \<lparr>Name = ''org.apache:commons-io'', Version = ''2.5'', PURLType = ''maven'',
             Locations = [''pom.xml''], Plugins = [''transitivedependency/maven/depsdev''],
             Metadata = Some \<lparr>ArtifactID = ''commons-io'', GroupID = ''org.apache'',
                               IsTransitive = True\<rparr>\<rparr>
           = Maven_emitted ex_ext ''pom.xml'' n)"
proof -
  let ?self = "mkNode ''PYPI'' ''requests'' ''2.31.0'' ''SELF''"
  let ?G = "mkGroup ''r.txt'' ''python/requirements'' [(''requests'', ''2.31.0'', 0)]"
  let ?M = "mkGroup ''pom.xml'' ''java/pomxml'' [(''org.apache:commons'', ''1.0'', 0)]"
  let ?p1 = "\<lparr>Name = ''urllib3'', Version = ''2.0.0'', PURLType = ''pypi'',
             Locations = [''r.txt''],
             Plugins = [''transitivedependency/requirements/depsdev''], Metadata = None\<rparr>"
  let ?p2 = "\<lparr>Name = ''certifi'', Version = ''2023.7.22'', PURLType = ''pypi'',
           Locations = [''r.txt''],
           Plugins = [''transitivedependency/requirements/depsdev''], Metadata = None\<rparr>"
  let ?q = "\<lparr>Name = ''org.apache:commons-io'', Version = ''2.5'', PURLType = ''maven'',
             Locations = [''pom.xml''], Plugins = [''transitivedependency/maven/depsdev''],
             Metadata = Some \<lparr>ArtifactID = ''commons-io'', GroupID = ''org.apache'',
                               IsTransitive = True\<rparr>\<rparr>"
  have h: "Relation ?self = ''SELF''" by (simp add: mkNode_def)
  from C6_self_not_emitted [where node = ?self and ext = ex_ext and path = "''r.txt''"
      and sr = "((\<lambda>key. False), [])"] h
  have a: "PyPI_resolveGroup_node ex_ext ''r.txt'' ?self ((\<lambda>key. False), [])
             = ((\<lambda>key. False), [])"
    by blast
  from C6_self_not_emitted [where ext = ex_ext and path = "''r.txt''" and s = ex_pypi
      and pkgMap = ?G and s' = "snd (PyPI_resolveGroup ex_ext ex_pypi ''r.txt'' ?G)"
      and pkgs = "[?p1, ?p2]"]
    pair_of_fst [OF ex_pypi_scenario]
  have "\<forall>p\<in>set [?p1, ?p2]. \<exists>n\<in>set (nodesReturned ex_ext ex_pypi ?G).
           Relation n \<noteq> ''SELF'' \<and> p = PyPI_emitted ex_ext ''r.txt'' n"
    by blast
  then have b: "\<exists>n. n \<in> set (nodesReturned ex_ext ex_pypi ?G)
         \<and> Relation n \<noteq> ''SELF'' \<and> ?p1 = PyPI_emitted ex_ext ''r.txt'' n"
    by (metis list.set_intros(1))
  from C6_self_not_emitted [where ext = ex_ext and path = "''pom.xml''" and ms = ex_maven
      and pkgMap = ?M and ms' = "snd (Maven_resolveGroup ex_ext ex_maven ''pom.xml'' ?M)"
      and mpkgs = "[?q]"]
    pair_of_fst [OF ex_maven_scenario_resolve]
  have "\<forall>p\<in>set [?q]. \<exists>n\<in>set (nodesReturned ex_ext ex_maven ?M).
           Relation n \<noteq> ''SELF'' \<and> p = Maven_emitted ex_ext ''pom.xml'' n"
    by blast
  then have c: "\<exists>n. n \<in> set (nodesReturned ex_ext ex_maven ?M)
         \<and> Relation n \<noteq> ''SELF'' \<and> ?q = Maven_emitted ex_ext ''pom.xml'' n"
    by (metis list.set_intros(1))
  from h a b c ex_pypi_scenario ex_pypi_scenario_nodes show ?thesis by blast
qed

section \<open>C7: the metadata of a Maven package\<close>

lemma Cut_first:
  "Cut s c =
     (if c \<in> set s
      then (takeWhile (\<lambda>x. x \<noteq> c) s, tl (dropWhile (\<lambda>x. x \<noteq> c) s), True)
      else (s, [], False))"
proof (cases "c \<in> set s")
  case True
  then obtain x after where "dropWhile (\<lambda>x. x \<noteq> c) s = x # after"
    by (cases "dropWhile (\<lambda>x. x \<noteq> c) s") auto
  with True show ?thesis by (simp add: Cut_def)
next
  case False
  then have "dropWhile (\<lambda>x. x \<noteq> c) s = []" by auto
  with False show ?thesis by (simp only: Cut_def list.case if_False)
qed

lemma Cut_split:
  assumes "c \<in> set s"
  shows "s = fst (Cut s c) @ c # fst (snd (Cut s c))" and "c \<notin> set (fst (Cut s c))"
proof -
  from assms have ne: "dropWhile (\<lambda>x. x \<noteq> c) s \<noteq> []"
    by auto
  then have "\<not> (hd (dropWhile (\<lambda>x. x \<noteq> c) s) \<noteq> c)" by (rule hd_dropWhile)
  with ne have "dropWhile (\<lambda>x. x \<noteq> c) s = c # tl (dropWhile (\<lambda>x. x \<noteq> c) s)"
    by (cases "dropWhile (\<lambda>x. x \<noteq> c) s") auto
  then have "s = takeWhile (\<lambda>x. x \<noteq> c) s @ c # tl (dropWhile (\<lambda>x. x \<noteq> c) s)"
    by (metis takeWhile_dropWhile_id)
  with assms show "s = fst (Cut s c) @ c # fst (snd (Cut s c))"
    by (simp add: Cut_first)
  from assms show "c \<notin> set (fst (Cut s c))"
    by (auto simp: Cut_first dest: set_takeWhileD)
qed

lemma Maven_emitted_metadata:
  "\<exists>md. Metadata (Maven_emitted ext path n) = Some md
     \<and> IsTransitive md = (Relation n = ''INDIRECT'')
     \<and> (if CHR '':'' \<in> set (KeyName (VersionKey n))
         then KeyName (VersionKey n) = GroupID md @ '':'' @ ArtifactID md
              \<and> CHR '':'' \<notin> set (GroupID md)
         else GroupID md = KeyName (VersionKey n) \<and> ArtifactID md = [])"
proof (cases "CHR '':'' \<in> set (KeyName (VersionKey n))")
  case True
  from Cut_split [OF True] True show ?thesis
    by (simp add: Maven_emitted_def)
next
  case False
  then show ?thesis by (simp add: Maven_emitted_def Cut_first)
qed

text \<open>
  C7. At a Maven node that is not SELF and whose key is new, the body of the loop appends
  one package; and every package a Maven group resolves to has the name and version of a
  node returned that is not SELF, and metadata in which \<open>IsTransitive\<close> says whether the
  relation of that node is INDIRECT and in which \<open>GroupID\<close> and \<open>ArtifactID\<close> are the
  name before and after its first colon (the whole name and the empty string when the
  name has no colon).
\<close>

theorem C7_maven_metadata:
  "(Relation node \<noteq> ''SELF''
      \<and> \<not> seen (KeyName (VersionKey node) @ ''@'' @ KeyVersion (VersionKey node)) \<longrightarrow>
      (\<exists>p md. snd (Maven_resolveGroup_node ext path node (seen, result)) = result @ [p]
         \<and> Name p = KeyName (VersionKey node) \<and> Version p = KeyVersion (VersionKey node)
         \<and> Metadata p = Some md \<and> IsTransitive md = (Relation node = ''INDIRECT'')
         \<and> (if CHR '':'' \<in> set (Name p)
             then Name p = GroupID md @ '':'' @ ArtifactID md \<and> CHR '':'' \<notin> set (GroupID md)
             else GroupID md = Name p \<and> ArtifactID md = [])))
   \<and> (Maven_resolveGroup ext s path pkgMap = (Inr pkgs, s') \<longrightarrow>
        (\<forall>p\<in>set pkgs. \<exists>n\<in>set (nodesReturned ext s pkgMap). \<exists>md.
           Relation n \<noteq> ''SELF''
           \<and> Name p = KeyName (VersionKey n) \<and> Version p = KeyVersion (VersionKey n)
           \<and> Metadata p = Some md \<and> IsTransitive md = (Relation n = ''INDIRECT'')
           \<and> (if CHR '':'' \<in> set (Name p)
               then Name p = GroupID md @ '':'' @ ArtifactID md
                    \<and> CHR '':'' \<notin> set (GroupID md)
               else GroupID md = Name p \<and> ArtifactID md = [])))"
proof (intro conjI impI)
  assume a: "Relation node \<noteq> ''SELF''
      \<and> \<not> seen (KeyName (VersionKey node) @ ''@'' @ KeyVersion (VersionKey node))"
  let ?p = "Maven_emitted ext path node"
  from a have step: "snd (Maven_resolveGroup_node ext path node (seen, result)) = result @ [?p]"
    by (simp add: Maven_node_step dedupKey_Maven_emitted)
  have nv: "Name ?p = KeyName (VersionKey node)" "Version ?p = KeyVersion (VersionKey node)"
    by (simp_all add: Maven_emitted_def)
  from Maven_emitted_metadata [of ext path node] obtain md where
    "Metadata ?p = Some md" "IsTransitive md = (Relation node = ''INDIRECT'')"
    "if CHR '':'' \<in> set (KeyName (VersionKey node))
         then KeyName (VersionKey node) = GroupID md @ '':'' @ ArtifactID md
              \<and> CHR '':'' \<notin> set (GroupID md)
         else GroupID md = KeyName (VersionKey node) \<and> ArtifactID md = []" by blast
  with step nv show "\<exists>p md. snd (Maven_resolveGroup_node ext path node (seen, result)) = result @ [p]
         \<and> Name p = KeyName (VersionKey node) \<and> Version p = KeyVersion (VersionKey node)
         \<and> Metadata p = Some md \<and> IsTransitive md = (Relation node = ''INDIRECT'')
         \<and> (if CHR '':'' \<in> set (Name p)
             then Name p = GroupID md @ '':'' @ ArtifactID md \<and> CHR '':'' \<notin> set (GroupID md)
             else GroupID md = Name p \<and> ArtifactID md = [])"
    by (intro exI [of _ ?p] exI [of _ md]) (simp only: simp_thms)
next
  assume r: "Maven_resolveGroup ext s path pkgMap = (Inr pkgs, s')"
  show "\<forall>p\<in>set pkgs. \<exists>n\<in>set (nodesReturned ext s pkgMap). \<exists>md.
           Relation n \<noteq> ''SELF''
           \<and> Name p = KeyName (VersionKey n) \<and> Version p = KeyVersion (VersionKey n)
           \<and> Metadata p = Some md \<and> IsTransitive md = (Relation n = ''INDIRECT'')
           \<and> (if CHR '':'' \<in> set (Name p)
               then Name p = GroupID md @ '':'' @ ArtifactID md
                    \<and> CHR '':'' \<notin> set (GroupID md)
               else GroupID md = Name p \<and> ArtifactID md = [])"
  proof
    fix p assume "p \<in> set pkgs"
    with Maven_resolveGroup_origin(1) [OF r] obtain n where
      n: "n \<in> set (nodesReturned ext s pkgMap)" "Relation n \<noteq> ''SELF''"
      and p: "p = Maven_emitted ext path n" by blast
    have nv: "Name p = KeyName (VersionKey n)" "Version p = KeyVersion (VersionKey n)"
      by (simp_all add: p Maven_emitted_def)
    from Maven_emitted_metadata [of ext path n] p obtain md where
      "Metadata p = Some md" "IsTransitive md = (Relation n = ''INDIRECT'')"
      "if CHR '':'' \<in> set (KeyName (VersionKey n))
         then KeyName (VersionKey n) = GroupID md @ '':'' @ ArtifactID md
              \<and> CHR '':'' \<notin> set (GroupID md)
         else GroupID md = KeyName (VersionKey n) \<and> ArtifactID md = []" by blast
    with n nv show "\<exists>n\<in>set (nodesReturned ext s pkgMap). \<exists>md.
           Relation n \<noteq> ''SELF''
           \<and> Name p = KeyName (VersionKey n) \<and> Version p = KeyVersion (VersionKey n)
           \<and> Metadata p = Some md \<and> IsTransitive md = (Relation n = ''INDIRECT'')
           \<and> (if CHR '':'' \<in> set (Name p)
               then Name p = GroupID md @ '':'' @ ArtifactID md
                    \<and> CHR '':'' \<notin> set (GroupID md)
               else GroupID md = Name p \<and> ArtifactID md = [])"
      by (intro bexI [of _ n] exI [of _ md]) (simp_all only: simp_thms)
  qed
qed

text \<open>
  The witness is the Maven scenario of the specification: the group
  \<^verbatim>\<open>org.apache:commons\<close> at \<^verbatim>\<open>1.0\<close>, whose graph has the node \<^verbatim>\<open>org.apache:commons-io\<close> at
  \<^verbatim>\<open>2.5\<close> with relation INDIRECT.
\<close>

theorem C7_maven_metadata_witness:
  "fst (Maven_resolveGroup ex_ext ex_maven ''pom.xml''
          (mkGroup ''pom.xml'' ''java/pomxml'' [(''org.apache:commons'', ''1.0'', 0)]))
     = Inr [\<lparr>Name = ''org.apache:commons-io'', Version = ''2.5'', PURLType = ''maven'',
             Locations = [''pom.xml''], Plugins = [''transitivedependency/maven/depsdev''],
             Metadata = Some \<lparr>ArtifactID = ''commons-io'', GroupID = ''org.apache'',
                               IsTransitive = True\<rparr>\<rparr>]
   \<and> (\<exists>n. n \<in> set (nodesReturned ex_ext ex_maven
           (mkGroup ''pom.xml'' ''java/pomxml'' [(''org.apache:commons'', ''1.0'', 0)]))
        \<and> Relation n \<noteq> ''SELF'' \<and> ''org.apache:commons-io'' = KeyName (VersionKey n)
        \<and> True = (Relation n = ''INDIRECT''))
   \<and> CHR '':'' \<in> set ''org.apache:commons-io''
   \<and> ''org.apache:commons-io'' = ''org.apache'' @ '':'' @ ''commons-io''
   \<and> CHR '':'' \<notin> set ''org.apache''
   \<and> (\<exists>p md. snd (Maven_resolveGroup_node ex_ext ''pom.xml''
                      (mkNode ''MAVEN'' ''org.apache:commons-io'' ''2.5'' ''INDIRECT'')
                      ((\<lambda>key. False), [])) = [] @ [p]
         \<and> Name p = ''org.apache:commons-io'' \<and> Metadata p = Some md
         \<and> IsTransitive md = True)"
proof -
  let ?node = "mkNode ''MAVEN'' ''org.apache:commons-io'' ''2.5'' ''INDIRECT''"
  have hn: "Relation ?node \<noteq> ''SELF''
      \<and> \<not> (\<lambda>key. False) (KeyName (VersionKey ?node) @ ''@'' @ KeyVersion (VersionKey ?node))"
    by (simp add: mkNode_def)
  have fn: "KeyName (VersionKey ?node) = ''org.apache:commons-io''"
    "(Relation ?node = ''INDIRECT'') = True"
    by (simp_all add: mkNode_def)
  from C7_maven_metadata [where node = ?node and seen = "\<lambda>key. False" and ext = ex_ext
      and path = "''pom.xml''" and result = "[]"] hn
  have "\<exists>p md. snd (Maven_resolveGroup_node ex_ext ''pom.xml'' ?node ((\<lambda>key. False), []))
           = [] @ [p]
         \<and> Name p = KeyName (VersionKey ?node) \<and> Metadata p = Some md
         \<and> IsTransitive md = (Relation ?node = ''INDIRECT'')"
    by blast
  then have nodeLevel: "\<exists>p md. snd (Maven_resolveGroup_node ex_ext ''pom.xml'' ?node
           ((\<lambda>key. False), [])) = [] @ [p]
         \<and> Name p = ''org.apache:commons-io'' \<and> Metadata p = Some md
         \<and> IsTransitive md = True"
    by (simp only: fn)
  let ?M = "mkGroup ''pom.xml'' ''java/pomxml'' [(''org.apache:commons'', ''1.0'', 0)]"
  let ?p = "\<lparr>Name = ''org.apache:commons-io'', Version = ''2.5'', PURLType = ''maven'',
             Locations = [''pom.xml''], Plugins = [''transitivedependency/maven/depsdev''],
             Metadata = Some \<lparr>ArtifactID = ''commons-io'', GroupID = ''org.apache'',
                               IsTransitive = True\<rparr>\<rparr>"
  from C7_maven_metadata [where ext = ex_ext and path = "''pom.xml''" and s = ex_maven
      and pkgMap = ?M and s' = "snd (Maven_resolveGroup ex_ext ex_maven ''pom.xml'' ?M)"
      and pkgs = "[?p]"]
    pair_of_fst [OF ex_maven_scenario_resolve]
  have "\<forall>p\<in>set [?p]. \<exists>n\<in>set (nodesReturned ex_ext ex_maven ?M). \<exists>md.
           Relation n \<noteq> ''SELF''
           \<and> Name p = KeyName (VersionKey n) \<and> Version p = KeyVersion (VersionKey n)
           \<and> Metadata p = Some md \<and> IsTransitive md = (Relation n = ''INDIRECT'')
           \<and> (if CHR '':'' \<in> set (Name p)
               then Name p = GroupID md @ '':'' @ ArtifactID md
                    \<and> CHR '':'' \<notin> set (GroupID md)
               else GroupID md = Name p \<and> ArtifactID md = [])"
    by blast
  then have "\<exists>n. n \<in> set (nodesReturned ex_ext ex_maven ?M)
        \<and> Relation n \<noteq> ''SELF'' \<and> ''org.apache:commons-io'' = KeyName (VersionKey n)
        \<and> True = (Relation n = ''INDIRECT'')"
    by auto
  with ex_maven_scenario_resolve nodeLevel show ?thesis by simp
qed

section \<open>Group maps and the inventory\<close>

lemma set_update_subset: "set (AList.update k v al) \<subseteq> insert (k, v) (set al)"
  by (induction al) auto

lemma keyed_iff:
  "keyed invt m \<longleftrightarrow>
     (\<forall>e\<in>set m. index (snd e) < length invt \<and> Name (invt ! index (snd e)) = fst e)"
  by (simp add: keyed_def list_all_iff)

lemma wellGrouped_iff: "wellGrouped invt gs \<longleftrightarrow> (\<forall>g\<in>set gs. keyed invt (snd g))"
  by (simp add: wellGrouped_def list_all_iff)

lemma wellGrouped_subset:
  "wellGrouped invt gs \<Longrightarrow> set gs' \<subseteq> set gs \<Longrightarrow> wellGrouped invt gs'"
  by (auto simp: wellGrouped_iff)

lemma keyed_update:
  assumes "keyed invt m" "i < length invt" "Name (invt ! i) = k"
  shows "keyed invt (AList.update k \<lparr>pkg = p, index = i\<rparr> m)"
  using assms set_update_subset [of k "\<lparr>pkg = p, index = i\<rparr>" m]
  by (fastforce simp: keyed_iff)

lemma groupInsert_wellGrouped:
  assumes "wellGrouped invt G" "i < length invt" "Name (invt ! i) = Name p"
  shows "wellGrouped invt (groupInsert path p i G)"
proof -
  let ?m = "case map_of G path of None \<Rightarrow> [] | Some pkgMap \<Rightarrow> pkgMap"
  have "keyed invt ?m"
  proof (cases "map_of G path")
    case None
    then show ?thesis by (simp add: keyed_iff)
  next
    case (Some m)
    then have "(path, m) \<in> set G" by (rule map_of_SomeD)
    with assms(1) Some show ?thesis by (auto simp: wellGrouped_iff)
  qed
  then have k: "keyed invt (AList.update (Name p) \<lparr>pkg = p, index = i\<rparr> ?m)"
    using assms(2,3) by (rule keyed_update)
  from set_update_subset [of path "AList.update (Name p) \<lparr>pkg = p, index = i\<rparr> ?m" G] k assms(1)
  show ?thesis
    unfolding groupInsert_def wellGrouped_iff by fastforce
qed

lemma PyPI_groupPackages_wellGrouped:
  "wellGrouped (pre @ ps) G \<Longrightarrow>
     wellGrouped (pre @ ps) (PyPI_groupPackages ext (length pre) ps G)"
proof (induction ps arbitrary: pre G)
  case Nil
  then show ?case by simp
next
  case (Cons p ps)
  let ?G = "if requirements_Name ext \<notin> set (Plugins p) then G
        else if length (Locations p) = 0 then G
        else groupInsert (hd (Locations p)) p (length pre) G"
  have "wellGrouped (pre @ p # ps) ?G"
    using Cons.prems by (auto intro: groupInsert_wellGrouped)
  then have "wellGrouped ((pre @ [p]) @ ps) ?G" by simp
  from Cons.IH [OF this] show ?case by simp
qed

lemma Maven_groupPackages_wellGrouped:
  "wellGrouped (pre @ ps) G \<Longrightarrow>
     wellGrouped (pre @ ps) (Maven_groupPackages (length pre) ps G)"
proof (induction ps arbitrary: pre G)
  case Nil
  then show ?case by simp
next
  case (Cons p ps)
  let ?G = "if \<not> isMaven (Plugins p) then G
        else if length (Locations p) = 0 then G
        else groupInsert (hd (Locations p)) p (length pre) G"
  have "wellGrouped (pre @ p # ps) ?G"
    using Cons.prems by (auto intro: groupInsert_wellGrouped)
  then have "wellGrouped ((pre @ [p]) @ ps) ?G" by simp
  from Cons.IH [OF this] show ?case by simp
qed

lemma PyPI_grouped: "wellGrouped invt (PyPI_groupPackages ext 0 invt [])"
  using PyPI_groupPackages_wellGrouped [of "[]" invt "[]" ext]
  by (simp add: wellGrouped_iff)

lemma Maven_grouped: "wellGrouped invt (Maven_groupPackages 0 invt [])"
  using Maven_groupPackages_wellGrouped [of "[]" invt "[]"]
  by (simp add: wellGrouped_iff)

section \<open>An inventory after additions\<close>

lemma sameEntry_iff:
  "sameEntry tag p q \<longleftrightarrow>
     Name q = Name p \<and> Locations q = Locations p \<and> PURLType q = PURLType p
     \<and> Metadata q = Metadata p
     \<and> (\<exists>ts. Plugins q = Plugins p @ ts \<and> set ts \<subseteq> {tag})"
proof
  assume a: "sameEntry tag p q"
  then have "Plugins q = Plugins p @ drop (length (Plugins p)) (Plugins q)"
    by (metis append_take_drop_id sameEntry_def)
  moreover from a have "set (drop (length (Plugins p)) (Plugins q)) \<subseteq> {tag}"
    by (auto simp: sameEntry_def list_all_iff)
  ultimately show "Name q = Name p \<and> Locations q = Locations p \<and> PURLType q = PURLType p
     \<and> Metadata q = Metadata p
     \<and> (\<exists>ts. Plugins q = Plugins p @ ts \<and> set ts \<subseteq> {tag})"
    using a by (auto simp: sameEntry_def)
next
  assume "Name q = Name p \<and> Locations q = Locations p \<and> PURLType q = PURLType p
     \<and> Metadata q = Metadata p
     \<and> (\<exists>ts. Plugins q = Plugins p @ ts \<and> set ts \<subseteq> {tag})"
  then show "sameEntry tag p q"
    by (auto simp: sameEntry_def list_all_iff)
qed

lemma sameEntry_refl: "sameEntry tag p p"
  by (simp add: sameEntry_iff)

lemma sameEntry_trans: "sameEntry tag p q \<Longrightarrow> sameEntry tag q r \<Longrightarrow> sameEntry tag p r"
  unfolding sameEntry_iff
  by (elim conjE exE, intro conjI, simp_all)

lemma in_set_drop_nth:
  "x \<in> set (drop n xs) \<longleftrightarrow> (\<exists>i. n \<le> i \<and> i < length xs \<and> xs ! i = x)"
proof
  assume "x \<in> set (drop n xs)"
  then obtain j where j: "j < length (drop n xs)" "drop n xs ! j = x"
    by (auto simp: in_set_conv_nth)
  then have "n \<le> n + j \<and> n + j < length xs \<and> xs ! (n + j) = x" by auto
  then show "\<exists>i. n \<le> i \<and> i < length xs \<and> xs ! i = x" by blast
next
  assume "\<exists>i. n \<le> i \<and> i < length xs \<and> xs ! i = x"
  then obtain i where i: "n \<le> i" "i < length xs" "xs ! i = x" by blast
  then have "i - n < length (drop n xs)" "drop n xs ! (i - n) = x" by auto
  then show "x \<in> set (drop n xs)" by (metis nth_mem)
qed

lemma enriched_nth:
  "enriched tag a b \<longleftrightarrow>
     length a \<le> length b
     \<and> (\<forall>i<length a. sameEntry tag (a ! i) (b ! i))
     \<and> (\<forall>i. length a \<le> i \<and> i < length b \<longrightarrow> Plugins (b ! i) = [tag])"
proof -
  have 1: "length a \<le> length b \<Longrightarrow>
      list_all2 (sameEntry tag) a (take (length a) b)
        \<longleftrightarrow> (\<forall>i<length a. sameEntry tag (a ! i) (b ! i))"
    by (simp add: list_all2_conv_all_nth)
  have 2: "list_all (\<lambda>p. Plugins p = [tag]) (drop (length a) b)
        \<longleftrightarrow> (\<forall>i. length a \<le> i \<and> i < length b \<longrightarrow> Plugins (b ! i) = [tag])"
    unfolding list_all_iff Ball_def in_set_drop_nth by blast
  show ?thesis
    unfolding enriched_def using 1 2 by blast
qed

lemma enriched_refl: "enriched tag a a"
  by (auto simp: enriched_nth sameEntry_refl)

section \<open>One addition\<close>

lemma keyed_lookup:
  "keyed inv0 m \<Longrightarrow> map_of m k = Some ip \<Longrightarrow>
     index ip < length inv0 \<and> Name (inv0 ! index ip) = k"
  by (auto simp: keyed_iff dest!: map_of_SomeD)

lemma enriched_append:
  assumes "enriched tag inv0 invt" "Plugins p = [tag]"
  shows "enriched tag inv0 (invt @ [p])"
  using assms unfolding enriched_nth
  by (auto simp: nth_append)

lemma enriched_update:
  assumes "enriched tag inv0 invt" "j < length inv0" "sameEntry tag (invt ! j) e"
  shows "enriched tag inv0 (invt[j := e])"
proof -
  from assms(1,2) have "sameEntry tag (inv0 ! j) (invt ! j)" by (simp add: enriched_nth)
  then have "sameEntry tag (inv0 ! j) e" using assms(3) by (rule sameEntry_trans)
  with assms(1,2) show ?thesis
    unfolding enriched_nth by (auto simp: nth_list_update)
qed

lemma PyPI_add_step:
  assumes e: "enriched PyPIDepsDevEnricherName inv0 invt" and k: "keyed inv0 m"
    and p: "Plugins p = [PyPIDepsDevEnricherName]"
  shows "\<exists>invt'. PyPI_add m p invt = Inr invt'
           \<and> enriched PyPIDepsDevEnricherName inv0 invt'
           \<and> (\<forall>i<length inv0. invt' ! i = invt ! i \<or> Name (inv0 ! i) = Name p)"
proof (cases "map_of m (Name p)")
  case None
  from e have "length inv0 \<le> length invt" by (simp add: enriched_nth)
  with None enriched_append [OF e p] show ?thesis
    by (auto simp: PyPI_add_def nth_append)
next
  case (Some ip)
  let ?j = "index ip"
  let ?e = "(invt ! ?j)\<lparr>Version := Version p,
              Plugins := Plugins (invt ! ?j) @ [PyPIDepsDevEnricherName]\<rparr>"
  from keyed_lookup [OF k Some] have j: "?j < length inv0" "Name (inv0 ! ?j) = Name p"
    by simp_all
  from e have le: "length inv0 \<le> length invt" by (simp add: enriched_nth)
  have "sameEntry PyPIDepsDevEnricherName (invt ! ?j) ?e" by (simp add: sameEntry_iff)
  with e j(1) have "enriched PyPIDepsDevEnricherName inv0 (invt[?j := ?e])"
    by (rule enriched_update)
  moreover from Some j le have "PyPI_add m p invt = Inr (invt[?j := ?e])"
    by (simp add: PyPI_add_def)
  moreover have "\<forall>i<length inv0. (invt[?j := ?e]) ! i = invt ! i
      \<or> Name (inv0 ! i) = Name p"
  proof (intro allI impI)
    fix i
    show "(invt[?j := ?e]) ! i = invt ! i \<or> Name (inv0 ! i) = Name p"
    proof (cases "i = ?j")
      case True
      with j(2) show ?thesis by simp
    next
      case False
      then have "(invt[?j := ?e]) ! i = invt ! i" by (simp only: nth_list_update_neq not_sym)
      then show ?thesis by (rule disjI1)
    qed
  qed
  ultimately show ?thesis by blast
qed

lemma Maven_add_step:
  assumes e: "enriched MavenDepsDevEnricherName inv0 invt" and k: "keyed inv0 m"
    and p: "Plugins p = [MavenDepsDevEnricherName]"
  shows "\<exists>invt'. Maven_add m p invt = Inr invt'
           \<and> enriched MavenDepsDevEnricherName inv0 invt'
           \<and> (\<forall>i<length inv0. invt' ! i = invt ! i \<or> Name (inv0 ! i) = Name p)"
proof (cases "map_of m (Name p)")
  case None
  from e have "length inv0 \<le> length invt" by (simp add: enriched_nth)
  with None enriched_append [OF e p] show ?thesis
    by (auto simp: Maven_add_def nth_append)
next
  case (Some ip)
  let ?j = "index ip"
  let ?e = "if MavenDepsDevEnricherName \<in> set (Plugins (invt ! ?j))
            then (invt ! ?j)\<lparr>Version := Version p\<rparr>
            else (invt ! ?j)\<lparr>Version := Version p,
                   Plugins := Plugins (invt ! ?j) @ [MavenDepsDevEnricherName]\<rparr>"
  from keyed_lookup [OF k Some] have j: "?j < length inv0" "Name (inv0 ! ?j) = Name p"
    by simp_all
  from e have le: "length inv0 \<le> length invt" by (simp add: enriched_nth)
  have "sameEntry MavenDepsDevEnricherName (invt ! ?j) ?e" by (simp add: sameEntry_iff)
  with e j(1) have "enriched MavenDepsDevEnricherName inv0 (invt[?j := ?e])"
    by (rule enriched_update)
  moreover from Some j le have "Maven_add m p invt = Inr (invt[?j := ?e])"
    by (simp add: Maven_add_def)
  moreover have "\<forall>i<length inv0. (invt[?j := ?e]) ! i = invt ! i
      \<or> Name (inv0 ! i) = Name p"
  proof (intro allI impI)
    fix i
    show "(invt[?j := ?e]) ! i = invt ! i \<or> Name (inv0 ! i) = Name p"
    proof (cases "i = ?j")
      case True
      with j(2) show ?thesis by simp
    next
      case False
      then have "(invt[?j := ?e]) ! i = invt ! i" by (simp only: nth_list_update_neq not_sym)
      then show ?thesis by (rule disjI1)
    qed
  qed
  ultimately show ?thesis by blast
qed

section \<open>All additions of a group\<close>

lemma PyPI_addAll_step:
  assumes "enriched PyPIDepsDevEnricherName inv0 invt" "keyed inv0 m"
    "\<forall>p\<in>set pkgs. Plugins p = [PyPIDepsDevEnricherName]"
  shows "\<exists>invt'. PyPI_addAll m pkgs invt = Inr invt'
           \<and> enriched PyPIDepsDevEnricherName inv0 invt'
           \<and> (\<forall>i<length inv0. invt' ! i = invt ! i \<or> Name (inv0 ! i) \<in> Name ` set pkgs)"
  using assms
proof (induction pkgs arbitrary: invt)
  case Nil
  then show ?case by simp
next
  case (Cons p pkgs)
  from Cons.prems(3) have p: "Plugins p = [PyPIDepsDevEnricherName]" by simp
  from PyPI_add_step [OF Cons.prems(1,2) p] obtain invt1 where
    1: "PyPI_add m p invt = Inr invt1" "enriched PyPIDepsDevEnricherName inv0 invt1"
       "\<forall>i<length inv0. invt1 ! i = invt ! i \<or> Name (inv0 ! i) = Name p" by blast
  from Cons.prems(3) have "\<forall>p\<in>set pkgs. Plugins p = [PyPIDepsDevEnricherName]" by simp
  from Cons.IH [OF 1(2) Cons.prems(2) this] obtain invt2 where
    2: "PyPI_addAll m pkgs invt1 = Inr invt2" "enriched PyPIDepsDevEnricherName inv0 invt2"
       "\<forall>i<length inv0. invt2 ! i = invt1 ! i \<or> Name (inv0 ! i) \<in> Name ` set pkgs" by blast
  from 1(1) 2(1) have "PyPI_addAll m (p # pkgs) invt = Inr invt2" by simp
  moreover from 1(3) 2(3) have
    "\<forall>i<length inv0. invt2 ! i = invt ! i \<or> Name (inv0 ! i) \<in> Name ` set (p # pkgs)"
    by (metis image_eqI insert_iff list.simps(15) image_insert)
  ultimately show ?case using 2(2) by blast
qed

lemma Maven_addAll_step:
  assumes "enriched MavenDepsDevEnricherName inv0 invt" "keyed inv0 m"
    "\<forall>p\<in>set pkgs. Plugins p = [MavenDepsDevEnricherName]"
  shows "\<exists>invt'. Maven_addAll m pkgs invt = Inr invt'
           \<and> enriched MavenDepsDevEnricherName inv0 invt'
           \<and> (\<forall>i<length inv0. invt' ! i = invt ! i \<or> Name (inv0 ! i) \<in> Name ` set pkgs)"
  using assms
proof (induction pkgs arbitrary: invt)
  case Nil
  then show ?case by simp
next
  case (Cons p pkgs)
  from Cons.prems(3) have p: "Plugins p = [MavenDepsDevEnricherName]" by simp
  from Maven_add_step [OF Cons.prems(1,2) p] obtain invt1 where
    1: "Maven_add m p invt = Inr invt1" "enriched MavenDepsDevEnricherName inv0 invt1"
       "\<forall>i<length inv0. invt1 ! i = invt ! i \<or> Name (inv0 ! i) = Name p" by blast
  from Cons.prems(3) have "\<forall>p\<in>set pkgs. Plugins p = [MavenDepsDevEnricherName]" by simp
  from Cons.IH [OF 1(2) Cons.prems(2) this] obtain invt2 where
    2: "Maven_addAll m pkgs invt1 = Inr invt2" "enriched MavenDepsDevEnricherName inv0 invt2"
       "\<forall>i<length inv0. invt2 ! i = invt1 ! i \<or> Name (inv0 ! i) \<in> Name ` set pkgs" by blast
  from 1(1) 2(1) have "Maven_addAll m (p # pkgs) invt = Inr invt2" by simp
  moreover from 1(3) 2(3) have
    "\<forall>i<length inv0. invt2 ! i = invt ! i \<or> Name (inv0 ! i) \<in> Name ` set (p # pkgs)"
    by (metis image_eqI insert_iff list.simps(15) image_insert)
  ultimately show ?case using 2(2) by blast
qed

section \<open>Lowered names\<close>

lemma lower_byte_not_upper: "\<not> isUpperByte (lower_byte c)"
proof -
  have "(of_char c :: nat) < 256" by (rule nat_of_char_less_256)
  then show ?thesis
    by (auto simp: isUpperByte_def lower_byte_def Let_def)
qed

lemma ToLower_not_upper:
  assumes "\<forall>str. \<not> hasUpper (UnicodeToLower ext str)"
  shows "\<not> hasUpper (ToLower ext str)"
  using assms by (simp add: ToLower_def hasUpper_def list_ex_iff lower_byte_not_upper)

section \<open>What a group resolves to, and what it logs\<close>

lemma PyPI_resolved_plugins:
  assumes "PyPI_resolveGroup ext s path m = (Inr pkgs, s')"
  shows "\<forall>p\<in>set pkgs. Plugins p = [PyPIDepsDevEnricherName]"
  using PyPI_resolveGroup_origin(1) [OF assms] by (auto simp: PyPI_emitted_def)

lemma Maven_resolved_plugins:
  assumes "Maven_resolveGroup ext s path m = (Inr pkgs, s')"
  shows "\<forall>p\<in>set pkgs. Plugins p = [MavenDepsDevEnricherName]"
  using Maven_resolveGroup_origin(1) [OF assms] by (auto simp: Maven_emitted_def)

lemma PyPI_resolved_lower:
  assumes "PyPI_resolveGroup ext s path m = (Inr pkgs, s')"
    and "\<forall>str. \<not> hasUpper (UnicodeToLower ext str)"
  shows "\<forall>p\<in>set pkgs. \<not> hasUpper (Name p)"
  using PyPI_resolveGroup_origin(1) [OF assms(1)] ToLower_not_upper [OF assms(2)]
  by (auto simp: PyPI_emitted_def)

lemma PyPI_entry_warnings:
  "\<exists>new. warnings (fst (PyPI_resolveGroup_entry ext path e (s, sr))) = warnings s @ new"
  by (auto simp: PyPI_resolveGroup_entry_def split: prod.splits sum.splits)

lemma Maven_entry_warnings:
  "\<exists>new. warnings (fst (Maven_resolveGroup_entry ext path e (s, sr))) = warnings s @ new"
  by (auto simp: Maven_resolveGroup_entry_def split: prod.splits sum.splits)

lemma PyPI_entries_warnings:
  "\<exists>new. warnings (fst (PyPI_resolveGroup_entries ext path es (s, sr))) = warnings s @ new"
proof (induction es arbitrary: s sr)
  case Nil
  then show ?case by simp
next
  case (Cons e es)
  obtain s1 sr1 where 1: "PyPI_resolveGroup_entry ext path e (s, sr) = (s1, sr1)"
    by (cases "PyPI_resolveGroup_entry ext path e (s, sr)")
  with PyPI_entry_warnings [of ext path e s sr] obtain n1 where
    "warnings s1 = warnings s @ n1" by auto
  moreover from Cons.IH [of s1 sr1] obtain n2 where
    "warnings (fst (PyPI_resolveGroup_entries ext path es (s1, sr1))) = warnings s1 @ n2"
    by blast
  ultimately show ?case using 1 by simp
qed

lemma Maven_entries_warnings:
  "\<exists>new. warnings (fst (Maven_resolveGroup_entries ext path es (s, sr))) = warnings s @ new"
proof (induction es arbitrary: s sr)
  case Nil
  then show ?case by simp
next
  case (Cons e es)
  obtain s1 sr1 where 1: "Maven_resolveGroup_entry ext path e (s, sr) = (s1, sr1)"
    by (cases "Maven_resolveGroup_entry ext path e (s, sr)")
  with Maven_entry_warnings [of ext path e s sr] obtain n1 where
    "warnings s1 = warnings s @ n1" by auto
  moreover from Cons.IH [of s1 sr1] obtain n2 where
    "warnings (fst (Maven_resolveGroup_entries ext path es (s1, sr1))) = warnings s1 @ n2"
    by blast
  ultimately show ?case using 1 by simp
qed

lemma PyPI_resolveGroup_warnings:
  "PyPI_resolveGroup ext s path m = (r, s') \<Longrightarrow> \<exists>new. warnings s' = warnings s @ new"
  using PyPI_entries_warnings [of ext path "map snd (rangeEntries ext m)" s "((\<lambda>key. False), [])"]
  by (auto simp: PyPI_resolveGroup_def split: prod.splits if_splits)

lemma Maven_resolveGroup_warnings:
  "Maven_resolveGroup ext s path m = (r, s') \<Longrightarrow> \<exists>new. warnings s' = warnings s @ new"
  using Maven_entries_warnings [of ext path "map snd (rangeEntries ext m)" s "((\<lambda>key. False), [])"]
  by (auto simp: Maven_resolveGroup_def split: prod.splits if_splits)

section \<open>The loop over the groups\<close>

lemma PyPI_Enrich_groups_ok:
  assumes "enriched PyPIDepsDevEnricherName inv0 invt" "wellGrouped inv0 gs"
  shows "\<exists>invt' s'. PyPI_Enrich_groups ext gs invt s = Inr (invt', s')
           \<and> enriched PyPIDepsDevEnricherName inv0 invt'
           \<and> (\<exists>new. warnings s' = warnings s @ new)
           \<and> ((\<forall>str. \<not> hasUpper (UnicodeToLower ext str)) \<longrightarrow>
                (\<forall>i<length inv0. hasUpper (Name (inv0 ! i)) \<longrightarrow> invt' ! i = invt ! i))"
  using assms
proof (induction gs arbitrary: invt s)
  case Nil
  then show ?case by simp
next
  case (Cons g gs)
  from Cons.prems(2) have k: "keyed inv0 (snd g)" and w: "wellGrouped inv0 gs"
    by (simp_all add: wellGrouped_iff)
  obtain r s1 where res: "PyPI_resolveGroup ext s (fst g) (snd g) = (r, s1)"
    by (cases "PyPI_resolveGroup ext s (fst g) (snd g)")
  from PyPI_resolveGroup_warnings [OF res] obtain n1 where n1: "warnings s1 = warnings s @ n1"
    by blast
  show ?case
  proof (cases r)
    case (Inl err)
    let ?s = "s1\<lparr>warnings := warnings s1 @
                  [Warnf ''deps.dev resolution failed for %s: %v'' [fst g] err]\<rparr>"
    from Cons.IH [OF Cons.prems(1) w, of ?s] obtain invt' s' where
      ih: "PyPI_Enrich_groups ext gs invt ?s = Inr (invt', s')"
        "enriched PyPIDepsDevEnricherName inv0 invt'"
        "\<exists>new. warnings s' = warnings ?s @ new"
        "(\<forall>str. \<not> hasUpper (UnicodeToLower ext str)) \<longrightarrow>
                (\<forall>i<length inv0. hasUpper (Name (inv0 ! i)) \<longrightarrow> invt' ! i = invt ! i)"
      by blast
    from res Inl ih(1) have "PyPI_Enrich_groups ext (g # gs) invt s = Inr (invt', s')"
      by simp
    moreover from ih(3) n1 have "\<exists>new. warnings s' = warnings s @ new" by auto
    ultimately show ?thesis using ih(2,4) by blast
  next
    case (Inr pkgs)
    with res have res': "PyPI_resolveGroup ext s (fst g) (snd g) = (Inr pkgs, s1)" by simp
    from PyPI_addAll_step [OF Cons.prems(1) k PyPI_resolved_plugins [OF res']]
    obtain invt1 where a:
      "PyPI_addAll (snd g) pkgs invt = Inr invt1"
      "enriched PyPIDepsDevEnricherName inv0 invt1"
      "\<forall>i<length inv0. invt1 ! i = invt ! i \<or> Name (inv0 ! i) \<in> Name ` set pkgs"
      by blast
    from Cons.IH [OF a(2) w, of s1] obtain invt' s' where
      ih: "PyPI_Enrich_groups ext gs invt1 s1 = Inr (invt', s')"
        "enriched PyPIDepsDevEnricherName inv0 invt'"
        "\<exists>new. warnings s' = warnings s1 @ new"
        "(\<forall>str. \<not> hasUpper (UnicodeToLower ext str)) \<longrightarrow>
                (\<forall>i<length inv0. hasUpper (Name (inv0 ! i)) \<longrightarrow> invt' ! i = invt1 ! i)"
      by blast
    from res' a(1) ih(1) have "PyPI_Enrich_groups ext (g # gs) invt s = Inr (invt', s')"
      by simp
    moreover from ih(3) n1 have "\<exists>new. warnings s' = warnings s @ new" by auto
    moreover have "(\<forall>str. \<not> hasUpper (UnicodeToLower ext str)) \<longrightarrow>
                (\<forall>i<length inv0. hasUpper (Name (inv0 ! i)) \<longrightarrow> invt' ! i = invt ! i)"
    proof (intro impI allI)
      fix i
      assume low: "\<forall>str. \<not> hasUpper (UnicodeToLower ext str)"
        and i: "i < length inv0" and up: "hasUpper (Name (inv0 ! i))"
      from PyPI_resolved_lower [OF res' low] up have "Name (inv0 ! i) \<notin> Name ` set pkgs"
        by auto
      with a(3) i have "invt1 ! i = invt ! i" by blast
      with ih(4) low i up show "invt' ! i = invt ! i" by simp
    qed
    ultimately show ?thesis using ih(2) by blast
  qed
qed

lemma Maven_Enrich_groups_ok:
  assumes "enriched MavenDepsDevEnricherName inv0 invt" "wellGrouped inv0 gs"
  shows "\<exists>invt' s'. Maven_Enrich_groups ext gs invt s = Inr (invt', s')
           \<and> enriched MavenDepsDevEnricherName inv0 invt'
           \<and> (\<exists>new. warnings s' = warnings s @ new)"
  using assms
proof (induction gs arbitrary: invt s)
  case Nil
  then show ?case by simp
next
  case (Cons g gs)
  from Cons.prems(2) have k: "keyed inv0 (snd g)" and w: "wellGrouped inv0 gs"
    by (simp_all add: wellGrouped_iff)
  obtain r s1 where res: "Maven_resolveGroup ext s (fst g) (snd g) = (r, s1)"
    by (cases "Maven_resolveGroup ext s (fst g) (snd g)")
  from Maven_resolveGroup_warnings [OF res] obtain n1 where n1: "warnings s1 = warnings s @ n1"
    by blast
  show ?case
  proof (cases r)
    case (Inl err)
    let ?s = "s1\<lparr>warnings := warnings s1 @
                  [Warnf ''deps.dev Maven resolution failed for %s: %v'' [fst g] err]\<rparr>"
    from Cons.IH [OF Cons.prems(1) w, of ?s] obtain invt' s' where
      ih: "Maven_Enrich_groups ext gs invt ?s = Inr (invt', s')"
        "enriched MavenDepsDevEnricherName inv0 invt'"
        "\<exists>new. warnings s' = warnings ?s @ new"
      by blast
    from res Inl ih(1) have "Maven_Enrich_groups ext (g # gs) invt s = Inr (invt', s')"
      by simp
    moreover from ih(3) n1 have "\<exists>new. warnings s' = warnings s @ new" by auto
    ultimately show ?thesis using ih(2) by blast
  next
    case (Inr pkgs)
    with res have res': "Maven_resolveGroup ext s (fst g) (snd g) = (Inr pkgs, s1)" by simp
    from Maven_addAll_step [OF Cons.prems(1) k Maven_resolved_plugins [OF res']]
    obtain invt1 where a:
      "Maven_addAll (snd g) pkgs invt = Inr invt1"
      "enriched MavenDepsDevEnricherName inv0 invt1"
      by blast
    from Cons.IH [OF a(2) w, of s1] obtain invt' s' where
      ih: "Maven_Enrich_groups ext gs invt1 s1 = Inr (invt', s')"
        "enriched MavenDepsDevEnricherName inv0 invt'"
        "\<exists>new. warnings s' = warnings s1 @ new"
      by blast
    from res' a(1) ih(1) have "Maven_Enrich_groups ext (g # gs) invt s = Inr (invt', s')"
      by simp
    moreover from ih(3) n1 have "\<exists>new. warnings s' = warnings s @ new" by auto
    ultimately show ?thesis using ih(2) by blast
  qed
qed

section \<open>The whole pass\<close>

lemma PyPI_Enrich_ok:
  assumes "set (rangeGroups ext (PyPI_groupPackages ext 0 invt []))
             \<subseteq> set (PyPI_groupPackages ext 0 invt [])"
  shows "\<exists>invt' s'. PyPI_Enrich ext s invt = Inr (None, invt', s')
           \<and> enriched PyPIDepsDevEnricherName invt invt'
           \<and> (\<exists>new. warnings s' = warnings s @ new)
           \<and> ((\<forall>str. \<not> hasUpper (UnicodeToLower ext str)) \<longrightarrow>
                (\<forall>i<length invt. hasUpper (Name (invt ! i)) \<longrightarrow> invt' ! i = invt ! i))"
proof -
  from PyPI_grouped assms
  have "wellGrouped invt (rangeGroups ext (PyPI_groupPackages ext 0 invt []))"
    by (rule wellGrouped_subset)
  from PyPI_Enrich_groups_ok [OF enriched_refl this, of ext s]
  show ?thesis by (auto simp: PyPI_Enrich_def)
qed

lemma Maven_Enrich_ok:
  assumes "set (rangeGroups ext (Maven_groupPackages 0 invt []))
             \<subseteq> set (Maven_groupPackages 0 invt [])"
  shows "\<exists>invt' s'. Maven_Enrich ext s invt = Inr (None, invt', s')
           \<and> enriched MavenDepsDevEnricherName invt invt'
           \<and> (\<exists>new. warnings s' = warnings s @ new)"
proof -
  from Maven_grouped assms
  have "wellGrouped invt (rangeGroups ext (Maven_groupPackages 0 invt []))"
    by (rule wellGrouped_subset)
  from Maven_Enrich_groups_ok [OF enriched_refl this, of ext s]
  show ?thesis by (auto simp: Maven_Enrich_def)
qed

section \<open>The groups of an inventory after a run\<close>

lemma map_update_values:
  "map (\<lambda>e. (fst e, f (snd e))) (AList.update k v al)
     = AList.update k (f v) (map (\<lambda>e. (fst e, f (snd e))) al)"
  by (induction al) auto

lemma map_of_map_values:
  "map_of (map (\<lambda>e. (fst e, f (snd e))) al) k = map_option f (map_of al k)"
  by (induction al) auto

lemma groupIndex_groupInsert:
  "groupIndex (groupInsert path p i G) =
     AList.update path
       (AList.update (Name p) i
          (case map_of (groupIndex G) path of None \<Rightarrow> [] | Some m \<Rightarrow> m))
       (groupIndex G)"
proof -
  have "map_of (groupIndex G) path
          = map_option (map (\<lambda>e. (fst e, index (snd e)))) (map_of G path)"
    unfolding groupIndex_def by (rule map_of_map_values)
  then show ?thesis
    unfolding groupIndex_def groupInsert_def
    by (cases "map_of G path") (simp_all add: map_update_values)
qed

lemma groupIndex_groupInsert_cong:
  "groupIndex G = groupIndex H \<Longrightarrow> Name p = Name q \<Longrightarrow>
     groupIndex (groupInsert path p i G) = groupIndex (groupInsert path q i H)"
  by (simp add: groupIndex_groupInsert)

lemma PyPI_groupPackages_cong:
  assumes "list_all2 (\<lambda>p q. Name q = Name p \<and> Locations q = Locations p
             \<and> (requirements_Name ext \<in> set (Plugins q))
                 = (requirements_Name ext \<in> set (Plugins p))) ps qs"
    and "groupIndex G = groupIndex H"
  shows "groupIndex (PyPI_groupPackages ext i ps G) = groupIndex (PyPI_groupPackages ext i qs H)"
  using assms
proof (induction ps arbitrary: qs i G H)
  case Nil
  then show ?case by simp
next
  case (Cons p ps)
  from Cons.prems(1) obtain q qs' where q: "qs = q # qs'"
    "Name q = Name p" "Locations q = Locations p"
    "(requirements_Name ext \<in> set (Plugins q)) = (requirements_Name ext \<in> set (Plugins p))"
    and rest: "list_all2 (\<lambda>p q. Name q = Name p \<and> Locations q = Locations p
             \<and> (requirements_Name ext \<in> set (Plugins q))
                 = (requirements_Name ext \<in> set (Plugins p))) ps qs'"
    by (auto simp: list_all2_Cons1)
  let ?G = "if requirements_Name ext \<notin> set (Plugins p) then G
        else if length (Locations p) = 0 then G
        else groupInsert (hd (Locations p)) p i G"
  let ?H = "if requirements_Name ext \<notin> set (Plugins q) then H
        else if length (Locations q) = 0 then H
        else groupInsert (hd (Locations q)) q i H"
  from Cons.prems(2) q(2-4) have "groupIndex ?G = groupIndex ?H"
    by (auto intro: groupIndex_groupInsert_cong)
  from Cons.IH [OF rest this, of "Suc i"] q(1) show ?case by simp
qed

lemma Maven_groupPackages_cong:
  assumes "list_all2 (\<lambda>p q. Name q = Name p \<and> Locations q = Locations p
             \<and> isMaven (Plugins q) = isMaven (Plugins p)) ps qs"
    and "groupIndex G = groupIndex H"
  shows "groupIndex (Maven_groupPackages i ps G) = groupIndex (Maven_groupPackages i qs H)"
  using assms
proof (induction ps arbitrary: qs i G H)
  case Nil
  then show ?case by simp
next
  case (Cons p ps)
  from Cons.prems(1) obtain q qs' where q: "qs = q # qs'"
    "Name q = Name p" "Locations q = Locations p"
    "isMaven (Plugins q) = isMaven (Plugins p)"
    and rest: "list_all2 (\<lambda>p q. Name q = Name p \<and> Locations q = Locations p
             \<and> isMaven (Plugins q) = isMaven (Plugins p)) ps qs'"
    by (auto simp: list_all2_Cons1)
  let ?G = "if \<not> isMaven (Plugins p) then G
        else if length (Locations p) = 0 then G
        else groupInsert (hd (Locations p)) p i G"
  let ?H = "if \<not> isMaven (Plugins q) then H
        else if length (Locations q) = 0 then H
        else groupInsert (hd (Locations q)) q i H"
  from Cons.prems(2) q(2-4) have "groupIndex ?G = groupIndex ?H"
    by (auto intro: groupIndex_groupInsert_cong)
  from Cons.IH [OF rest this, of "Suc i"] q(1) show ?case by simp
qed

lemma PyPI_groupPackages_append:
  "PyPI_groupPackages ext i (xs @ ys) G
     = PyPI_groupPackages ext (i + length xs) ys (PyPI_groupPackages ext i xs G)"
  by (induction xs arbitrary: i G) simp_all

lemma Maven_groupPackages_append:
  "Maven_groupPackages i (xs @ ys) G
     = Maven_groupPackages (i + length xs) ys (Maven_groupPackages i xs G)"
  by (induction xs arbitrary: i G) simp_all

lemma PyPI_groupPackages_skip:
  "\<forall>p\<in>set ps. requirements_Name ext \<notin> set (Plugins p) \<Longrightarrow>
     PyPI_groupPackages ext i ps G = G"
  by (induction ps arbitrary: i) simp_all

lemma Maven_groupPackages_skip:
  "\<forall>p\<in>set ps. \<not> isMaven (Plugins p) \<Longrightarrow> Maven_groupPackages i ps G = G"
  by (induction ps arbitrary: i) simp_all

lemma isMaven_iff: "isMaven ps \<longleftrightarrow> (\<exists>x\<in>set ps. isMavenPlugin x)"
  by (induction ps) auto

lemma tag_not_maven_plugin: "\<not> isMavenPlugin MavenDepsDevEnricherName"
  by (simp add: isMavenPlugin_def MavenDepsDevEnricherName_def pomxmlExtractorName_def
        pomxmlEnhanceableName_def pomxmlNetName_def)

lemma PyPI_groups_after:
  assumes e: "enriched PyPIDepsDevEnricherName invt invt'"
    and r: "requirements_Name ext \<noteq> PyPIDepsDevEnricherName"
  shows "groupIndex (PyPI_groupPackages ext 0 invt' [])
           = groupIndex (PyPI_groupPackages ext 0 invt [])"
proof -
  let ?upd = "take (length invt) invt'" and ?app = "drop (length invt) invt'"
  from e have l: "list_all2 (sameEntry PyPIDepsDevEnricherName) invt ?upd"
    and a: "\<forall>p\<in>set ?app. Plugins p = [PyPIDepsDevEnricherName]"
    by (simp_all add: enriched_def list_all_iff)
  from a r have skip: "\<forall>p\<in>set ?app. requirements_Name ext \<notin> set (Plugins p)" by simp
  have "PyPI_groupPackages ext 0 invt' [] = PyPI_groupPackages ext 0 (?upd @ ?app) []"
    by simp
  also have "\<dots> = PyPI_groupPackages ext 0 ?upd []"
    by (simp only: PyPI_groupPackages_append PyPI_groupPackages_skip [OF skip])
  finally have 1: "PyPI_groupPackages ext 0 invt' [] = PyPI_groupPackages ext 0 ?upd []" .
  from l have "list_all2 (\<lambda>p q. Name q = Name p \<and> Locations q = Locations p
             \<and> (requirements_Name ext \<in> set (Plugins q))
                 = (requirements_Name ext \<in> set (Plugins p))) invt ?upd"
  proof (rule list_all2_mono)
    fix p q assume "sameEntry PyPIDepsDevEnricherName p q"
    with r show "Name q = Name p \<and> Locations q = Locations p
             \<and> (requirements_Name ext \<in> set (Plugins q))
                 = (requirements_Name ext \<in> set (Plugins p))"
      by (auto simp: sameEntry_iff)
  qed
  from PyPI_groupPackages_cong [OF this refl, of 0 "[]"] 1 show ?thesis by simp
qed

lemma Maven_groups_after:
  assumes e: "enriched MavenDepsDevEnricherName invt invt'"
  shows "groupIndex (Maven_groupPackages 0 invt' [])
           = groupIndex (Maven_groupPackages 0 invt [])"
proof -
  let ?upd = "take (length invt) invt'" and ?app = "drop (length invt) invt'"
  from e have l: "list_all2 (sameEntry MavenDepsDevEnricherName) invt ?upd"
    and a: "\<forall>p\<in>set ?app. Plugins p = [MavenDepsDevEnricherName]"
    by (simp_all add: enriched_def list_all_iff)
  from a have skip: "\<forall>p\<in>set ?app. \<not> isMaven (Plugins p)"
    by (simp add: tag_not_maven_plugin)
  have "Maven_groupPackages 0 invt' [] = Maven_groupPackages 0 (?upd @ ?app) []"
    by simp
  also have "\<dots> = Maven_groupPackages 0 ?upd []"
    by (simp only: Maven_groupPackages_append Maven_groupPackages_skip [OF skip])
  finally have 1: "Maven_groupPackages 0 invt' [] = Maven_groupPackages 0 ?upd []" .
  from l have "list_all2 (\<lambda>p q. Name q = Name p \<and> Locations q = Locations p
             \<and> isMaven (Plugins q) = isMaven (Plugins p)) invt ?upd"
  proof (rule list_all2_mono)
    fix p q assume "sameEntry MavenDepsDevEnricherName p q"
    then show "Name q = Name p \<and> Locations q = Locations p
             \<and> isMaven (Plugins q) = isMaven (Plugins p)"
      using tag_not_maven_plugin by (auto simp: sameEntry_iff isMaven_iff)
  qed
  from Maven_groupPackages_cong [OF this refl, of 0 "[]"] 1 show ?thesis by simp
qed

section \<open>C8: the pass returns\<close>

text \<open>
  C8. When \<^verbatim>\<open>range\<close> over the groups yields entries of the map of groups,
  \<^verbatim>\<open>Enrich\<close> ends without a panic and returns the nil error, whatever the inventory, the
  network and the session; the warnings it leaves are those it found, followed by new
  ones. When \<^verbatim>\<open>resolveGroup\<close> fails for a group, the loop over the groups logs one warning
  with the path and the error, and goes on with the next group on the same inventory.
\<close>

theorem C8_enrich_returns_nil:
  "(set (rangeGroups ext (PyPI_groupPackages ext 0 invt []))
      \<subseteq> set (PyPI_groupPackages ext 0 invt []) \<longrightarrow>
      (\<exists>invt' s' new. PyPI_Enrich ext s invt = Inr (None, invt', s')
         \<and> warnings s' = warnings s @ new))
   \<and> (set (rangeGroups ext (Maven_groupPackages 0 invt []))
      \<subseteq> set (Maven_groupPackages 0 invt []) \<longrightarrow>
      (\<exists>invt' s' new. Maven_Enrich ext s invt = Inr (None, invt', s')
         \<and> warnings s' = warnings s @ new))
   \<and> (PyPI_resolveGroup ext s (fst g) (snd g) = (Inl err, s1) \<longrightarrow>
        PyPI_Enrich_groups ext (g # gs) invt s =
          PyPI_Enrich_groups ext gs invt
            (s1\<lparr>warnings := warnings s1 @
                  [Warnf ''deps.dev resolution failed for %s: %v'' [fst g] err]\<rparr>))
   \<and> (Maven_resolveGroup ext s (fst g) (snd g) = (Inl err, s1) \<longrightarrow>
        Maven_Enrich_groups ext (g # gs) invt s =
          Maven_Enrich_groups ext gs invt
            (s1\<lparr>warnings := warnings s1 @
                  [Warnf ''deps.dev Maven resolution failed for %s: %v'' [fst g] err]\<rparr>))"
proof (intro conjI impI)
  assume "set (rangeGroups ext (PyPI_groupPackages ext 0 invt []))
      \<subseteq> set (PyPI_groupPackages ext 0 invt [])"
  from PyPI_Enrich_ok [OF this, of s]
  show "\<exists>invt' s' new. PyPI_Enrich ext s invt = Inr (None, invt', s')
         \<and> warnings s' = warnings s @ new"
    by blast
next
  assume "set (rangeGroups ext (Maven_groupPackages 0 invt []))
      \<subseteq> set (Maven_groupPackages 0 invt [])"
  from Maven_Enrich_ok [OF this, of s]
  show "\<exists>invt' s' new. Maven_Enrich ext s invt = Inr (None, invt', s')
         \<and> warnings s' = warnings s @ new"
    by blast
next
  assume "PyPI_resolveGroup ext s (fst g) (snd g) = (Inl err, s1)"
  then show "PyPI_Enrich_groups ext (g # gs) invt s =
          PyPI_Enrich_groups ext gs invt
            (s1\<lparr>warnings := warnings s1 @
                  [Warnf ''deps.dev resolution failed for %s: %v'' [fst g] err]\<rparr>)"
    by simp
next
  assume "Maven_resolveGroup ext s (fst g) (snd g) = (Inl err, s1)"
  then show "Maven_Enrich_groups ext (g # gs) invt s =
          Maven_Enrich_groups ext gs invt
            (s1\<lparr>warnings := warnings s1 @
                  [Warnf ''deps.dev Maven resolution failed for %s: %v'' [fst g] err]\<rparr>)"
    by simp
qed

lemma ex_two_manifests_run:
  "packagesOf (PyPI_Enrich ex_ext ex_pypi ex_two_manifests)
     = ex_two_manifests @
       [PyPI_emitted ex_ext ''b.txt'' (mkNode ''PYPI'' ''urllib3'' ''2.0.0'' ''DIRECT''),
        PyPI_emitted ex_ext ''b.txt'' (mkNode ''PYPI'' ''certifi'' ''2023.7.22'' ''INDIRECT'')]"
  "warningsOf (PyPI_Enrich ex_ext ex_pypi ex_two_manifests)
     = [Warnf ''deps.dev resolution failed for %s: %v'' [''a.txt''] NoDependenciesResolved]"
  by code_simp+

lemma ex_two_poms_run:
  "packagesOf (Maven_Enrich ex_ext ex_maven ex_two_poms)
     = ex_two_poms @
       [Maven_emitted ex_ext ''b/pom.xml''
          (mkNode ''MAVEN'' ''org.apache:commons-io'' ''2.5'' ''INDIRECT'')]"
  "warningsOf (Maven_Enrich ex_ext ex_maven ex_two_poms)
     = [Warnf ''deps.dev Maven resolution failed for %s: %v'' [''a/pom.xml'']
          NoMavenDependenciesResolved]"
  by code_simp+

lemma ex_range: "rangeGroups ex_ext gs = gs" "rangeEntries ex_ext m = m"
  by (simp_all add: ex_ext_def)

lemma ex_unpinned_group:
  "PyPI_resolveGroup ex_ext ex_pypi ''a.txt''
     (mkGroup ''a.txt'' ''python/requirements'' [(''requests'', [], 0)])
   = (Inl NoDependenciesResolved, ex_pypi)"
  "Maven_resolveGroup ex_ext ex_maven ''a/pom.xml''
     (mkGroup ''a/pom.xml'' ''java/pomxml'' [(''org.apache:commons'', [], 0)])
   = (Inl NoMavenDependenciesResolved, ex_maven)"
  by (simp_all add: PyPI_resolveGroup_def Maven_resolveGroup_def PyPI_resolveGroup_entry_def
        Maven_resolveGroup_entry_def mkGroup_def ex_ext_def)

text \<open>
  The witness: an inventory of two requirements files (two \<^verbatim>\<open>pom.xml\<close> files); the group
  of the first fails, one warning is logged, and the group of the second is added.
\<close>

theorem C8_enrich_returns_nil_witness:
  "rangeGroups ex_ext (PyPI_groupPackages ex_ext 0 ex_two_manifests [])
     = PyPI_groupPackages ex_ext 0 ex_two_manifests []
   \<and> (\<exists>invt' s' new. PyPI_Enrich ex_ext ex_pypi ex_two_manifests = Inr (None, invt', s')
         \<and> warnings s' = warnings ex_pypi @ new)
   \<and> packagesOf (PyPI_Enrich ex_ext ex_pypi ex_two_manifests)
     = ex_two_manifests @
       [PyPI_emitted ex_ext ''b.txt'' (mkNode ''PYPI'' ''urllib3'' ''2.0.0'' ''DIRECT''),
        PyPI_emitted ex_ext ''b.txt'' (mkNode ''PYPI'' ''certifi'' ''2023.7.22'' ''INDIRECT'')]
   \<and> warningsOf (PyPI_Enrich ex_ext ex_pypi ex_two_manifests)
     = [Warnf ''deps.dev resolution failed for %s: %v'' [''a.txt''] NoDependenciesResolved]
   \<and> (\<exists>invt' s' new. Maven_Enrich ex_ext ex_maven ex_two_poms = Inr (None, invt', s')
         \<and> warnings s' = warnings ex_maven @ new)
   \<and> warningsOf (Maven_Enrich ex_ext ex_maven ex_two_poms)
     = [Warnf ''deps.dev Maven resolution failed for %s: %v'' [''a/pom.xml'']
          NoMavenDependenciesResolved]
   \<and> PyPI_Enrich_groups ex_ext
        [(''a.txt'', mkGroup ''a.txt'' ''python/requirements'' [(''requests'', [], 0)])]
        ex_two_manifests ex_pypi
      = PyPI_Enrich_groups ex_ext [] ex_two_manifests
          (ex_pypi\<lparr>warnings := warnings ex_pypi @
             [Warnf ''deps.dev resolution failed for %s: %v''
                [fst (''a.txt'', mkGroup ''a.txt'' ''python/requirements''
                        [(''requests'', [], 0)])]
                NoDependenciesResolved]\<rparr>)
   \<and> Maven_Enrich_groups ex_ext
        [(''a/pom.xml'', mkGroup ''a/pom.xml'' ''java/pomxml'' [(''org.apache:commons'', [], 0)])]
        ex_two_poms ex_maven
      = Maven_Enrich_groups ex_ext [] ex_two_poms
          (ex_maven\<lparr>warnings := warnings ex_maven @
             [Warnf ''deps.dev Maven resolution failed for %s: %v''
                [fst (''a/pom.xml'', mkGroup ''a/pom.xml'' ''java/pomxml''
                        [(''org.apache:commons'', [], 0)])]
                NoMavenDependenciesResolved]\<rparr>)"
proof -
  let ?g = "(''a.txt'', mkGroup ''a.txt'' ''python/requirements'' [(''requests'', [], 0)])"
  let ?h = "(''a/pom.xml'', mkGroup ''a/pom.xml'' ''java/pomxml''
              [(''org.apache:commons'', [], 0)])"
  have h1: "set (rangeGroups ex_ext (PyPI_groupPackages ex_ext 0 ex_two_manifests []))
      \<subseteq> set (PyPI_groupPackages ex_ext 0 ex_two_manifests [])"
    by (simp only: ex_range subset_refl)
  have h2: "set (rangeGroups ex_ext (Maven_groupPackages 0 ex_two_poms []))
      \<subseteq> set (Maven_groupPackages 0 ex_two_poms [])"
    by (simp only: ex_range subset_refl)
  have h3: "PyPI_resolveGroup ex_ext ex_pypi (fst ?g) (snd ?g)
              = (Inl NoDependenciesResolved, ex_pypi)"
    by (simp only: fst_conv snd_conv ex_unpinned_group)
  have h4: "Maven_resolveGroup ex_ext ex_maven (fst ?h) (snd ?h)
              = (Inl NoMavenDependenciesResolved, ex_maven)"
    by (simp only: fst_conv snd_conv ex_unpinned_group)
  from C8_enrich_returns_nil [where ext = ex_ext and invt = ex_two_manifests and s = ex_pypi] h1
  have a: "\<exists>invt' s' new. PyPI_Enrich ex_ext ex_pypi ex_two_manifests = Inr (None, invt', s')
         \<and> warnings s' = warnings ex_pypi @ new"
    by blast
  from C8_enrich_returns_nil [where ext = ex_ext and invt = ex_two_poms and s = ex_maven] h2
  have b: "\<exists>invt' s' new. Maven_Enrich ex_ext ex_maven ex_two_poms = Inr (None, invt', s')
         \<and> warnings s' = warnings ex_maven @ new"
    by blast
  from C8_enrich_returns_nil [where ext = ex_ext and s = ex_pypi and g = ?g
      and err = NoDependenciesResolved and ?s1.0 = ex_pypi and gs = "[]"
      and invt = ex_two_manifests] h3
  have c: "PyPI_Enrich_groups ex_ext [?g] ex_two_manifests ex_pypi
      = PyPI_Enrich_groups ex_ext [] ex_two_manifests
          (ex_pypi\<lparr>warnings := warnings ex_pypi @
             [Warnf ''deps.dev resolution failed for %s: %v'' [fst ?g]
                NoDependenciesResolved]\<rparr>)"
    by blast
  from C8_enrich_returns_nil [where ext = ex_ext and s = ex_maven and g = ?h
      and err = NoMavenDependenciesResolved and ?s1.0 = ex_maven and gs = "[]"
      and invt = ex_two_poms] h4
  have d: "Maven_Enrich_groups ex_ext [?h] ex_two_poms ex_maven
      = Maven_Enrich_groups ex_ext [] ex_two_poms
          (ex_maven\<lparr>warnings := warnings ex_maven @
             [Warnf ''deps.dev Maven resolution failed for %s: %v'' [fst ?h]
                NoMavenDependenciesResolved]\<rparr>)"
    by blast
  from a b c d ex_two_manifests_run ex_two_poms_run ex_range(1)
  show ?thesis by blast
qed

section \<open>C1: a second run\<close>

text \<open>
  C1, as amended. When \<^verbatim>\<open>range\<close> over the groups yields entries of the map of groups (and,
  for PyPI, the name of the requirements extractor is not the tag of the enricher), a run
  of \<^verbatim>\<open>Enrich\<close> and a second run after it both return; each leaves the entries it found
  at their indices, the same but for the version and for copies of the tag at the end of
  the plugin list, followed by new entries whose only plugin is the tag; and the
  inventory after the first run is grouped into the same paths, names and indices as the
  inventory before it, so that the second run resolves the same groups again.
\<close>

theorem C1_second_run:
  "((\<forall>gs. set (rangeGroups ext gs) \<subseteq> set gs)
      \<and> requirements_Name ext \<noteq> PyPIDepsDevEnricherName \<longrightarrow>
      (\<exists>inv1 s1 inv2 s2.
         PyPI_Enrich ext s invt = Inr (None, inv1, s1)
         \<and> PyPI_Enrich_twice ext s invt = Inr (None, inv2, s2)
         \<and> enriched PyPIDepsDevEnricherName invt inv1
         \<and> enriched PyPIDepsDevEnricherName inv1 inv2
         \<and> groupIndex (PyPI_groupPackages ext 0 inv1 [])
             = groupIndex (PyPI_groupPackages ext 0 invt [])))
   \<and> ((\<forall>gs. set (rangeGroups ext gs) \<subseteq> set gs) \<longrightarrow>
      (\<exists>inv1 s1 inv2 s2.
         Maven_Enrich ext ms invt = Inr (None, inv1, s1)
         \<and> Maven_Enrich_twice ext ms invt = Inr (None, inv2, s2)
         \<and> enriched MavenDepsDevEnricherName invt inv1
         \<and> enriched MavenDepsDevEnricherName inv1 inv2
         \<and> groupIndex (Maven_groupPackages 0 inv1 [])
             = groupIndex (Maven_groupPackages 0 invt [])))"
proof (intro conjI impI)
  assume a: "(\<forall>gs. set (rangeGroups ext gs) \<subseteq> set gs)
      \<and> requirements_Name ext \<noteq> PyPIDepsDevEnricherName"
  then have r: "\<And>i. set (rangeGroups ext (PyPI_groupPackages ext 0 i []))
      \<subseteq> set (PyPI_groupPackages ext 0 i [])" by blast
  from PyPI_Enrich_ok [OF r, of s invt] obtain inv1 s1 where
    1: "PyPI_Enrich ext s invt = Inr (None, inv1, s1)"
       "enriched PyPIDepsDevEnricherName invt inv1" by blast
  from PyPI_Enrich_ok [OF r, of s1 inv1] obtain inv2 s2 where
    2: "PyPI_Enrich ext s1 inv1 = Inr (None, inv2, s2)"
       "enriched PyPIDepsDevEnricherName inv1 inv2" by blast
  from 1(1) 2(1) have t: "PyPI_Enrich_twice ext s invt = Inr (None, inv2, s2)"
    by (simp add: PyPI_Enrich_twice_def)
  from a have "requirements_Name ext \<noteq> PyPIDepsDevEnricherName" by simp
  from PyPI_groups_after [OF 1(2) this] 1 2(2) t
  show "\<exists>inv1 s1 inv2 s2.
         PyPI_Enrich ext s invt = Inr (None, inv1, s1)
         \<and> PyPI_Enrich_twice ext s invt = Inr (None, inv2, s2)
         \<and> enriched PyPIDepsDevEnricherName invt inv1
         \<and> enriched PyPIDepsDevEnricherName inv1 inv2
         \<and> groupIndex (PyPI_groupPackages ext 0 inv1 [])
             = groupIndex (PyPI_groupPackages ext 0 invt [])"
    by blast
next
  assume a: "\<forall>gs. set (rangeGroups ext gs) \<subseteq> set gs"
  then have r: "\<And>i. set (rangeGroups ext (Maven_groupPackages 0 i []))
      \<subseteq> set (Maven_groupPackages 0 i [])" by blast
  from Maven_Enrich_ok [OF r, of ms invt] obtain inv1 s1 where
    1: "Maven_Enrich ext ms invt = Inr (None, inv1, s1)"
       "enriched MavenDepsDevEnricherName invt inv1" by blast
  from Maven_Enrich_ok [OF r, of s1 inv1] obtain inv2 s2 where
    2: "Maven_Enrich ext s1 inv1 = Inr (None, inv2, s2)"
       "enriched MavenDepsDevEnricherName inv1 inv2" by blast
  from 1(1) 2(1) have t: "Maven_Enrich_twice ext ms invt = Inr (None, inv2, s2)"
    by (simp add: Maven_Enrich_twice_def)
  from Maven_groups_after [OF 1(2)] 1 2(2) t
  show "\<exists>inv1 s1 inv2 s2.
         Maven_Enrich ext ms invt = Inr (None, inv1, s1)
         \<and> Maven_Enrich_twice ext ms invt = Inr (None, inv2, s2)
         \<and> enriched MavenDepsDevEnricherName invt inv1
         \<and> enriched MavenDepsDevEnricherName inv1 inv2
         \<and> groupIndex (Maven_groupPackages 0 inv1 [])
             = groupIndex (Maven_groupPackages 0 invt [])"
    by blast
qed

lemma ex_requests_runs:
  "packagesOf (PyPI_Enrich ex_ext ex_pypi ex_requests)
     = ex_requests @
       [PyPI_emitted ex_ext ''r.txt'' (mkNode ''PYPI'' ''urllib3'' ''2.0.0'' ''DIRECT''),
        PyPI_emitted ex_ext ''r.txt'' (mkNode ''PYPI'' ''certifi'' ''2023.7.22'' ''INDIRECT'')]"
  "packagesOf (PyPI_Enrich_twice ex_ext ex_pypi ex_requests)
     = ex_requests @
       [PyPI_emitted ex_ext ''r.txt'' (mkNode ''PYPI'' ''urllib3'' ''2.0.0'' ''DIRECT''),
        PyPI_emitted ex_ext ''r.txt'' (mkNode ''PYPI'' ''certifi'' ''2023.7.22'' ''INDIRECT''),
        PyPI_emitted ex_ext ''r.txt'' (mkNode ''PYPI'' ''urllib3'' ''2.0.0'' ''DIRECT''),
        PyPI_emitted ex_ext ''r.txt'' (mkNode ''PYPI'' ''certifi'' ''2023.7.22'' ''INDIRECT'')]"
  by code_simp+

lemma ex_commons_runs:
  "packagesOf (Maven_Enrich ex_ext ex_maven ex_commons)
     = ex_commons @
       [Maven_emitted ex_ext ''pom.xml''
          (mkNode ''MAVEN'' ''org.apache:commons-io'' ''2.5'' ''INDIRECT'')]"
  "packagesOf (Maven_Enrich_twice ex_ext ex_maven ex_commons)
     = ex_commons @
       [Maven_emitted ex_ext ''pom.xml''
          (mkNode ''MAVEN'' ''org.apache:commons-io'' ''2.5'' ''INDIRECT''),
        Maven_emitted ex_ext ''pom.xml''
          (mkNode ''MAVEN'' ''org.apache:commons-io'' ''2.5'' ''INDIRECT'')]"
  by code_simp+

text \<open>
  The claim as the specification states it fails on an inventory of one pinned package:
  the second run appends the transitive packages a second time, for PyPI and for Maven.
\<close>

theorem C1_second_run_counterexample:
  "packagesOf (PyPI_Enrich_twice ex_ext ex_pypi ex_requests)
     \<noteq> packagesOf (PyPI_Enrich ex_ext ex_pypi ex_requests)
   \<and> count_list (packagesOf (PyPI_Enrich ex_ext ex_pypi ex_requests))
        (PyPI_emitted ex_ext ''r.txt'' (mkNode ''PYPI'' ''urllib3'' ''2.0.0'' ''DIRECT'')) = 1
   \<and> count_list (packagesOf (PyPI_Enrich_twice ex_ext ex_pypi ex_requests))
        (PyPI_emitted ex_ext ''r.txt'' (mkNode ''PYPI'' ''urllib3'' ''2.0.0'' ''DIRECT'')) = 2
   \<and> packagesOf (Maven_Enrich_twice ex_ext ex_maven ex_commons)
     \<noteq> packagesOf (Maven_Enrich ex_ext ex_maven ex_commons)
   \<and> count_list (packagesOf (Maven_Enrich ex_ext ex_maven ex_commons))
        (Maven_emitted ex_ext ''pom.xml''
           (mkNode ''MAVEN'' ''org.apache:commons-io'' ''2.5'' ''INDIRECT'')) = 1
   \<and> count_list (packagesOf (Maven_Enrich_twice ex_ext ex_maven ex_commons))
        (Maven_emitted ex_ext ''pom.xml''
           (mkNode ''MAVEN'' ''org.apache:commons-io'' ''2.5'' ''INDIRECT'')) = 2"
  by code_simp

lemma ex_hyps:
  "\<forall>gs. set (rangeGroups ex_ext gs) \<subseteq> set gs"
  "requirements_Name ex_ext \<noteq> PyPIDepsDevEnricherName"
  "\<forall>str. \<not> hasUpper (UnicodeToLower ex_ext str)"
  by (simp_all add: ex_ext_def PyPIDepsDevEnricherName_def hasUpper_def list_ex_iff
        lower_byte_not_upper)

theorem C1_second_run_witness:
  "rangeGroups ex_ext (PyPI_groupPackages ex_ext 0 ex_requests [])
     = PyPI_groupPackages ex_ext 0 ex_requests []
   \<and> requirements_Name ex_ext \<noteq> PyPIDepsDevEnricherName
   \<and> (\<exists>inv1 s1 inv2 s2.
         PyPI_Enrich ex_ext ex_pypi ex_requests = Inr (None, inv1, s1)
         \<and> PyPI_Enrich_twice ex_ext ex_pypi ex_requests = Inr (None, inv2, s2)
         \<and> enriched PyPIDepsDevEnricherName ex_requests inv1
         \<and> enriched PyPIDepsDevEnricherName inv1 inv2
         \<and> groupIndex (PyPI_groupPackages ex_ext 0 inv1 [])
             = groupIndex (PyPI_groupPackages ex_ext 0 ex_requests []))
   \<and> (\<exists>inv1 s1 inv2 s2.
         Maven_Enrich ex_ext ex_maven ex_commons = Inr (None, inv1, s1)
         \<and> Maven_Enrich_twice ex_ext ex_maven ex_commons = Inr (None, inv2, s2)
         \<and> enriched MavenDepsDevEnricherName ex_commons inv1
         \<and> enriched MavenDepsDevEnricherName inv1 inv2
         \<and> groupIndex (Maven_groupPackages 0 inv1 [])
             = groupIndex (Maven_groupPackages 0 ex_commons []))
   \<and> length (packagesOf (PyPI_Enrich ex_ext ex_pypi ex_requests)) = 3
   \<and> length (packagesOf (PyPI_Enrich_twice ex_ext ex_pypi ex_requests)) = 5"
proof -
  from C1_second_run [where ext = ex_ext and s = ex_pypi and invt = ex_requests] ex_hyps(1,2)
  have a: "\<exists>inv1 s1 inv2 s2.
         PyPI_Enrich ex_ext ex_pypi ex_requests = Inr (None, inv1, s1)
         \<and> PyPI_Enrich_twice ex_ext ex_pypi ex_requests = Inr (None, inv2, s2)
         \<and> enriched PyPIDepsDevEnricherName ex_requests inv1
         \<and> enriched PyPIDepsDevEnricherName inv1 inv2
         \<and> groupIndex (PyPI_groupPackages ex_ext 0 inv1 [])
             = groupIndex (PyPI_groupPackages ex_ext 0 ex_requests [])"
    by blast
  from C1_second_run [where ext = ex_ext and ms = ex_maven and invt = ex_commons] ex_hyps(1)
  have b: "\<exists>inv1 s1 inv2 s2.
         Maven_Enrich ex_ext ex_maven ex_commons = Inr (None, inv1, s1)
         \<and> Maven_Enrich_twice ex_ext ex_maven ex_commons = Inr (None, inv2, s2)
         \<and> enriched MavenDepsDevEnricherName ex_commons inv1
         \<and> enriched MavenDepsDevEnricherName inv1 inv2
         \<and> groupIndex (Maven_groupPackages 0 inv1 [])
             = groupIndex (Maven_groupPackages 0 ex_commons [])"
    by blast
  have c: "length (packagesOf (PyPI_Enrich ex_ext ex_pypi ex_requests)) = 3"
    "length (packagesOf (PyPI_Enrich_twice ex_ext ex_pypi ex_requests)) = 5"
    by code_simp+
  from a b c ex_hyps(2) ex_range(1) show ?thesis by blast
qed

section \<open>C3: an addition that meets a manifest entry\<close>

text \<open>
  What does hold for both enrichers: an addition whose name is a key of the group writes
  the version into the entry at the stored index and leaves the length of the inventory
  as it was. The Maven addition adds the tag only when the entry does not have it.
\<close>

lemma PyPI_add_matched:
  assumes "map_of m (Name p) = Some ip" "index ip < length invt"
  shows "\<exists>e. PyPI_add m p invt = Inr (invt[index ip := e]) \<and> Version e = Version p
           \<and> Name e = Name (invt ! index ip)
           \<and> Plugins e = Plugins (invt ! index ip) @ [PyPIDepsDevEnricherName]
           \<and> length (invt[index ip := e]) = length invt"
proof -
  let ?e = "(invt ! index ip)\<lparr>Version := Version p,
              Plugins := Plugins (invt ! index ip) @ [PyPIDepsDevEnricherName]\<rparr>"
  from assms have "PyPI_add m p invt = Inr (invt[index ip := ?e])"
    by (simp add: PyPI_add_def)
  then show ?thesis by (intro exI [of _ ?e]) simp
qed

lemma Maven_add_matched:
  assumes "map_of m (Name p) = Some ip" "index ip < length invt"
  shows "\<exists>e. Maven_add m p invt = Inr (invt[index ip := e]) \<and> Version e = Version p
           \<and> Name e = Name (invt ! index ip)
           \<and> Plugins e =
               (if MavenDepsDevEnricherName \<in> set (Plugins (invt ! index ip))
                then Plugins (invt ! index ip)
                else Plugins (invt ! index ip) @ [MavenDepsDevEnricherName])
           \<and> length (invt[index ip := e]) = length invt"
proof -
  let ?e = "if MavenDepsDevEnricherName \<in> set (Plugins (invt ! index ip))
            then (invt ! index ip)\<lparr>Version := Version p\<rparr>
            else (invt ! index ip)\<lparr>Version := Version p,
                   Plugins := Plugins (invt ! index ip) @ [MavenDepsDevEnricherName]\<rparr>"
  from assms have "Maven_add m p invt = Inr (invt[index ip := ?e])"
    by (simp add: Maven_add_def)
  then show ?thesis by (intro exI [of _ ?e]) simp
qed

lemma Maven_add_tag_once:
  assumes "map_of m (Name p) = Some ip" "index ip < length invt"
    "count_list (Plugins (invt ! index ip)) MavenDepsDevEnricherName \<le> 1"
    "Maven_add m p invt = Inr invt'"
  shows "count_list (Plugins (invt' ! index ip)) MavenDepsDevEnricherName = 1"
proof (cases "MavenDepsDevEnricherName \<in> set (Plugins (invt ! index ip))")
  case True
  then have "count_list (Plugins (invt ! index ip)) MavenDepsDevEnricherName \<noteq> 0"
    by (simp add: count_list_0_iff)
  with assms True show ?thesis by (auto simp: Maven_add_def)
next
  case False
  then have "count_list (Plugins (invt ! index ip)) MavenDepsDevEnricherName = 0"
    by (simp add: count_list_0_iff)
  with assms False show ?thesis by (auto simp: Maven_add_def)
qed

text \<open>
  C3 fails for PyPI. The manifest declares \<^verbatim>\<open>requests\<close> and \<^verbatim>\<open>urllib3\<close>; the graph of
  \<^verbatim>\<open>requests\<close> has \<^verbatim>\<open>urllib3@2.0.0\<close>. After two runs of the PyPI \<^verbatim>\<open>Enrich\<close> the entry of
  \<^verbatim>\<open>urllib3\<close> carries the tag twice; so it does after the addition alone is made twice.
  The Maven \<^verbatim>\<open>Enrich\<close>, on the like manifest, leaves the tag once.
\<close>

theorem C3_pypi_tag_added_twice:
  "packagesOf (PyPI_Enrich_twice ex_ext ex_pypi ex_with_urllib3) ! 1
     = \<lparr>Name = ''urllib3'', Version = ''2.0.0'', PURLType = [], Locations = [''r.txt''],
        Plugins = [''python/requirements'', PyPIDepsDevEnricherName, PyPIDepsDevEnricherName],
        Metadata = None\<rparr>
   \<and> count_list (Plugins (packagesOf (PyPI_Enrich_twice ex_ext ex_pypi ex_with_urllib3) ! 1))
        PyPIDepsDevEnricherName = 2
   \<and> (case PyPI_addAll (mkGroup ''r.txt'' ''python/requirements'' [(''urllib3'', ''1.26.0'', 0)])
              [PyPI_emitted ex_ext ''r.txt'' (mkNode ''PYPI'' ''urllib3'' ''2.0.0'' ''DIRECT'')]
              [mkPackage ''urllib3'' ''1.26.0'' ''r.txt'' ''python/requirements''] of
         Inl e \<Rightarrow> Inl e
       | Inr invt1 \<Rightarrow>
           PyPI_addAll (mkGroup ''r.txt'' ''python/requirements'' [(''urllib3'', ''1.26.0'', 0)])
              [PyPI_emitted ex_ext ''r.txt'' (mkNode ''PYPI'' ''urllib3'' ''2.0.0'' ''DIRECT'')]
              invt1)
      = Inr [\<lparr>Name = ''urllib3'', Version = ''2.0.0'', PURLType = [], Locations = [''r.txt''],
              Plugins = [''python/requirements'', PyPIDepsDevEnricherName,
                         PyPIDepsDevEnricherName],
              Metadata = None\<rparr>]
   \<and> packagesOf (Maven_Enrich_twice ex_ext ex_maven ex_with_commons_io) ! 1
     = \<lparr>Name = ''org.apache:commons-io'', Version = ''2.5'', PURLType = [],
        Locations = [''pom.xml''], Plugins = [''java/pomxml'', MavenDepsDevEnricherName],
        Metadata = None\<rparr>"
  by code_simp

section \<open>C10: names with capital letters\<close>

lemma PyPI_add_drop:
  assumes "\<forall>e\<in>set m. index (snd e) < n" "n \<le> length invt" "PyPI_add m p invt = Inr invt'"
  shows "drop n invt' = drop n invt @ (if map_of m (Name p) = None then [p] else [])
         \<and> n \<le> length invt'"
proof (cases "map_of m (Name p)")
  case None
  with assms show ?thesis by (auto simp: PyPI_add_def)
next
  case (Some ip)
  then have "(Name p, ip) \<in> set m" by (rule map_of_SomeD)
  with assms(1) have "index ip < n" by auto
  with Some assms(2,3) show ?thesis
    by (auto simp: PyPI_add_def split: if_splits)
qed

lemma PyPI_addAll_drop:
  assumes "\<forall>e\<in>set m. index (snd e) < n" "n \<le> length invt"
    "PyPI_addAll m pkgs invt = Inr invt'"
  shows "drop n invt' = drop n invt @ filter (\<lambda>p. map_of m (Name p) = None) pkgs"
  using assms(2,3)
proof (induction pkgs arbitrary: invt)
  case Nil
  then show ?case by simp
next
  case (Cons p pkgs)
  from Cons.prems(2) obtain invt1 where
    1: "PyPI_add m p invt = Inr invt1" and 2: "PyPI_addAll m pkgs invt1 = Inr invt'"
    by (auto split: sum.splits)
  from PyPI_add_drop [OF assms(1) Cons.prems(1) 1]
  have d: "drop n invt1 = drop n invt @ (if map_of m (Name p) = None then [p] else [])"
    and l: "n \<le> length invt1" by simp_all
  from Cons.IH [OF l 2] d show ?case by simp
qed

text \<open>
  C10, as amended. PyPI. When \<^verbatim>\<open>range\<close> over the groups yields entries of the map of
  groups and the Unicode part of \<^verbatim>\<open>strings.ToLower\<close> returns no byte \<^verbatim>\<open>A\<close> to \<^verbatim>\<open>Z\<close>, a run
  of \<^verbatim>\<open>Enrich\<close> leaves every entry whose name has such a byte exactly as it was. The
  entries that the additions of a group append are the resolved packages whose name is
  not a key of the group, in their order: a resolved package with the lowered form of a
  manifest name is appended unless that lowered form is a key of the group too, and then
  the entry stored under that key takes its version.
\<close>

theorem C10_uppercase_entry_untouched:
  "(set (rangeGroups ext (PyPI_groupPackages ext 0 invt []))
        \<subseteq> set (PyPI_groupPackages ext 0 invt [])
      \<and> (\<forall>str. \<not> hasUpper (UnicodeToLower ext str))
      \<and> i < length invt \<and> hasUpper (Name (invt ! i)) \<longrightarrow>
      (\<exists>invt' s'. PyPI_Enrich ext s invt = Inr (None, invt', s') \<and> invt' ! i = invt ! i))
   \<and> ((\<forall>e\<in>set m. index (snd e) < length inv1) \<and> PyPI_addAll m pkgs inv1 = Inr inv2 \<longrightarrow>
        drop (length inv1) inv2 = filter (\<lambda>p. map_of m (Name p) = None) pkgs)
   \<and> (map_of m (Name p) = Some ip \<and> index ip < length inv1 \<longrightarrow>
        (\<exists>e. PyPI_add m p inv1 = Inr (inv1[index ip := e]) \<and> Version e = Version p
           \<and> Name e = Name (inv1 ! index ip)))"
proof (intro conjI impI)
  assume a: "set (rangeGroups ext (PyPI_groupPackages ext 0 invt []))
        \<subseteq> set (PyPI_groupPackages ext 0 invt [])
      \<and> (\<forall>str. \<not> hasUpper (UnicodeToLower ext str))
      \<and> i < length invt \<and> hasUpper (Name (invt ! i))"
  then have r: "set (rangeGroups ext (PyPI_groupPackages ext 0 invt []))
        \<subseteq> set (PyPI_groupPackages ext 0 invt [])" by simp
  from PyPI_Enrich_ok [OF r, of s] a
  show "\<exists>invt' s'. PyPI_Enrich ext s invt = Inr (None, invt', s') \<and> invt' ! i = invt ! i"
    by blast
next
  assume a: "(\<forall>e\<in>set m. index (snd e) < length inv1) \<and> PyPI_addAll m pkgs inv1 = Inr inv2"
  then have 1: "\<forall>e\<in>set m. index (snd e) < length inv1"
    and 2: "PyPI_addAll m pkgs inv1 = Inr inv2" by simp_all
  from PyPI_addAll_drop [OF 1 le_refl 2]
  show "drop (length inv1) inv2 = filter (\<lambda>p. map_of m (Name p) = None) pkgs" by simp
next
  assume "map_of m (Name p) = Some ip \<and> index ip < length inv1"
  then have "map_of m (Name p) = Some ip" "index ip < length inv1" by simp_all
  from PyPI_add_matched [OF this]
  show "\<exists>e. PyPI_add m p inv1 = Inr (inv1[index ip := e]) \<and> Version e = Version p
           \<and> Name e = Name (inv1 ! index ip)"
    by blast
qed

lemma ex_flask_run:
  "packagesOf (PyPI_Enrich ex_ext ex_pypi ex_flask)
     = [mkPackage ''Flask'' ''2.0'' ''r.txt'' ''python/requirements'',
        \<lparr>Name = ''flask'', Version = ''3.0.0'', PURLType = [], Locations = [''r.txt''],
         Plugins = [''python/requirements'', PyPIDepsDevEnricherName], Metadata = None\<rparr>,
        mkPackage ''flask-login'' ''0.6.3'' ''r.txt'' ''python/requirements'']"
  "fst (PyPI_resolveGroup ex_ext ex_pypi ''r.txt''
          (mkGroup ''r.txt'' ''python/requirements''
             [(''Flask'', ''2.0'', 0), (''flask'', ''2.0'', 1), (''flask-login'', ''0.6.3'', 2)]))
     = Inr [PyPI_emitted ex_ext ''r.txt'' (mkNode ''PYPI'' ''Flask'' ''3.0.0'' ''DIRECT'')]"
  "PyPI_groupPackages ex_ext 0 ex_flask []
     = [(''r.txt'', mkGroup ''r.txt'' ''python/requirements''
             [(''Flask'', ''2.0'', 0), (''flask'', ''2.0'', 1), (''flask-login'', ''0.6.3'', 2)])]"
  "Name (PyPI_emitted ex_ext ''r.txt'' (mkNode ''PYPI'' ''Flask'' ''3.0.0'' ''DIRECT''))
     = map lower_byte ''Flask''"
  "hasUpper ''Flask''"
  by code_simp+

text \<open>
  The second half of the claim as stated fails on a requirements file that names
  \<^verbatim>\<open>Flask\<close> and \<^verbatim>\<open>flask\<close>: the group resolves to the package \<^verbatim>\<open>flask@3.0.0\<close>, the lowered
  form of the name \<^verbatim>\<open>Flask\<close>; it is not appended, the inventory keeps its three entries,
  and the entry \<^verbatim>\<open>flask\<close> takes the version.
\<close>

theorem C10_uppercase_entry_untouched_counterexample:
  "hasUpper (Name (ex_flask ! 0))
   \<and> fst (PyPI_resolveGroup ex_ext ex_pypi ''r.txt''
          (mkGroup ''r.txt'' ''python/requirements''
             [(''Flask'', ''2.0'', 0), (''flask'', ''2.0'', 1), (''flask-login'', ''0.6.3'', 2)]))
     = Inr [PyPI_emitted ex_ext ''r.txt'' (mkNode ''PYPI'' ''Flask'' ''3.0.0'' ''DIRECT'')]
   \<and> Name (PyPI_emitted ex_ext ''r.txt'' (mkNode ''PYPI'' ''Flask'' ''3.0.0'' ''DIRECT''))
     = map lower_byte (Name (ex_flask ! 0))
   \<and> PyPI_emitted ex_ext ''r.txt'' (mkNode ''PYPI'' ''Flask'' ''3.0.0'' ''DIRECT'')
       \<notin> set (packagesOf (PyPI_Enrich ex_ext ex_pypi ex_flask))
   \<and> length (packagesOf (PyPI_Enrich ex_ext ex_pypi ex_flask)) = length ex_flask
   \<and> Version (packagesOf (PyPI_Enrich ex_ext ex_pypi ex_flask) ! 1) = ''3.0.0''"
  by code_simp

theorem C10_uppercase_entry_untouched_witness:
  "rangeGroups ex_ext (PyPI_groupPackages ex_ext 0 ex_flask [])
     = PyPI_groupPackages ex_ext 0 ex_flask []
   \<and> (0::nat) < length ex_flask \<and> hasUpper (Name (ex_flask ! 0))
   \<and> (\<exists>invt' s'. PyPI_Enrich ex_ext ex_pypi ex_flask = Inr (None, invt', s')
         \<and> invt' ! 0 = ex_flask ! 0)
   \<and> packagesOf (PyPI_Enrich ex_ext ex_pypi ex_flask) ! 0 = ex_flask ! 0
   \<and> drop (length ex_requests)
        (ex_requests @
          [PyPI_emitted ex_ext ''r.txt'' (mkNode ''PYPI'' ''urllib3'' ''2.0.0'' ''DIRECT''),
           PyPI_emitted ex_ext ''r.txt''
             (mkNode ''PYPI'' ''certifi'' ''2023.7.22'' ''INDIRECT'')])
      = filter (\<lambda>p. map_of (mkGroup ''r.txt'' ''python/requirements''
                              [(''requests'', ''2.31.0'', 0)]) (Name p) = None)
          [PyPI_emitted ex_ext ''r.txt'' (mkNode ''PYPI'' ''urllib3'' ''2.0.0'' ''DIRECT''),
           PyPI_emitted ex_ext ''r.txt''
             (mkNode ''PYPI'' ''certifi'' ''2023.7.22'' ''INDIRECT'')]
   \<and> (\<exists>e. PyPI_add (mkGroup ''r.txt'' ''python/requirements''
                       [(''Flask'', ''2.0'', 0), (''flask'', ''2.0'', 1),
                        (''flask-login'', ''0.6.3'', 2)])
              (PyPI_emitted ex_ext ''r.txt'' (mkNode ''PYPI'' ''Flask'' ''3.0.0'' ''DIRECT''))
              ex_flask
            = Inr (ex_flask[1 := e])
          \<and> Version e = ''3.0.0'' \<and> Name e = Name (ex_flask ! 1))"
proof -
  let ?G = "mkGroup ''r.txt'' ''python/requirements'' [(''requests'', ''2.31.0'', 0)]"
  let ?F = "mkGroup ''r.txt'' ''python/requirements''
              [(''Flask'', ''2.0'', 0), (''flask'', ''2.0'', 1), (''flask-login'', ''0.6.3'', 2)]"
  let ?p = "PyPI_emitted ex_ext ''r.txt'' (mkNode ''PYPI'' ''Flask'' ''3.0.0'' ''DIRECT'')"
  let ?pkgs = "[PyPI_emitted ex_ext ''r.txt'' (mkNode ''PYPI'' ''urllib3'' ''2.0.0'' ''DIRECT''),
           PyPI_emitted ex_ext ''r.txt''
             (mkNode ''PYPI'' ''certifi'' ''2023.7.22'' ''INDIRECT'')]"
  have h1: "set (rangeGroups ex_ext (PyPI_groupPackages ex_ext 0 ex_flask []))
        \<subseteq> set (PyPI_groupPackages ex_ext 0 ex_flask [])"
    by (simp only: ex_range subset_refl)
  have h2: "(0::nat) < length ex_flask" "hasUpper (Name (ex_flask ! 0))"
    by code_simp+
  from C10_uppercase_entry_untouched [where ext = ex_ext and invt = ex_flask and i = 0
      and s = ex_pypi] h1 h2 ex_hyps(3)
  have a: "\<exists>invt' s'. PyPI_Enrich ex_ext ex_pypi ex_flask = Inr (None, invt', s')
         \<and> invt' ! 0 = ex_flask ! 0"
    by blast
  then have a': "packagesOf (PyPI_Enrich ex_ext ex_pypi ex_flask) ! 0 = ex_flask ! 0"
    by (auto simp: packagesOf_def)
  have h3: "\<forall>e\<in>set ?G. index (snd e) < length ex_requests"
    by (simp add: mkGroup_def ex_requests_def)
  have h4: "PyPI_addAll ?G ?pkgs ex_requests = Inr (ex_requests @ ?pkgs)"
    by code_simp
  from C10_uppercase_entry_untouched [where m = ?G and ?inv1.0 = ex_requests and pkgs = ?pkgs
      and ?inv2.0 = "ex_requests @ ?pkgs"] h3 h4
  have b: "drop (length ex_requests) (ex_requests @ ?pkgs)
      = filter (\<lambda>p. map_of ?G (Name p) = None) ?pkgs"
    by blast
  have h5: "map_of ?F (Name ?p) = Some \<lparr>pkg = mkPackage ''flask'' ''2.0'' ''r.txt''
       ''python/requirements'', index = 1\<rparr>"
    by code_simp
  have h6: "index \<lparr>pkg = mkPackage ''flask'' ''2.0'' ''r.txt'' ''python/requirements'',
       index = 1\<rparr> < length ex_flask"
    by code_simp
  have h7: "Version ?p = ''3.0.0''" by code_simp
  from C10_uppercase_entry_untouched [where m = ?F and p = ?p and ?inv1.0 = ex_flask
      and ip = "\<lparr>pkg = mkPackage ''flask'' ''2.0'' ''r.txt'' ''python/requirements'',
                  index = 1\<rparr>"] h5 h6
  have "\<exists>e. PyPI_add ?F ?p ex_flask
            = Inr (ex_flask[index \<lparr>pkg = mkPackage ''flask'' ''2.0'' ''r.txt''
                       ''python/requirements'', index = 1\<rparr> := e])
          \<and> Version e = Version ?p
          \<and> Name e = Name (ex_flask ! index \<lparr>pkg = mkPackage ''flask'' ''2.0'' ''r.txt''
                       ''python/requirements'', index = 1\<rparr>)"
    by blast
  then have c: "\<exists>e. PyPI_add ?F ?p ex_flask = Inr (ex_flask[1 := e])
          \<and> Version e = ''3.0.0'' \<and> Name e = Name (ex_flask ! 1)"
    by (simp add: h7)
  from a a' b c h2 ex_range(1) show ?thesis by blast
qed

end
